(* ===== verification/Prelude.thy ===== *)
theory Prelude
  imports Main "HOL-Library.Sublist"
begin

text \<open>
  Shared vocabulary of the development. A JavaScript string of the generator is modelled
  as the UTF-8 bytes that JSZip finally writes (\<open>string = char list\<close>, one \<open>char\<close> per
  byte). The builtins the generator calls (\<open>split\<close>, \<open>trim\<close>, \<open>join\<close>, \<open>replace\<close>,
  \<open>toLowerCase\<close>) only ever test or produce ASCII characters, and an ASCII byte never occurs
  inside the UTF-8 encoding of another character, so they act on the bytes exactly as on
  the UTF-16 code units of the engine (up to the non-ASCII white space, see
  \<open>Js_Builtins\<close>). This theory holds the collections of facts and the list lemmas that
  the component theories share.
\<close>

named_theorems js_defs "definitions of the JavaScript builtins, unfolded to evaluate a concrete call"
named_theorems gen_defs "definitions of the generator's templates and transformers, for evaluation"

type_synonym js_string = string

text \<open>\<open>char_of\<close> on a numeral is evaluated bit by bit.\<close>

lemmas char_eval = char_of_def bit_0

subsection \<open>Lists\<close>

lemma sublist_append_mono [intro]:
  "sublist xs ys \<Longrightarrow> sublist xs (ps @ ys @ ss)"
  by (metis sublist_appendI sublist_order.dual_order.trans)

lemma prefix_rev_dropWhile_rev: "prefix (rev (dropWhile P (rev xs))) xs"
proof -
  have "suffix (dropWhile P (rev xs)) (rev xs)" by (rule suffix_dropWhile)
  then show ?thesis by (simp add: suffix_to_prefix)
qed

end
