(* ===== verification/Js_Builtins.thy ===== *)
theory Js_Builtins
  imports Prelude
begin

text \<open>
  The ECMAScript builtins that the generator \<open>src/src/utils/generatePortfolio.js\<close>
  calls on strings and arrays, as HOL functions over byte strings (see \<open>Prelude\<close>):
  \<open>String.prototype.trim\<close>, \<open>split\<close> with a one-character separator,
  \<open>Array.prototype.join\<close>, \<open>toLowerCase\<close>, \<open>replace(/\s+/g, '-')\<close>, the truthiness
  of a string (\<open>filter(Boolean)\<close>, \<open>p => p.title\<close>, \<open>cond ? a : b\<close>), the conversion
  of an array index to a string inside a template literal, and \<open>Array.prototype.map\<close>
  with its index argument. They are not code of the repository: each is modelled from
  the ECMAScript specification. White space is the ASCII part of ECMAScript's
  WhiteSpace and LineTerminator sets; the non-ASCII ones (U+00A0, U+FEFF, U+2028, ...)
  and the non-ASCII case mappings of \<open>toLowerCase\<close> are not modelled.
\<close>

subsection \<open>White space and \<open>trim\<close>\<close>

definition is_js_space :: "char \<Rightarrow> bool" where
  "is_js_space c \<longleftrightarrow> c \<in> set [CHR 0x09, CHR 0x0A, CHR 0x0B, CHR 0x0C, CHR 0x0D, CHR 0x20]"

definition js_trim :: "string \<Rightarrow> string" where
  "js_trim s = rev (dropWhile is_js_space (rev (dropWhile is_js_space s)))"

subsection \<open>\<open>split\<close> with a one-character separator\<close>

text \<open>\<open>"".split(",")\<close> is \<open>[""]\<close>: the result is never empty.\<close>

fun js_split :: "char \<Rightarrow> string \<Rightarrow> string list" where
  "js_split c [] = [[]]"
| "js_split c (x # xs) =
     (let r = js_split c xs in if x = c then [] # r else (x # hd r) # tl r)"

subsection \<open>\<open>Array.prototype.join\<close>\<close>

fun js_join :: "string \<Rightarrow> string list \<Rightarrow> string" where
  "js_join sep [] = []"
| "js_join sep [x] = x"
| "js_join sep (x # y # ys) = x @ sep @ js_join sep (y # ys)"

subsection \<open>\<open>toLowerCase\<close> and \<open>replace(/\s+/g, '-')\<close>\<close>

definition js_lower_char :: "char \<Rightarrow> char" where
  "js_lower_char c =
     (let n = (of_char c :: nat) in if 65 \<le> n \<and> n \<le> 90 then char_of (n + 32) else c)"

definition js_lower :: "string \<Rightarrow> string" where
  "js_lower s = map js_lower_char s"

definition is_ascii_upper :: "char \<Rightarrow> bool" where
  "is_ascii_upper c \<longleftrightarrow> 65 \<le> (of_char c :: nat) \<and> (of_char c :: nat) \<le> 90"

text \<open>Every maximal run of white space becomes one hyphen.\<close>

function js_ws_to_hyphen :: "string \<Rightarrow> string" where
  "js_ws_to_hyphen [] = []"
| "js_ws_to_hyphen (c # cs) =
     (if is_js_space c then CHR ''-'' # js_ws_to_hyphen (dropWhile is_js_space cs)
      else c # js_ws_to_hyphen cs)"
  by pat_completeness auto
termination
  by (relation "measure length") (auto simp: le_imp_less_Suc length_dropWhile_le)

subsection \<open>Truthiness of a string\<close>

definition js_truthy :: "string \<Rightarrow> bool" where
  "js_truthy s \<longleftrightarrow> s \<noteq> []"

subsection \<open>An array index inside a template literal\<close>

fun js_nat_str :: "nat \<Rightarrow> string" where
  "js_nat_str n =
     (if n < 10 then [''0123456789'' ! n]
      else js_nat_str (n div 10) @ [''0123456789'' ! (n mod 10)])"

declare js_nat_str.simps [simp del]

subsection \<open>\<open>Array.prototype.map\<close> with the index argument\<close>

definition js_map_idx :: "('a \<Rightarrow> nat \<Rightarrow> 'b) \<Rightarrow> 'a list \<Rightarrow> 'b list" where
  "js_map_idx f xs = map (\<lambda>(i, x). f x i) (zip [0..<length xs] xs)"

declare is_js_space_def [js_defs] js_trim_def [js_defs] js_lower_char_def [js_defs]
  js_lower_def [js_defs] js_truthy_def [js_defs] js_map_idx_def [js_defs]

subsection \<open>Properties of \<open>trim\<close>\<close>

lemma dropWhile_rev_hd:
  "dropWhile P xs \<noteq> [] \<Longrightarrow> \<not> P (hd (dropWhile P xs))"
  by (induction xs) auto

lemma dropWhile_all_iff:
  "(\<forall>x\<in>set (dropWhile P xs). P x) \<longleftrightarrow> (\<forall>x\<in>set xs. P x)"
  by (induction xs) auto

lemma js_trim_Nil_iff:
  "js_trim s = [] \<longleftrightarrow> (\<forall>c\<in>set s. is_js_space c)"
  by (simp add: js_trim_def dropWhile_all_iff)

lemma js_trim_last:
  "js_trim s \<noteq> [] \<Longrightarrow> \<not> is_js_space (last (js_trim s))"
proof -
  assume ne: "js_trim s \<noteq> []"
  let ?e = "dropWhile is_js_space (rev (dropWhile is_js_space s))"
  have "rev ?e \<noteq> []" using ne unfolding js_trim_def by assumption
  then have "?e \<noteq> []" by simp
  then have "\<not> is_js_space (hd ?e)" by (rule dropWhile_rev_hd)
  moreover have "last (js_trim s) = hd ?e" by (simp only: js_trim_def last_rev)
  ultimately show ?thesis by simp
qed

lemma js_trim_hd:
  "js_trim s \<noteq> [] \<Longrightarrow> \<not> is_js_space (hd (js_trim s))"
proof -
  assume ne: "js_trim s \<noteq> []"
  let ?d = "dropWhile is_js_space s"
  have "?d \<noteq> []"
  proof
    assume "?d = []"
    then have "js_trim s = []" by (simp only: js_trim_def rev.simps dropWhile.simps)
    with ne show False by simp
  qed
  then obtain x xs where d: "?d = x # xs" by (cases ?d) auto
  have nx: "\<not> is_js_space x"
    using dropWhile_rev_hd [OF \<open>?d \<noteq> []\<close>] d by simp
  have "js_trim s = x # rev (dropWhile is_js_space (rev xs))"
    using nx by (simp add: js_trim_def d dropWhile_append3)
  with nx show ?thesis by simp
qed

lemma js_trim_sublist: "sublist (js_trim s) s"
proof -
  have "prefix (js_trim s) (dropWhile is_js_space s)"
    unfolding js_trim_def by (rule prefix_rev_dropWhile_rev)
  moreover have "suffix (dropWhile is_js_space s) s" by (rule suffix_dropWhile)
  ultimately show ?thesis
    using prefix_imp_sublist suffix_imp_sublist sublist_order.order.trans by blast
qed

lemma dropWhile_hd_stop: "xs = [] \<or> \<not> P (hd xs) \<Longrightarrow> dropWhile P xs = xs"
  by (cases xs) auto

lemma js_trim_fix:
  assumes "t = [] \<or> \<not> is_js_space (hd t) \<and> \<not> is_js_space (last t)"
  shows "js_trim t = t"
proof -
  have d1: "dropWhile is_js_space t = t"
    using assms by (intro dropWhile_hd_stop) auto
  have "rev t = [] \<or> \<not> is_js_space (hd (rev t))"
    using assms by (auto simp: hd_rev)
  then have "dropWhile is_js_space (rev t) = rev t" by (rule dropWhile_hd_stop)
  with d1 show ?thesis by (simp add: js_trim_def)
qed

lemma js_trim_idem: "js_trim (js_trim s) = js_trim s"
  using js_trim_hd js_trim_last by (blast intro: js_trim_fix)

subsection \<open>Properties of \<open>split\<close> and \<open>join\<close>\<close>

lemma js_split_not_Nil [simp]: "js_split c s \<noteq> []"
  by (induction s) (auto simp: Let_def)

lemma js_join_Cons_split:
  "ws \<noteq> [] \<Longrightarrow> js_join sep ((x # hd ws) # tl ws) = x # js_join sep ws"
  by (cases ws; cases "tl ws") auto

lemma js_join_Cons_ne:
  "ys \<noteq> [] \<Longrightarrow> js_join sep (x # ys) = x @ sep @ js_join sep ys"
  by (cases ys) auto

lemma js_join_split: "js_join [c] (js_split c s) = s"
proof (induction s)
  case Nil
  then show ?case by simp
next
  case (Cons x xs)
  show ?case
  proof (cases "x = c")
    case True
    then show ?thesis using Cons.IH
      by (cases "js_split c xs") (auto simp: Let_def)
  next
    case False
    then show ?thesis using Cons.IH by (simp add: Let_def js_join_Cons_split)
  qed
qed

lemma js_split_sep_free: "w \<in> set (js_split c s) \<Longrightarrow> c \<notin> set w"
proof (induction s arbitrary: w)
  case Nil
  then show ?case by simp
next
  case (Cons x xs)
  have ne: "js_split c xs \<noteq> []" by simp
  show ?case
  proof (cases "x = c")
    case True
    with Cons show ?thesis by (auto simp: Let_def)
  next
    case False
    with Cons.prems have "w = x # hd (js_split c xs) \<or> w \<in> set (tl (js_split c xs))"
      by (auto simp: Let_def)
    then show ?thesis
      using Cons.IH False ne by (metis hd_in_set list.set_sel(2) set_ConsD)
  qed
qed

lemma length_js_split: "length (js_split c s) = Suc (count_list s c)"
  by (induction s) (auto simp: Let_def)

lemma js_split_no_sep: "c \<notin> set s \<Longrightarrow> js_split c s = [s]"
  by (induction s) (auto simp: Let_def)

lemma js_split_append_sep:
  "js_split c (xs @ c # ys) = js_split c xs @ js_split c ys"
proof (induction xs)
  case Nil
  then show ?case by (simp add: Let_def)
next
  case (Cons x xs)
  then show ?case
    by (cases "js_split c xs") (auto simp: Let_def)
qed

lemma js_split_join:
  "ws \<noteq> [] \<Longrightarrow> (\<forall>w\<in>set ws. c \<notin> set w) \<Longrightarrow> js_split c (js_join [c] ws) = ws"
proof (induction ws)
  case Nil
  then show ?case by simp
next
  case (Cons x ws)
  then show ?case
    by (cases ws) (auto simp: js_split_append_sep js_split_no_sep)
qed

lemma sublist_js_join: "x \<in> set xs \<Longrightarrow> sublist x (js_join sep xs)"
proof (induction sep xs rule: js_join.induct)
  case (3 sep z y ys)
  show ?case
  proof (cases "x = z")
    case True
    then show ?thesis by simp
  next
    case False
    with "3.prems" have "sublist x (js_join sep (y # ys))" by (intro "3.IH") simp
    then have "sublist x ((z @ sep) @ js_join sep (y # ys))"
      using sublist_append_leftI sublist_order.order.trans by blast
    then show ?thesis by simp
  qed
qed auto

lemma sublist_js_split: "w \<in> set (js_split c s) \<Longrightarrow> sublist w s"
  using sublist_js_join [of w "js_split c s" "[c]"] by (simp add: js_join_split)

lemma js_join_append_sep:
  "xs \<noteq> [] \<Longrightarrow> ys \<noteq> [] \<Longrightarrow> js_join sep (xs @ ys) = js_join sep xs @ sep @ js_join sep ys"
proof (induction xs)
  case Nil
  then show ?case by simp
next
  case (Cons x xs)
  then show ?case by (cases "xs = []") (auto simp: js_join_Cons_ne)
qed

lemma length_js_join:
  "length (js_join sep xs) = sum_list (map length xs) + (length xs - 1) * length sep"
  by (induction sep xs rule: js_join.induct) auto

subsection \<open>Properties of \<open>toLowerCase\<close> and the white-space replacement\<close>

lemma length_js_lower [simp]: "length (js_lower s) = length s"
  by (simp add: js_lower_def)

lemma js_lower_char_not_upper: "\<not> is_ascii_upper (js_lower_char c)"
proof -
  have "of_char (char_of (of_char c + 32 :: nat)) = ((of_char c + 32) mod 256 :: nat)"
    by (rule of_char_of)
  then show ?thesis
    by (auto simp: js_lower_char_def is_ascii_upper_def Let_def)
qed

lemma js_lower_no_upper: "c \<in> set (js_lower s) \<Longrightarrow> \<not> is_ascii_upper c"
  by (auto simp: js_lower_def js_lower_char_not_upper)

lemma js_lower_char_id: "\<not> is_ascii_upper c \<Longrightarrow> js_lower_char c = c"
  by (auto simp add: js_lower_char_def is_ascii_upper_def Let_def)

lemma js_lower_idem: "js_lower (js_lower s) = js_lower s"
  by (simp add: js_lower_def js_lower_char_id js_lower_char_not_upper)

lemma is_js_space_le_32: "is_js_space c \<Longrightarrow> (of_char c :: nat) \<le> 32"
  by (auto simp: is_js_space_def)

lemma of_char_js_lower_char:
  "is_ascii_upper c \<Longrightarrow> (of_char (js_lower_char c) :: nat) = of_char c + 32"
  by (auto simp: js_lower_char_def is_ascii_upper_def Let_def of_char_of)

lemma js_lower_char_space: "is_js_space (js_lower_char c) \<longleftrightarrow> is_js_space c"
proof (cases "is_ascii_upper c")
  case True
  then have "\<not> is_js_space c" and "\<not> is_js_space (js_lower_char c)"
    using is_js_space_le_32 of_char_js_lower_char [OF True]
    by (fastforce simp: is_ascii_upper_def)+
  then show ?thesis by simp
next
  case False
  then show ?thesis by (simp add: js_lower_char_id)
qed

lemma js_ws_to_hyphen_no_space: "c \<in> set (js_ws_to_hyphen s) \<Longrightarrow> \<not> is_js_space c"
  by (induction s rule: js_ws_to_hyphen.induct) (auto simp: is_js_space_def split: if_splits)

lemma js_ws_to_hyphen_id: "\<forall>c\<in>set s. \<not> is_js_space c \<Longrightarrow> js_ws_to_hyphen s = s"
  by (induction s rule: js_ws_to_hyphen.induct) auto

lemma length_js_ws_to_hyphen: "length (js_ws_to_hyphen s) \<le> length s"
proof (induction s rule: js_ws_to_hyphen.induct)
  case (2 c cs)
  then show ?case
    using length_dropWhile_le [of is_js_space cs] by auto
qed simp

subsection \<open>Properties of the index string\<close>

fun digits_val :: "string \<Rightarrow> nat" where
  "digits_val [] = 0"
| "digits_val (d # ds) = (of_char d - 48) * 10 ^ length ds + digits_val ds"

lemma js_nat_str_not_Nil [simp]: "js_nat_str n \<noteq> []"
  by (subst js_nat_str.simps) simp

lemma digit_char_val: "d < 10 \<Longrightarrow> of_char (''0123456789'' ! d) - 48 = d"
proof -
  assume "d < 10"
  then have "d \<in> {0, 1, 2, 3, 4, 5, 6, 7, 8, 9}" by auto
  then show ?thesis by auto
qed

lemma digits_val_snoc:
  "digits_val (xs @ [d]) = 10 * digits_val xs + (of_char d - 48)"
  by (induction xs) (auto simp: algebra_simps)

lemma digits_val_js_nat_str: "digits_val (js_nat_str n) = n"
proof (induction n rule: js_nat_str.induct)
  case (1 n)
  show ?case
  proof (cases "n < 10")
    case True
    then show ?thesis by (simp add: js_nat_str.simps [of n] digit_char_val)
  next
    case False
    then have "digits_val (js_nat_str n) = 10 * (n div 10) + n mod 10"
      using "1.IH" by (simp add: js_nat_str.simps [of n] digits_val_snoc digit_char_val)
    then show ?thesis by simp
  qed
qed

lemma js_nat_str_inj: "js_nat_str m = js_nat_str n \<longleftrightarrow> m = n"
  by (metis digits_val_js_nat_str)

lemma js_nat_str_digits: "set (js_nat_str n) \<subseteq> set ''0123456789''"
proof (induction n rule: js_nat_str.induct)
  case (1 n)
  have dig: "''0123456789'' ! (n mod 10) \<in> set ''0123456789''"
    by (rule nth_mem) simp
  show ?case
  proof (cases "n < 10")
    case True
    then have "''0123456789'' ! n \<in> set ''0123456789''" by (intro nth_mem) simp
    moreover have "js_nat_str n = [''0123456789'' ! n]"
      using True by (simp add: js_nat_str.simps [of n])
    ultimately show ?thesis by (simp only: list.set empty_subsetI insert_subset)
  next
    case False
    have ih: "set (js_nat_str (n div 10)) \<subseteq> set ''0123456789''"
      using "1.IH" False by blast
    have "js_nat_str n = js_nat_str (n div 10) @ [''0123456789'' ! (n mod 10)]"
      using False by (simp add: js_nat_str.simps [of n])
    with ih dig show ?thesis
      by (simp only: set_append list.set Un_subset_iff insert_subset empty_subsetI simp_thms)
  qed
qed

subsection \<open>Properties of \<open>map\<close> with the index\<close>

lemma length_js_map_idx [simp]: "length (js_map_idx f xs) = length xs"
  by (simp add: js_map_idx_def)

lemma nth_js_map_idx [simp]:
  "i < length xs \<Longrightarrow> js_map_idx f xs ! i = f (xs ! i) i"
  by (simp add: js_map_idx_def)

lemma map_zip_snd: "length is = length xs \<Longrightarrow> map (\<lambda>(i, x). g x) (zip is xs) = map g xs"
  by (induction xs arbitrary: "is") (auto simp: length_Suc_conv)

lemma js_map_idx_map: "js_map_idx (\<lambda>x i. g x) xs = map g xs"
  by (simp add: js_map_idx_def map_zip_snd)

lemma map_zip_fst: "length is = length xs \<Longrightarrow> map (\<lambda>(i, x). g i) (zip is xs) = map g is"
  by (induction xs arbitrary: "is") (auto simp: length_Suc_conv)

lemma js_map_idx_index: "js_map_idx (\<lambda>x i. g i) xs = map g [0..<length xs]"
  by (simp add: js_map_idx_def map_zip_fst)

lemma map_js_map_idx: "map g (js_map_idx f xs) = js_map_idx (\<lambda>x i. g (f x i)) xs"
  by (simp add: js_map_idx_def case_prod_beta)


lemma js_map_idx_Cons: "js_map_idx f (x # xs) = f x 0 # js_map_idx (\<lambda>y i. f y (Suc i)) xs"
  by (rule nth_equalityI) (simp_all add: nth_Cons split: nat.split)

subsection \<open>Lower-casing keeps white space\<close>

lemma js_lower_char_hyphen: "js_lower_char (CHR ''-'') = CHR ''-''"
  by (simp add: js_lower_char_def)

lemma dropWhile_space_lower:
  "dropWhile is_js_space (map js_lower_char cs) = map js_lower_char (dropWhile is_js_space cs)"
  by (induction cs) (simp_all add: js_lower_char_space)

end
