(* ===== verification/Form_Data.thy ===== *)
theory Form_Data
  imports Js_Builtins
begin

text \<open>
  The content record the generator reads: the \<open>formData\<close> state object of
  \<open>src/src/components/CloneModal.jsx\<close> (lines 8--21) with its project entries
  (line 18), as records with the source's fields. Two fields of a project share their
  name with a field of the form (\<open>title\<close>, \<open>github\<close>); the project's are prefixed
  with \<open>p\<close>. The resume is a browser \<open>File\<close> or \<open>null\<close>; it is never read by the
  generator, so only its presence is kept (the file name).
\<close>

record project =
  ptitle :: string
  pdescription :: string
  tech :: string
  link :: string
  pgithub :: string

record form_data =
  name :: string
  title :: string
  email :: string
  phone :: string
  location :: string
  about :: string
  github :: string
  linkedin :: string
  twitter :: string
  projects :: "project list"
  skills :: string
  resume :: "string option"

definition empty_project :: project where
  "empty_project = \<lparr>ptitle = [], pdescription = [], tech = [], link = [], pgithub = []\<rparr>"

definition initial_form_data :: form_data where
  "initial_form_data =
     \<lparr>name = [], title = [], email = [], phone = [], location = [], about = [],
      github = [], linkedin = [], twitter = [], projects = [empty_project], skills = [],
      resume = None\<rparr>"

end
