(* ===== verification/Js_Number.thy ===== *)
theory Js_Number
  imports Complex_Main Prelude "HOL-Library.Word"
begin

text \<open>
  The engine arithmetic behind a skill's proficiency value, \<open>75 + Math.random() * 20\<close>
  (\<open>generateSkillsContent\<close>). A JavaScript number is an IEEE-754 binary64 value; the
  values arising here are non-negative and far from overflow and underflow, so a
  number is modelled as the exact rational it denotes and each operation as the exact
  result rounded to the nearest binary64 value, ties to even (\<open>fp_round\<close>).
  \<open>Math.random()\<close> is the injectable random source of the pipeline: its \<open>i\<close>-th call
  returns \<open>k \<cdot> 2\<^sup>-\<^sup>5\<^sup>3\<close> for the 53-bit word \<open>k\<close> the source supplies (the form of
  the values V8's xorshift128+ generator returns), so a value lies in \<open>[0, 1)\<close> by its
  type. The conversion of a number to text (\<open>Number::toString\<close>, the shortest
  round-tripping decimal) is not modelled: it is the \<open>number_str\<close> parameter of the
  engine record \<open>js_env\<close>.
\<close>

function bitlen :: "int \<Rightarrow> nat" where
  "bitlen n = (if n \<le> 0 then 0 else Suc (bitlen (n div 2)))"
  by pat_completeness auto
termination
  by (relation "measure nat") auto

declare bitlen.simps [simp del]

definition pow2 :: "int \<Rightarrow> rat" where
  "pow2 k = (if 0 \<le> k then 2 ^ nat k else inverse (2 ^ nat (- k)))"

text \<open>The exponent of the leading bit of a positive rational \<open>x\<close>:
  \<open>2 ^ msb_exp x \<le> x < 2 ^ (msb_exp x + 1)\<close>.\<close>

definition msb_exp :: "rat \<Rightarrow> int" where
  "msb_exp x =
     (let (a, b) = quotient_of x; k = int (bitlen a) - int (bitlen b)
      in if pow2 k \<le> x then k else k - 1)"

definition round_even :: "rat \<Rightarrow> int" where
  "round_even q =
     (let f = \<lfloor>q\<rfloor>; d = q - of_int f
      in if d < 1 / 2 then f else if 1 / 2 < d then f + 1 else if even f then f else f + 1)"

definition fp_round :: "rat \<Rightarrow> rat" where
  "fp_round x =
     (if x = 0 then 0
      else let s = (if x < 0 then -1 else 1); y = \<bar>x\<bar>; e = msb_exp y - 52
           in s * (of_int (round_even (y / pow2 e)) * pow2 e))"

definition fp_add :: "rat \<Rightarrow> rat \<Rightarrow> rat" where
  "fp_add x y = fp_round (x + y)"

definition fp_mul :: "rat \<Rightarrow> rat \<Rightarrow> rat" where
  "fp_mul x y = fp_round (x * y)"

definition fp_sub :: "rat \<Rightarrow> rat \<Rightarrow> rat" where
  "fp_sub x y = fp_round (x - y)"

text \<open>Division by a non-zero number; a zero divisor gives \<open>NaN\<close> or an infinity, which the
  callers below treat as a case of their own.\<close>

definition fp_div :: "rat \<Rightarrow> rat \<Rightarrow> rat" where
  "fp_div x y = fp_round (x / y)"

text \<open>\<open>Math.round\<close> on a finite number: the nearest integer, halves rounded up.\<close>

definition js_math_round :: "rat \<Rightarrow> int" where
  "js_math_round q = \<lfloor>q + 1 / 2\<rfloor>"

text \<open>The remainder operator \<open>%\<close> on integral numbers: the sign of the dividend, and
  \<open>NaN\<close> (\<open>None\<close>) for a zero divisor.\<close>

definition js_rem :: "int \<Rightarrow> int \<Rightarrow> int option" where
  "js_rem a b = (if b = 0 then None else Some (sgn a * (\<bar>a\<bar> mod \<bar>b\<bar>)))"

record js_env =
  random_bits :: "nat \<Rightarrow> 53 word"
  number_str :: "rat \<Rightarrow> string"

definition math_random :: "js_env \<Rightarrow> nat \<Rightarrow> rat" where
  "math_random env i = of_int (uint (random_bits env i)) / 9007199254740992"

subsection \<open>Rounding is monotone\<close>

lemma bitlen_pos: "0 < n \<Longrightarrow> bitlen n = Suc (bitlen (n div 2))"
  by (simp add: bitlen.simps)

lemma bitlen_bounds:
  "0 < n \<Longrightarrow> 2 ^ (bitlen n - 1) \<le> n \<and> n < 2 ^ bitlen n"
proof (induction n rule: bitlen.induct)
  case (1 n)
  show ?case
  proof (cases "n div 2 = 0")
    case True
    with "1.prems" have "n = 1" by linarith
    then show ?thesis by (simp add: bitlen_pos bitlen.simps)
  next
    case False
    with "1.prems" have h: "0 < n div 2" by linarith
    with "1.IH" "1.prems" have ih: "2 ^ (bitlen (n div 2) - 1) \<le> n div 2 \<and> n div 2 < 2 ^ bitlen (n div 2)"
      by simp
    have b: "0 < bitlen (n div 2)" using h by (simp add: bitlen_pos)
    have "2 ^ bitlen (n div 2) = (2::int) * 2 ^ (bitlen (n div 2) - 1)"
      using b by (metis Suc_diff_1 power_Suc)
    with ih have "2 ^ bitlen (n div 2) \<le> n" by linarith
    moreover have "n < 2 * 2 ^ bitlen (n div 2)" using ih by linarith
    ultimately show ?thesis using "1.prems" by (simp add: bitlen_pos)
  qed
qed

lemma pow2_powi: "pow2 k = 2 powi k"
  by (simp add: pow2_def power_int_def power_one_over inverse_eq_divide)

lemma pow2_pos [simp]: "0 < pow2 k"
  by (simp add: pow2_powi)

lemma pow2_add: "pow2 (a + b) = pow2 a * pow2 b"
  by (simp add: pow2_powi power_int_add)

lemma pow2_diff: "pow2 (a - b) = pow2 a / pow2 b"
  by (simp add: pow2_powi power_int_diff)

lemma pow2_of_nat [simp]: "pow2 (int n) = 2 ^ n"
  by (simp add: pow2_def)

lemma pow2_numeral [simp]: "pow2 (numeral k) = 2 ^ numeral k"
  by (simp add: pow2_def)

lemma pow2_one [simp]: "pow2 1 = 2"
  by (simp add: pow2_def)

lemma pow2_mono: "a \<le> b \<Longrightarrow> pow2 a \<le> pow2 b"
  by (simp add: pow2_powi power_int_increasing)

lemma pow2_strict_mono: "a < b \<Longrightarrow> pow2 a < pow2 b"
  by (simp add: pow2_powi power_int_strict_increasing)

lemma msb_exp_bounds:
  assumes "0 < x"
  shows "pow2 (msb_exp x) \<le> x \<and> x < pow2 (msb_exp x + 1)"
proof -
  obtain a b where q: "quotient_of x = (a, b)" by (cases "quotient_of x")
  have x: "x = of_int a / of_int b" using q by (rule quotient_of_div)
  have b0: "0 < b" using q by (rule quotient_of_denom_pos)
  have a0: "0 < a" using assms x b0 by (simp add: zero_less_divide_iff)
  define la lb where "la = bitlen a" and "lb = bitlen b"
  have A: "2 ^ (la - 1) \<le> a" "a < 2 ^ la" using bitlen_bounds [OF a0] by (simp_all add: la_def)
  have B: "2 ^ (lb - 1) \<le> b" "b < 2 ^ lb" using bitlen_bounds [OF b0] by (simp_all add: lb_def)
  have la: "0 < la" "0 < lb" using a0 b0 by (simp_all add: la_def lb_def bitlen_pos)
  define k where "k = int la - int lb"
  have Ar: "(2::rat) ^ (la - 1) \<le> of_int a" "of_int a < (2::rat) ^ la"
    using A by (metis of_int_le_iff of_int_numeral of_int_power, metis of_int_less_iff of_int_numeral of_int_power)
  have Br: "(2::rat) ^ (lb - 1) \<le> of_int b" "of_int b < (2::rat) ^ lb"
    using B by (metis of_int_le_iff of_int_numeral of_int_power, metis of_int_less_iff of_int_numeral of_int_power)
  have bpos: "(0::rat) < of_int b" using b0 by simp
  have lo: "pow2 (k - 1) < x"
  proof -
    have "k - 1 = int (la - 1) - int lb" using la by (simp add: k_def)
    then have "pow2 (k - 1) = 2 ^ (la - 1) / 2 ^ lb" by (simp add: pow2_diff)
    also have "\<dots> < of_int a / of_int b"
      using Ar Br bpos by (simp add: frac_less2 less_le_trans [of 0 "2 ^ (la - 1)"])
    finally show ?thesis using x by simp
  qed
  have hi: "x < pow2 (k + 1)"
  proof -
    have "of_int a / of_int b < (2::rat) ^ la / 2 ^ (lb - 1)"
      by (rule frac_less) (use Ar Br a0 in simp_all)
    also have "\<dots> = pow2 (k + 1)"
    proof -
      have "k + 1 = int la - int (lb - 1)" using la by (simp add: k_def)
      then show ?thesis by (simp add: pow2_diff)
    qed
    finally show ?thesis using x by simp
  qed
  have m: "msb_exp x = (if pow2 k \<le> x then k else k - 1)"
    by (simp add: msb_exp_def q k_def la_def lb_def Let_def)
  show ?thesis
  proof (cases "pow2 k \<le> x")
    case True
    then show ?thesis using m hi by simp
  next
    case False
    then show ?thesis using m lo by simp
  qed
qed

lemma round_even_bounds: "\<lfloor>q\<rfloor> \<le> round_even q \<and> round_even q \<le> \<lfloor>q\<rfloor> + 1"
  by (simp add: round_even_def Let_def)

lemma round_even_of_int [simp]: "round_even (of_int n) = n"
  by (simp add: round_even_def)

lemma round_even_mono:
  assumes "q1 \<le> q2"
  shows "round_even q1 \<le> round_even q2"
proof (cases "\<lfloor>q1\<rfloor> < \<lfloor>q2\<rfloor>")
  case True
  then show ?thesis using round_even_bounds [of q1] round_even_bounds [of q2] by linarith
next
  case False
  with floor_mono [OF assms] have f: "\<lfloor>q1\<rfloor> = \<lfloor>q2\<rfloor>" by linarith
  then show ?thesis using assms by (auto simp: round_even_def Let_def)
qed

lemma fp_round_pos:
  "0 < x \<Longrightarrow> fp_round x = of_int (round_even (x / pow2 (msb_exp x - 52))) * pow2 (msb_exp x - 52)"
  by (simp add: fp_round_def Let_def)

lemma scaled_bounds:
  assumes "0 < x"
  shows "2 ^ 52 \<le> x / pow2 (msb_exp x - 52) \<and> x / pow2 (msb_exp x - 52) < 2 ^ 53"
proof -
  have b: "pow2 (msb_exp x) \<le> x" "x < pow2 (msb_exp x + 1)" using msb_exp_bounds [OF assms] by simp_all
  have p: "pow2 (msb_exp x - 52) = pow2 (msb_exp x) / 2 ^ 52"
    using pow2_diff [of "msb_exp x" 52] by simp
  have p1: "pow2 (msb_exp x + 1) = pow2 (msb_exp x) * 2" by (simp add: pow2_add)
  have pos: "0 < pow2 (msb_exp x)" by simp
  have "x / pow2 (msb_exp x - 52) = x * 2 ^ 52 / pow2 (msb_exp x)"
    unfolding p using pos by (simp add: field_simps)
  moreover have "2 ^ 52 \<le> x * 2 ^ 52 / pow2 (msb_exp x)" using b(1) pos by (simp add: le_divide_eq)
  moreover have "x * 2 ^ 52 / pow2 (msb_exp x) < 2 ^ 53" using b(2) p1 pos by (simp add: divide_less_eq)
  ultimately show ?thesis by simp
qed

lemma fp_round_nonneg: "0 \<le> x \<Longrightarrow> 0 \<le> fp_round x"
proof (cases "x = 0")
  case False
  assume "0 \<le> x"
  with False have x: "0 < x" by simp
  have "0 \<le> round_even (x / pow2 (msb_exp x - 52))"
    using round_even_bounds [of "x / pow2 (msb_exp x - 52)"] scaled_bounds [OF x]
    by (metis floor_mono floor_numeral le_floor_iff order.trans of_int_0 zero_le_numeral zero_le_power)
  then have "0 \<le> of_int (round_even (x / pow2 (msb_exp x - 52))) * pow2 (msb_exp x - 52)"
    by (intro mult_nonneg_nonneg) (simp_all add: less_imp_le)
  then show ?thesis using x by (simp add: fp_round_pos)
qed (simp add: fp_round_def)

lemma msb_exp_mono: "0 < x \<Longrightarrow> x \<le> y \<Longrightarrow> msb_exp x \<le> msb_exp y"
proof (rule ccontr)
  assume x: "0 < x" and xy: "x \<le> y" and "\<not> msb_exp x \<le> msb_exp y"
  then have "msb_exp y + 1 \<le> msb_exp x" by simp
  then have "pow2 (msb_exp y + 1) \<le> pow2 (msb_exp x)" by (rule pow2_mono)
  moreover have "pow2 (msb_exp x) \<le> x" using msb_exp_bounds [OF x] by simp
  moreover have "y < pow2 (msb_exp y + 1)" using msb_exp_bounds [of y] x xy by simp
  ultimately show False using xy by simp
qed

lemma fp_round_mono:
  assumes "0 \<le> x" "x \<le> y"
  shows "fp_round x \<le> fp_round y"
proof (cases "x = 0")
  case True
  then show ?thesis using fp_round_nonneg [of y] assms by (simp add: fp_round_def)
next
  case False
  with assms have x: "0 < x" and y: "0 < y" by simp_all
  define ex ey where "ex = msb_exp x - 52" and "ey = msb_exp y - 52"
  have le: "ex \<le> ey" using msb_exp_mono [OF x assms(2)] by (simp add: ex_def ey_def)
  show ?thesis
  proof (cases "ex = ey")
    case True
    have "x / pow2 ex \<le> y / pow2 ex" by (intro divide_right_mono assms(2) less_imp_le pow2_pos)
    then have "round_even (x / pow2 ex) \<le> round_even (y / pow2 ey)" using True by (simp add: round_even_mono)
    then show ?thesis using x y True by (simp add: fp_round_pos ex_def ey_def)
  next
    case False
    with le have lt: "ex + 1 \<le> ey" by simp
    have "round_even (x / pow2 ex) \<le> round_even (2 ^ 53)"
      using scaled_bounds [OF x] by (intro round_even_mono) (simp add: ex_def)
    then have "round_even (x / pow2 ex) \<le> 2 ^ 53"
      using round_even_of_int [of "2 ^ 53"] by simp
    then have "fp_round x \<le> 2 ^ 53 * pow2 ex"
      using x by (simp add: fp_round_pos ex_def [symmetric])
    also have "\<dots> = pow2 (ex + 53)" by (simp add: pow2_add)
    also have "\<dots> \<le> pow2 (ey + 52)" using lt by (intro pow2_mono) simp
    also have "\<dots> = 2 ^ 52 * pow2 ey" by (simp add: pow2_add)
    also have "\<dots> \<le> fp_round y"
    proof -
      have "round_even (2 ^ 52) \<le> round_even (y / pow2 ey)"
        using scaled_bounds [OF y] by (intro round_even_mono) (simp add: ey_def)
      then have "2 ^ 52 \<le> round_even (y / pow2 ey)"
        using round_even_of_int [of "2 ^ 52"] by simp
      then have "(2 ^ 52 :: rat) \<le> of_int (round_even (y / pow2 ey))"
        by (metis of_int_le_iff of_int_numeral of_int_power)
      then show ?thesis using y by (simp add: fp_round_pos ey_def [symmetric])
    qed
    finally show ?thesis .
  qed
qed

lemma fp_round_exact_small:
  "fp_round 0 = 0" "fp_round 1 = 1" "fp_round 20 = 20" "fp_round 75 = 75" "fp_round 95 = 95"
  "fp_round 100 = 100" "fp_round 176 = 176" "fp_round 17600 = 17600"
  by code_simp+

lemma math_random_range: "0 \<le> math_random env i \<and> math_random env i < 1"
proof -
  have "uint (random_bits env i) < 2 ^ LENGTH(53)" by (rule uint_lt2p)
  then have "uint (random_bits env i) < 9007199254740992" by simp
  then have "rat_of_int (uint (random_bits env i)) < 9007199254740992"
    by (metis of_int_less_iff of_int_numeral)
  moreover have "0 \<le> uint (random_bits env i)" by (rule uint_ge_0)
  then have "0 \<le> rat_of_int (uint (random_bits env i))" by (rule of_int_nonneg)
  ultimately show ?thesis by (simp add: math_random_def)
qed

text \<open>Rounding a value that lies between two representable numbers stays between them.\<close>

lemma fp_round_between:
  "0 \<le> lo \<Longrightarrow> lo \<le> x \<Longrightarrow> x \<le> hi \<Longrightarrow> fp_round lo = lo \<Longrightarrow> fp_round hi = hi \<Longrightarrow>
   lo \<le> fp_round x \<and> fp_round x \<le> hi"
  using fp_round_mono [of lo x] fp_round_mono [of x hi] by simp

lemma js_rem_nonneg: "0 \<le> a \<Longrightarrow> 0 < b \<Longrightarrow> js_rem a b = Some (a mod b)"
  by (cases "a = 0") (simp_all add: js_rem_def)

end
