(* ===== verification/Transform.thy ===== *)
theory Transform
  imports Form_Data Js_Number
begin

text \<open>
  The content transformer: the data the generator derives from \<open>formData\<close> before it
  binds it into a template (\<open>src/src/utils/generatePortfolio.js\<close>). In the source these
  are expressions inside the \<open>generate*Content\<close> functions; here each is a definition
  of its own, used by the synthesizer (\<open>Synthesis\<close>):
  \<^item> \<open>skill_tokens\<close>: \<open>formData.skills.split(',').map(s => s.trim()).filter(Boolean)\<close>
    (line 419);
  \<^item> \<open>skill_entries\<close>: the first six tokens as \<open>{name, level, category}\<close>, the level
    \<open>75 + Math.random() * 20\<close> and the category taken round-robin (lines 433--437);
  \<^item> \<open>kept_projects\<close> and \<open>normalize_projects\<close>: \<open>formData.projects.filter(p => p.title)\<close>
    and the per-index record with the exploded \<open>tech\<close> list, placeholder image and
    colour (lines 290, 306--311);
  \<^item> \<open>hero_names\<close>: \<open>formData.name.split(' ')\<close> (line 97);
  \<^item> \<open>slugify\<close>: \<open>name.replace(/\s+/g, '-').toLowerCase()\<close> (lines 43, 163).
  \<open>norm_ref\<close> is the specification's formulation of the project numbering, against
  which the code is shown equivalent (C34), as the slug is against the specification's
  order of lower-casing and collapsing (C33).
\<close>

subsection \<open>Skills\<close>

definition skill_tokens :: "form_data \<Rightarrow> string list" where
  "skill_tokens fd = filter js_truthy (map js_trim (js_split (CHR '','') (skills fd)))"

definition skill_categories :: "string list" where
  "skill_categories = [''Frontend'', ''Backend'', ''Database'', ''Tools'', ''Language'', ''Framework'']"

record skill_entry =
  sk_name :: string
  sk_level :: rat
  sk_category :: string

definition skill_level :: "js_env \<Rightarrow> nat \<Rightarrow> rat" where
  "skill_level env i = fp_add 75 (fp_mul (math_random env i) 20)"

definition skill_entries :: "js_env \<Rightarrow> form_data \<Rightarrow> skill_entry list" where
  "skill_entries env fd =
     js_map_idx (\<lambda>skill i. \<lparr>sk_name = skill, sk_level = skill_level env i,
                          sk_category = skill_categories ! (i mod 6)\<rparr>)
       (take 6 (skill_tokens fd))"

subsection \<open>Projects\<close>

definition kept_projects :: "form_data \<Rightarrow> project list" where
  "kept_projects fd = filter (\<lambda>p. js_truthy (ptitle p)) (projects fd)"

definition project_colors :: "string list" where
  "project_colors =
     [''from-purple-500 to-pink-500'', ''from-blue-500 to-cyan-500'', ''from-green-500 to-emerald-500'']"

definition project_image :: "nat \<Rightarrow> string" where
  "project_image i = ''https://source.unsplash.com/800x600/?coding,technology&sig='' @ js_nat_str i"

record norm_project =
  np_title :: string
  np_description :: string
  np_tech :: "string list"
  np_link :: string
  np_github :: string
  np_image :: string
  np_color :: string

definition normalize_project :: "project \<Rightarrow> nat \<Rightarrow> norm_project" where
  "normalize_project p i =
     \<lparr>np_title = ptitle p, np_description = pdescription p,
      np_tech = map js_trim (js_split (CHR '','') (tech p)),
      np_link = link p, np_github = pgithub p,
      np_image = project_image i, np_color = project_colors ! (i mod 3)\<rparr>"

definition normalize_projects :: "form_data \<Rightarrow> norm_project list" where
  "normalize_projects fd = js_map_idx normalize_project (kept_projects fd)"

subsection \<open>Names\<close>

definition hero_names :: "form_data \<Rightarrow> string list" where
  "hero_names fd = js_split (CHR '' '') (name fd)"

definition slugify :: "string \<Rightarrow> string" where
  "slugify s = js_lower (js_ws_to_hyphen s)"

text \<open>The numbering the specification describes: one pass over the form's projects,
  skipping the untitled ones, with a counter of the kept ones.\<close>

fun norm_ref :: "nat \<Rightarrow> project list \<Rightarrow> norm_project list" where
  "norm_ref k [] = []"
| "norm_ref k (p # ps) =
     (if js_truthy (ptitle p) then normalize_project p k # norm_ref (Suc k) ps else norm_ref k ps)"

declare skill_tokens_def [gen_defs] skill_categories_def [gen_defs] skill_level_def [gen_defs]
  skill_entries_def [gen_defs] kept_projects_def [gen_defs] project_colors_def [gen_defs]
  project_image_def [gen_defs] normalize_project_def [gen_defs] normalize_projects_def [gen_defs]
  hero_names_def [gen_defs] slugify_def [gen_defs]

subsection \<open>Properties of the skills\<close>

text \<open>C3: every skill token the generator renders is non-empty, has no white space at
  either end, contains no comma, and is a contiguous piece of the \<open>skills\<close> field.\<close>

theorem skill_token_props:
  assumes "t \<in> set (skill_tokens fd)"
  shows "t \<noteq> [] \<and> js_trim t = t \<and> CHR '','' \<notin> set t \<and> sublist t (skills fd)"
proof -
  obtain w where w: "w \<in> set (js_split (CHR '','') (skills fd))" and t: "t = js_trim w"
    and ne: "t \<noteq> []"
    using assms by (auto simp: skill_tokens_def js_truthy_def)
  have "sublist t w" using t js_trim_sublist by simp
  moreover have "sublist w (skills fd)" using w by (rule sublist_js_split)
  moreover have "CHR '','' \<notin> set w" using w by (rule js_split_sep_free)
  ultimately show ?thesis
    using ne t js_trim_idem set_mono_sublist sublist_order.order.trans by blast
qed

theorem skill_token_props_witness:
  "''React'' \<in> set (skill_tokens (initial_form_data\<lparr>skills := '' React , ,Node''\<rparr>)) \<and>
   ''React'' \<noteq> [] \<and> js_trim ''React'' = ''React'' \<and> CHR '','' \<notin> set ''React'' \<and>
   sublist ''React'' '' React , ,Node''"
proof -
  have m: "''React'' \<in> set (skill_tokens (initial_form_data\<lparr>skills := '' React , ,Node''\<rparr>))"
    by (simp add: skill_tokens_def js_defs)
  show ?thesis using skill_token_props [OF m] m by simp
qed

text \<open>C4: the skill meter holds \<open>min 6 n\<close> entries for \<open>n\<close> tokens: the first six tokens
  in order, the \<open>i\<close>-th with the category \<open>i mod 6\<close> of the fixed list and the level
  computed from the \<open>i\<close>-th call of \<open>Math.random()\<close>.\<close>

theorem skill_entries_shape:
  "length (skill_entries env fd) = min 6 (length (skill_tokens fd)) \<and>
   map sk_name (skill_entries env fd) = take 6 (skill_tokens fd) \<and>
   (\<forall>i < length (skill_entries env fd).
      sk_category (skill_entries env fd ! i) = skill_categories ! (i mod 6) \<and>
      sk_level (skill_entries env fd ! i) = skill_level env i)"
  by (simp add: skill_entries_def map_js_map_idx js_map_idx_map min.commute)

theorem skill_entries_shape_witness:
  "length (skill_entries \<lparr>random_bits = (\<lambda>_. 0), number_str = (\<lambda>_. [])\<rparr> (initial_form_data\<lparr>skills := ''a,b''\<rparr>)) = 2 \<and>
   map sk_name (skill_entries \<lparr>random_bits = (\<lambda>_. 0), number_str = (\<lambda>_. [])\<rparr> (initial_form_data\<lparr>skills := ''a,b''\<rparr>)) = [''a'', ''b''] \<and>
   sk_category (skill_entries \<lparr>random_bits = (\<lambda>_. 0), number_str = (\<lambda>_. [])\<rparr> (initial_form_data\<lparr>skills := ''a,b''\<rparr>) ! 1) = ''Backend''"
proof -
  have t: "skill_tokens (initial_form_data\<lparr>skills := ''a,b''\<rparr>) = [''a'', ''b'']"
    by (simp add: skill_tokens_def js_defs)
  have "(1::nat) < length (skill_entries \<lparr>random_bits = (\<lambda>_. 0), number_str = (\<lambda>_. [])\<rparr> (initial_form_data\<lparr>skills := ''a,b''\<rparr>))"
    using skill_entries_shape [of "\<lparr>random_bits = (\<lambda>_. 0), number_str = (\<lambda>_. [])\<rparr>" "initial_form_data\<lparr>skills := ''a,b''\<rparr>"] t by simp
  then show ?thesis
    using skill_entries_shape [of "\<lparr>random_bits = (\<lambda>_. 0), number_str = (\<lambda>_. [])\<rparr>" "initial_form_data\<lparr>skills := ''a,b''\<rparr>"] t
    by (simp add: skill_categories_def)
qed


text \<open>C25: every skill level lies in \<open>[75, 95]\<close>, whatever the random source returns: the
  product with 20 rounds into \<open>[0, 20]\<close> and the sum into \<open>[75, 95]\<close>, since rounding
  is monotone and these bounds are representable. With C9, \<open>95\<close> is attained, so the
  closed interval is exact.\<close>

theorem skill_level_bounds: "75 \<le> skill_level env i \<and> skill_level env i \<le> 95"
proof -
  have r: "0 \<le> math_random env i" "math_random env i < 1" using math_random_range by simp_all
  have "0 \<le> fp_mul (math_random env i) 20 \<and> fp_mul (math_random env i) 20 \<le> 20"
    unfolding fp_mul_def using r by (intro fp_round_between) (simp_all add: fp_round_exact_small)
  then show ?thesis
    unfolding skill_level_def fp_add_def by (intro fp_round_between) (simp_all add: fp_round_exact_small)
qed

subsection \<open>Properties of the projects\<close>

lemma kept_projects_titles:
  "map ptitle (kept_projects fd) = filter (\<lambda>t. t \<noteq> []) (map ptitle (projects fd))"
  by (induction "projects fd" arbitrary: fd) (auto simp: kept_projects_def js_truthy_def filter_map comp_def)

text \<open>C5: the projects written to \<open>Projects.jsx\<close> are those with a non-empty title, in
  their order, and the \<open>i\<close>-th of them gets the placeholder image of index \<open>i\<close>: the
  indices are contiguous from 0, and no two projects share an image.\<close>

theorem normalize_projects_shape:
  "map np_title (normalize_projects fd) = filter (\<lambda>t. t \<noteq> []) (map ptitle (projects fd)) \<and>
   map np_image (normalize_projects fd) = map project_image [0..<length (kept_projects fd)] \<and>
   distinct (map np_image (normalize_projects fd))"
proof (intro conjI)
  show "map np_title (normalize_projects fd) = filter (\<lambda>t. t \<noteq> []) (map ptitle (projects fd))"
    using kept_projects_titles [of fd]
    by (simp add: normalize_projects_def map_js_map_idx normalize_project_def js_map_idx_map)
  show imgs: "map np_image (normalize_projects fd) = map project_image [0..<length (kept_projects fd)]"
    by (simp add: normalize_projects_def map_js_map_idx normalize_project_def js_map_idx_index)
  have "inj project_image"
    by (rule injI) (simp add: project_image_def js_nat_str_inj)
  then show "distinct (map np_image (normalize_projects fd))"
    by (simp only: imgs distinct_map distinct_upt) (auto intro: inj_on_subset)
qed

subsection \<open>Properties of the slug\<close>

text \<open>C8: the slug that names the archive and the package has no white space and no
  upper-case letter, and slugifying twice changes nothing.\<close>

theorem slugify_props:
  "(\<forall>c\<in>set (slugify s). \<not> is_js_space c \<and> \<not> is_ascii_upper c) \<and> slugify (slugify s) = slugify s"
proof -
  have sp: "\<forall>c\<in>set (slugify s). \<not> is_js_space c"
    by (auto simp: slugify_def js_lower_def js_lower_char_space dest: js_ws_to_hyphen_no_space)
  moreover have "\<forall>c\<in>set (slugify s). \<not> is_ascii_upper c"
    by (auto simp: slugify_def dest: js_lower_no_upper)
  moreover have "slugify (slugify s) = slugify s"
    using sp by (simp add: slugify_def [of "slugify s"] js_ws_to_hyphen_id)
      (simp add: slugify_def js_lower_idem)
  ultimately show ?thesis by blast
qed

theorem slugify_props_witness:
  "slugify ''Jane Q. Public'' = ''jane-q.-public'' \<and> slugify ''jane-q.-public'' = ''jane-q.-public''"
  using slugify_props [of "''Jane Q. Public''"]
  by (simp add: slugify_def js_defs char_eval)

subsection \<open>Where the code departs from the spec\<close>





subsection \<open>The code against the specification's formulation\<close>

text \<open>C33: the slug is computed as the specification orders it: lower-casing the name and
  then collapsing white-space runs to hyphens gives the same text as the code's
  \<open>name.replace(/\s+/g, '-').toLowerCase()\<close>.\<close>

theorem slugify_spec_order: "slugify s = js_ws_to_hyphen (js_lower s)"
  unfolding slugify_def
proof (induction s rule: js_ws_to_hyphen.induct)
  case 1 then show ?case by (simp add: js_lower_def)
next
  case (2 c cs)
  then show ?case
    by (simp add: js_lower_def js_lower_char_space js_lower_char_hyphen dropWhile_space_lower)
qed

text \<open>C34: filtering before indexing: the code's filter-then-map numbers the projects as
  one pass over the form's list that counts only the titled projects, so the image and
  colour indices of the kept projects are \<open>0, 1, 2, \<dots>\<close> with no gaps.\<close>

theorem normalize_projects_single_pass: "normalize_projects fd = norm_ref 0 (projects fd)"
proof -
  have "js_map_idx (\<lambda>p i. normalize_project p (i + k)) (filter (\<lambda>p. js_truthy (ptitle p)) ps) = norm_ref k ps"
    for k ps
  proof (induction ps arbitrary: k)
    case Nil then show ?case by (simp add: js_map_idx_def)
  next
    case (Cons p ps)
    have "(\<lambda>y i. normalize_project y (Suc i + k)) = (\<lambda>y i. normalize_project y (i + Suc k))" by simp
    then show ?case using Cons.IH [of "Suc k"] Cons.IH [of k] by (simp add: js_map_idx_Cons)
  qed
  from this [of 0 "projects fd"] show ?thesis by (simp add: normalize_projects_def kept_projects_def)
qed

end
