(* ===== verification/Json.thy ===== *)
theory Json
  imports Js_Builtins
begin

text \<open>
  \<open>JSON.stringify(value, null, 2)\<close>, which the generator uses to embed the project and
  skill arrays into \<open>Projects.jsx\<close> and \<open>Skills.jsx\<close> (\<open>generatePortfolio.js\<close>
  lines 306--311 and 433--437). It is an ECMAScript builtin, modelled from the
  specification's \<open>SerializeJSONProperty\<close>, \<open>QuoteJSONString\<close>,
  \<open>SerializeJSONObject\<close> and \<open>SerializeJSONArray\<close> with the gap of two spaces.
  A value is a \<open>json\<close> tree; an object keeps its keys in insertion order; a number
  is kept as the text \<open>Number::toString\<close> gives it (see \<open>Js_Number\<close>).
  \<open>json_unquote\<close> reads a JSON string literal back and \<open>json_parse\<close> a whole value
  (the grammar of \<open>JSON.parse\<close>, for the characters the serialiser emits); they state
  what the serialisation must achieve: a literal ends exactly at its closing quote and
  denotes the original string, and the printed value reads back as itself.
\<close>

datatype json = JStr string | JNum string | JArr "json list" | JObj "(string \<times> json) list"

definition bslash :: char where
  "bslash = CHR 0x5C"

definition dquote :: char where
  "dquote = CHR 0x22"

definition hex_digit :: "nat \<Rightarrow> char" where
  "hex_digit n = ''0123456789abcdef'' ! n"

definition json_escape_char :: "char \<Rightarrow> string" where
  "json_escape_char c =
     (if c = CHR 0x08 then [bslash, CHR ''b'']
      else if c = CHR 0x09 then [bslash, CHR ''t'']
      else if c = CHR 0x0A then [bslash, CHR ''n'']
      else if c = CHR 0x0C then [bslash, CHR ''f'']
      else if c = CHR 0x0D then [bslash, CHR ''r'']
      else if c = dquote then [bslash, dquote]
      else if c = bslash then [bslash, bslash]
      else if (of_char c :: nat) < 32
      then [bslash, CHR ''u'', CHR ''0'', CHR ''0'',
            hex_digit (of_char c div 16), hex_digit (of_char c mod 16)]
      else [c])"

definition json_quote :: "string \<Rightarrow> string" where
  "json_quote s = dquote # concat (map json_escape_char s) @ [dquote]"

definition nl :: string where
  "nl = [CHR 0x0A]"

fun json_str :: "string \<Rightarrow> json \<Rightarrow> string" where
  "json_str ind (JStr s) = json_quote s"
| "json_str ind (JNum n) = n"
| "json_str ind (JArr []) = ''[]''"
| "json_str ind (JArr (v # vs)) =
     (let ind' = ind @ ''  ''
      in ''['' @ nl @ ind' @ js_join ('','' @ nl @ ind') (map (json_str ind') (v # vs))
         @ nl @ ind @ '']'')"
| "json_str ind (JObj []) = ''{}''"
| "json_str ind (JObj (kv # kvs)) =
     (let ind' = ind @ ''  ''
      in ''{'' @ nl @ ind'
         @ js_join ('','' @ nl @ ind')
             (map (\<lambda>(k, v). json_quote k @ '': '' @ json_str ind' v) (kv # kvs))
         @ nl @ ind @ ''}'')"

definition json_stringify :: "json \<Rightarrow> string" where
  "json_stringify v = json_str [] v"

subsection \<open>Reading a string literal back\<close>

definition hex_val :: "char \<Rightarrow> nat option" where
  "hex_val c =
     (let i = (of_char c :: nat)
      in if 48 \<le> i \<and> i \<le> 57 then Some (i - 48)
         else if 97 \<le> i \<and> i \<le> 102 then Some (i - 87) else None)"

definition unescape_simple :: "char \<Rightarrow> char option" where
  "unescape_simple d =
     (if d = CHR ''b'' then Some (CHR 0x08)
      else if d = CHR ''t'' then Some (CHR 0x09)
      else if d = CHR ''n'' then Some (CHR 0x0A)
      else if d = CHR ''f'' then Some (CHR 0x0C)
      else if d = CHR ''r'' then Some (CHR 0x0D)
      else if d = dquote then Some dquote
      else if d = bslash then Some bslash
      else if d = CHR ''/'' then Some (CHR ''/'')
      else None)"

definition cons_fst :: "char \<Rightarrow> string \<times> string \<Rightarrow> string \<times> string" where
  "cons_fst c p = (c # fst p, snd p)"

fun json_unquote_body :: "string \<Rightarrow> (string \<times> string) option" where
  "json_unquote_body [] = None"
| "json_unquote_body (c # cs) =
     (if c = dquote then Some ([], cs)
      else if c = bslash then
        (case cs of
           [] \<Rightarrow> None
         | d # ds \<Rightarrow>
             (if d = CHR ''u'' then
                (case ds of
                   h1 # h2 # h3 # h4 # rest \<Rightarrow>
                     (case (hex_val h1, hex_val h2, hex_val h3, hex_val h4) of
                        (Some 0, Some 0, Some a, Some b) \<Rightarrow>
                          (if a < 8 then map_option (cons_fst (char_of (16 * a + b)))
                                           (json_unquote_body rest)
                           else None)
                      | _ \<Rightarrow> None)
                 | _ \<Rightarrow> None)
              else
                (case unescape_simple d of
                   None \<Rightarrow> None
                 | Some e \<Rightarrow> map_option (cons_fst e) (json_unquote_body ds))))
      else if (of_char c :: nat) < 32 then None
      else map_option (cons_fst c) (json_unquote_body cs))"

definition json_unquote :: "string \<Rightarrow> (string \<times> string) option" where
  "json_unquote s =
     (case s of [] \<Rightarrow> None | c # cs \<Rightarrow> if c = dquote then json_unquote_body cs else None)"

subsection \<open>Reading a serialised value back\<close>

text \<open>A reader for the text \<open>json_str\<close> produces (the JSON grammar with white space between
  tokens), as recursive descent whose fuel bounds the nesting and the number of
  elements; \<open>json_parse\<close> gives it twice the length of the input, past which more
  fuel never changes the result (\<open>parse_fuel\<close>): the reader is the total function
  \<open>JSON.parse\<close> is.\<close>

definition is_json_ws :: "char \<Rightarrow> bool" where
  "is_json_ws c \<longleftrightarrow> c \<in> {CHR 0x20, CHR 0x09, CHR 0x0A, CHR 0x0D}"

definition is_num_char :: "char \<Rightarrow> bool" where
  "is_num_char c \<longleftrightarrow> c \<in> set ''-+.0123456789eE''"

definition skip_ws :: "string \<Rightarrow> string" where
  "skip_ws s = dropWhile is_json_ws s"

fun parse_value :: "nat \<Rightarrow> string \<Rightarrow> (json \<times> string) option"
and parse_elems :: "nat \<Rightarrow> string \<Rightarrow> json list \<Rightarrow> (json \<times> string) option"
and parse_members :: "nat \<Rightarrow> string \<Rightarrow> (string \<times> json) list \<Rightarrow> (json \<times> string) option" where
  "parse_value 0 s = None"
| "parse_value (Suc n) s =
     (case skip_ws s of
        [] \<Rightarrow> None
      | c # cs \<Rightarrow>
          if c = dquote then map_option (\<lambda>(t, r). (JStr t, r)) (json_unquote_body cs)
          else if c = CHR ''['' then
            (case skip_ws cs of
               [] \<Rightarrow> None
             | d # ds \<Rightarrow> if d = CHR '']'' then Some (JArr [], ds) else parse_elems n cs [])
          else if c = CHR ''{'' then
            (case skip_ws cs of
               [] \<Rightarrow> None
             | d # ds \<Rightarrow> if d = CHR ''}'' then Some (JObj [], ds) else parse_members n cs [])
          else if is_num_char c then Some (JNum (takeWhile is_num_char (c # cs)), dropWhile is_num_char (c # cs))
          else None)"
| "parse_elems 0 s acc = None"
| "parse_elems (Suc n) s acc =
     (case parse_value n s of
        None \<Rightarrow> None
      | Some (v, r) \<Rightarrow>
          (case skip_ws r of
             [] \<Rightarrow> None
           | d # ds \<Rightarrow> if d = CHR '','' then parse_elems n ds (acc @ [v])
                       else if d = CHR '']'' then Some (JArr (acc @ [v]), ds) else None))"
| "parse_members 0 s acc = None"
| "parse_members (Suc n) s acc =
     (case skip_ws s of
        [] \<Rightarrow> None
      | c # cs \<Rightarrow>
          if c \<noteq> dquote then None else
          (case json_unquote_body cs of
             None \<Rightarrow> None
           | Some (k, r) \<Rightarrow>
               (case skip_ws r of
                  [] \<Rightarrow> None
                | e # es \<Rightarrow>
                    if e \<noteq> CHR '':'' then None else
                    (case parse_value n es of
                       None \<Rightarrow> None
                     | Some (v, r') \<Rightarrow>
                         (case skip_ws r' of
                            [] \<Rightarrow> None
                          | d # ds \<Rightarrow> if d = CHR '','' then parse_members n ds (acc @ [(k, v)])
                                      else if d = CHR ''}'' then Some (JObj (acc @ [(k, v)]), ds)
                                      else None)))))"

definition json_parse :: "string \<Rightarrow> json option" where
  "json_parse s =
     (case parse_value (2 * length s) s of
        None \<Rightarrow> None
      | Some (v, r) \<Rightarrow> if skip_ws r = [] then Some v else None)"

fun jfuel :: "json \<Rightarrow> nat" where
  "jfuel (JStr s) = 1"
| "jfuel (JNum s) = 1"
| "jfuel (JArr vs) = Suc (sum_list (map jfuel vs) + length vs)"
| "jfuel (JObj kvs) = Suc (sum_list (map (\<lambda>kv. jfuel (snd kv)) kvs) + length kvs)"

fun nums_ok :: "json \<Rightarrow> bool" where
  "nums_ok (JStr s) = True"
| "nums_ok (JNum s) = (s \<noteq> [] \<and> (\<forall>c\<in>set s. is_num_char c))"
| "nums_ok (JArr vs) = (\<forall>v\<in>set vs. nums_ok v)"
| "nums_ok (JObj kvs) = (\<forall>kv\<in>set kvs. nums_ok (snd kv))"

definition ws_only :: "string \<Rightarrow> bool" where
  "ws_only w \<longleftrightarrow> (\<forall>c\<in>set w. is_json_ws c)"

definition stops :: "string \<Rightarrow> bool" where
  "stops r \<longleftrightarrow> (case r of [] \<Rightarrow> True | c # _ \<Rightarrow> \<not> is_num_char c)"

definition spaces :: "string \<Rightarrow> bool" where
  "spaces ind \<longleftrightarrow> (\<forall>c\<in>set ind. c = CHR '' '')"

declare bslash_def [js_defs] dquote_def [js_defs] hex_digit_def [js_defs] json_escape_char_def [js_defs]
  json_quote_def [js_defs] nl_def [js_defs] json_stringify_def [js_defs]

subsection \<open>The quoting round trip\<close>

lemma hex_val_digit: "d < 16 \<Longrightarrow> hex_val (hex_digit d) = Some d"
proof -
  assume "d < 16"
  then have "d \<in> set [0..<16]" by simp
  then show ?thesis by (simp add: upt_rec hex_val_def hex_digit_def; elim disjE; simp)
qed

lemma json_unquote_body_u:
  assumes "(of_char c :: nat) < 32"
  shows "json_unquote_body (bslash # CHR ''u'' # CHR ''0'' # CHR ''0'' #
           hex_digit (of_char c div 16) # hex_digit (of_char c mod 16) # t)
         = map_option (cons_fst c) (json_unquote_body t)"
proof -
  let ?n = "of_char c :: nat"
  have hi: "hex_val (hex_digit (?n div 16)) = Some (?n div 16)"
    using assms by (intro hex_val_digit) simp
  have lo: "hex_val (hex_digit (?n mod 16)) = Some (?n mod 16)"
    by (intro hex_val_digit) simp
  have "char_of (16 * (?n div 16) + ?n mod 16) = c"
    by simp
  moreover have "?n div 16 < 8" using assms by simp
  ultimately show ?thesis using hi lo
    by (simp add: bslash_def dquote_def hex_val_def)
qed

lemma json_unquote_body_escape:
  "json_unquote_body (json_escape_char c @ t) = map_option (cons_fst c) (json_unquote_body t)"
proof (cases "c \<in> {CHR 0x08, CHR 0x09, CHR 0x0A, CHR 0x0C, CHR 0x0D, dquote, bslash}")
  case True
  then show ?thesis
    by (auto simp: json_escape_char_def unescape_simple_def bslash_def dquote_def)
next
  case False
  show ?thesis
  proof (cases "(of_char c :: nat) < 32")
    case True
    with False have "json_escape_char c = [bslash, CHR ''u'', CHR ''0'', CHR ''0'',
           hex_digit (of_char c div 16), hex_digit (of_char c mod 16)]"
      by (simp add: json_escape_char_def)
    with True show ?thesis by (simp only: append.simps json_unquote_body_u)
  next
    case ge: False
    with False have "json_escape_char c = [c]" by (simp add: json_escape_char_def)
    with ge False show ?thesis by simp
  qed
qed

lemma json_unquote_body_quoted:
  "json_unquote_body (concat (map json_escape_char s) @ dquote # rest) = Some (s, rest)"
  by (induction s) (simp_all add: json_unquote_body_escape cons_fst_def)

lemma json_unquote_quote: "json_unquote (json_quote s @ rest) = Some (s, rest)"
  by (simp add: json_unquote_def json_quote_def json_unquote_body_quoted)

subsection \<open>The parsing round trip\<close>

lemma ws_only_append [simp]: "ws_only (a @ b) \<longleftrightarrow> ws_only a \<and> ws_only b"
  by (auto simp: ws_only_def)

lemma ws_only_nl [simp]: "ws_only nl"
  by (simp add: ws_only_def nl_def is_json_ws_def)

lemma ws_only_spaces: "spaces ind \<Longrightarrow> ws_only ind"
  by (auto simp: ws_only_def spaces_def is_json_ws_def)

lemma spaces_indent [simp]: "spaces (ind @ ''  '') \<longleftrightarrow> spaces ind"
  by (simp add: spaces_def)

lemma skip_ws_append: "ws_only w \<Longrightarrow> skip_ws (w @ s) = skip_ws s"
  by (induction w) (auto simp: skip_ws_def ws_only_def)

lemma skip_ws_Cons: "\<not> is_json_ws c \<Longrightarrow> skip_ws (c # s) = c # s"
  by (simp add: skip_ws_def)

lemma parse_value_ws: "ws_only w \<Longrightarrow> parse_value n (w @ s) = parse_value n s"
  by (cases n) (simp_all add: skip_ws_append)

lemma json_str_head:
  "nums_ok v \<Longrightarrow> \<exists>c cs. json_str ind v = c # cs \<and> \<not> is_json_ws c \<and> c \<noteq> CHR '']'' \<and> c \<noteq> CHR ''}''
     \<and> (c = dquote \<or> c = CHR ''['' \<or> c = CHR ''{'' \<or> is_num_char c)"
proof (cases v)
  case (JNum d)
  moreover assume "nums_ok v"
  ultimately obtain c cs where "d = c # cs" "is_num_char c" by (cases d) auto
  then show ?thesis using JNum by (auto simp: is_num_char_def is_json_ws_def)
next
  case (JArr vs)
  then show ?thesis by (cases vs) (auto simp: is_json_ws_def Let_def)
next
  case (JObj kvs)
  then show ?thesis by (cases kvs) (auto simp: is_json_ws_def Let_def)
qed (auto simp: json_quote_def dquote_def is_json_ws_def)


lemma stops_sep: "stops (CHR '','' # s)" "stops (nl @ s)" "stops (CHR '']'' # s)" "stops (CHR ''}'' # s)"
  by (simp_all add: stops_def nl_def is_num_char_def)

lemma jfuel_pos: "1 \<le> jfuel v"
  by (cases v) simp_all

lemma parse_elems_join:
  assumes IH: "\<forall>v\<in>set vs. \<forall>n r. jfuel v \<le> n \<longrightarrow> stops r \<longrightarrow> parse_value n (json_str ind' v @ r) = Some (v, r)"
    and ne: "vs \<noteq> []" and w: "ws_only w" and i: "ws_only ind'" "ws_only ind"
    and fuel: "sum_list (map jfuel vs) + length vs \<le> m"
  shows "parse_elems m (w @ js_join ('','' @ nl @ ind') (map (json_str ind') vs) @ nl @ ind @ CHR '']'' # r) acc
         = Some (JArr (acc @ vs), r)"
  using IH ne w fuel
proof (induction vs arbitrary: w acc m)
  case (Cons v vs)
  from Cons.prems(4) obtain k where m: "m = Suc k" and k: "jfuel v + sum_list (map jfuel vs) + length vs \<le> k"
    by (cases m) auto
  have pv: "\<And>r. stops r \<Longrightarrow> parse_value k (json_str ind' v @ r) = Some (v, r)"
    using Cons.prems(1) k by simp
  show ?case
  proof (cases vs)
    case Nil
    have "parse_value k (w @ json_str ind' v @ nl @ ind @ CHR '']'' # r) = Some (v, nl @ ind @ CHR '']'' # r)"
      using Cons.prems(3) pv stops_sep(2) by (simp add: parse_value_ws)
    moreover have "skip_ws (nl @ ind @ CHR '']'' # r) = CHR '']'' # r"
      using i by (simp add: skip_ws_append ws_only_spaces skip_ws_Cons is_json_ws_def)
    ultimately show ?thesis using Nil m by simp
  next
    case (Cons v' vs')
    let ?tl = "js_join ('','' @ nl @ ind') (map (json_str ind') vs) @ nl @ ind @ CHR '']'' # r"
    have "parse_value k (w @ json_str ind' v @ ('','' @ nl @ ind') @ ?tl) = Some (v, CHR '','' # nl @ ind' @ ?tl)"
      using Cons.prems(3) pv stops_sep(1) by (simp add: parse_value_ws)
    moreover have "skip_ws (CHR '','' # nl @ ind' @ ?tl) = CHR '','' # nl @ ind' @ ?tl"
      by (simp add: skip_ws_Cons is_json_ws_def)
    moreover have "parse_elems k ((nl @ ind') @ ?tl) (acc @ [v]) = Some (JArr ((acc @ [v]) @ vs), r)"
      using Cons.IH [of "nl @ ind'" k "acc @ [v]"] Cons.prems(1) i k \<open>vs = v' # vs'\<close> by simp
    ultimately show ?thesis using m \<open>vs = v' # vs'\<close> by simp
  qed
qed simp


lemma parse_member_head:
  assumes w: "ws_only w" and pv: "parse_value k (json_str ind' v @ t) = Some (v, t)"
  shows "skip_ws (w @ json_quote kn @ '': '' @ json_str ind' v @ t) = dquote # concat (map json_escape_char kn) @ dquote # '': '' @ json_str ind' v @ t"
    and "json_unquote_body (concat (map json_escape_char kn) @ dquote # '': '' @ json_str ind' v @ t)
         = Some (kn, '': '' @ json_str ind' v @ t)"
    and "skip_ws ('': '' @ json_str ind' v @ t) = CHR '':'' # '' '' @ json_str ind' v @ t"
    and "parse_value k ('' '' @ json_str ind' v @ t) = Some (v, t)"
proof -
  show "skip_ws (w @ json_quote kn @ '': '' @ json_str ind' v @ t) = dquote # concat (map json_escape_char kn) @ dquote # '': '' @ json_str ind' v @ t"
    using w by (simp add: skip_ws_append json_quote_def skip_ws_Cons is_json_ws_def dquote_def)
  show "json_unquote_body (concat (map json_escape_char kn) @ dquote # '': '' @ json_str ind' v @ t)
         = Some (kn, '': '' @ json_str ind' v @ t)"
    by (rule json_unquote_body_quoted)
  show "skip_ws ('': '' @ json_str ind' v @ t) = CHR '':'' # '' '' @ json_str ind' v @ t"
    by (simp add: skip_ws_Cons is_json_ws_def)
  have "ws_only '' ''" by (simp add: ws_only_def is_json_ws_def)
  then show "parse_value k ('' '' @ json_str ind' v @ t) = Some (v, t)"
    using pv by (simp only: parse_value_ws)
qed

lemma parse_members_join:
  assumes IH: "\<forall>kv\<in>set kvs. \<forall>n r. jfuel (snd kv) \<le> n \<longrightarrow> stops r \<longrightarrow>
                 parse_value n (json_str ind' (snd kv) @ r) = Some (snd kv, r)"
    and ne: "kvs \<noteq> []" and w: "ws_only w" and i: "ws_only ind'" "ws_only ind"
    and fuel: "sum_list (map (\<lambda>kv. jfuel (snd kv)) kvs) + length kvs \<le> m"
  shows "parse_members m (w @ js_join ('','' @ nl @ ind')
            (map (\<lambda>(k, v). json_quote k @ '': '' @ json_str ind' v) kvs) @ nl @ ind @ CHR ''}'' # r) acc
         = Some (JObj (acc @ kvs), r)"
  using IH ne w fuel
proof (induction kvs arbitrary: w acc m)
  case (Cons kv kvs)
  obtain kn v where kv: "kv = (kn, v)" by (cases kv)
  from Cons.prems(4) kv obtain k where m: "m = Suc k"
      and k: "jfuel v + sum_list (map (\<lambda>kv. jfuel (snd kv)) kvs) + length kvs \<le> k"
    by (cases m) auto
  have pv: "\<And>r. stops r \<Longrightarrow> parse_value k (json_str ind' v @ r) = Some (v, r)"
    using Cons.prems(1) k kv by simp
  show ?case
  proof (cases kvs)
    case Nil
    let ?t = "nl @ ind @ CHR ''}'' # r"
    note h = parse_member_head [OF Cons.prems(3) pv [OF stops_sep(2) [of "ind @ CHR ''}'' # r"]]]
    have "skip_ws ?t = CHR ''}'' # r"
      using i by (simp add: skip_ws_append skip_ws_Cons is_json_ws_def)
    then show ?thesis using Nil m kv h by simp
  next
    case (Cons kv' kvs')
    let ?tl = "js_join ('','' @ nl @ ind') (map (\<lambda>(k, v). json_quote k @ '': '' @ json_str ind' v) kvs)
               @ nl @ ind @ CHR ''}'' # r"
    let ?t = "CHR '','' # nl @ ind' @ ?tl"
    note h = parse_member_head [OF Cons.prems(3) pv [OF stops_sep(1) [of "nl @ ind' @ ?tl"]]]
    have s: "skip_ws ?t = ?t" by (simp add: skip_ws_Cons is_json_ws_def)
    have "parse_members k ((nl @ ind') @ ?tl) (acc @ [(kn, v)]) = Some (JObj ((acc @ [(kn, v)]) @ kvs), r)"
      using Cons.IH [of "nl @ ind'" k "acc @ [(kn, v)]"] Cons.prems(1) i k \<open>kvs = kv' # kvs'\<close> by simp
    then show ?thesis using m kv h s \<open>kvs = kv' # kvs'\<close> by simp
  qed
qed simp


lemma ws_only_indent [simp]: "ws_only ''  ''"
  by (simp add: ws_only_def is_json_ws_def)

lemma parse_value_arr:
  "skip_ws w = c # x \<Longrightarrow> c \<noteq> CHR '']'' \<Longrightarrow> parse_value (Suc k) (CHR ''['' # w) = parse_elems k w []"
  by (simp add: skip_ws_Cons is_json_ws_def dquote_def)

lemma parse_value_obj:
  "skip_ws w = c # x \<Longrightarrow> c \<noteq> CHR ''}'' \<Longrightarrow> parse_value (Suc k) (CHR ''{'' # w) = parse_members k w []"
  by (simp add: skip_ws_Cons is_json_ws_def dquote_def)

lemma parse_json_str:
  "nums_ok v \<Longrightarrow> spaces ind \<Longrightarrow> jfuel v \<le> n \<Longrightarrow> stops r \<Longrightarrow>
   parse_value n (json_str ind v @ r) = Some (v, r)"
proof (induction v arbitrary: n r ind)
  case (JStr s)
  then obtain k where n: "n = Suc k" by (cases n) auto
  have "skip_ws (json_str ind (JStr s) @ r) = dquote # concat (map json_escape_char s) @ dquote # r"
    by (simp add: json_quote_def skip_ws_Cons is_json_ws_def dquote_def)
  then show ?case using n by (simp add: json_unquote_body_quoted)
next
  case (JNum d)
  then obtain k where n: "n = Suc k" by (cases n) auto
  from JNum.prems(1) obtain c cs where d: "d = c # cs" and num: "\<forall>x\<in>set d. is_num_char x"
    by (cases d) auto
  have ws: "\<not> is_json_ws c" using num d by (auto simp: is_num_char_def is_json_ws_def)
  have tw: "takeWhile is_num_char (d @ r) = d" and dw: "dropWhile is_num_char (d @ r) = r"
    using num JNum.prems(4) by (auto simp: stops_def takeWhile_append dropWhile_append split: list.splits)
  have "c \<noteq> dquote \<and> c \<noteq> CHR ''['' \<and> c \<noteq> CHR ''{''"
    using num d by (auto simp: is_num_char_def dquote_def)
  then show ?case using n d num tw dw ws by (simp add: skip_ws_Cons)
next
  case (JArr vs)
  then obtain k where n: "n = Suc k" by (cases n) auto
  show ?case
  proof (cases vs)
    case Nil
    then show ?thesis using n by (simp add: skip_ws_Cons is_json_ws_def dquote_def)
  next
    case (Cons v vs')
    let ?ind' = "ind @ ''  ''"
    have i: "ws_only ?ind'" "ws_only ind" using JArr.prems(2) by (simp_all add: ws_only_spaces)
    have IH: "\<forall>v\<in>set vs. \<forall>n r. jfuel v \<le> n \<longrightarrow> stops r \<longrightarrow> parse_value n (json_str ?ind' v @ r) = Some (v, r)"
      using JArr.IH JArr.prems(1,2) by simp
    have fuel: "sum_list (map jfuel vs) + length vs \<le> k" using JArr.prems(3) n by simp
    obtain c cs where h: "json_str ?ind' v = c # cs" "\<not> is_json_ws c" "c \<noteq> CHR '']''"
      using json_str_head [of v ?ind'] JArr.prems(1) Cons by auto
    let ?body = "js_join ('','' @ nl @ ?ind') (map (json_str ?ind') vs) @ nl @ ind @ CHR '']'' # r"
    have e: "parse_elems k ((nl @ ?ind') @ ?body) [] = Some (JArr vs, r)"
      using parse_elems_join [OF IH _ _ i fuel, of "nl @ ?ind'" r "[]"] Cons i by simp
    have sk: "skip_ws ((nl @ ?ind') @ ?body) = skip_ws ?body"
      by (rule skip_ws_append) (use i in simp)
    obtain x where bx: "?body = c # x" using h(1) Cons by (cases vs') auto
    have "skip_ws ((nl @ ?ind') @ ?body) = c # x" using sk bx h(2) by (simp add: skip_ws_Cons)
    then have p: "parse_value (Suc k) (CHR ''['' # (nl @ ?ind') @ ?body) = Some (JArr vs, r)"
      using parse_value_arr h(3) e by metis
    have "json_str ind (JArr vs) @ r = CHR ''['' # (nl @ ?ind') @ ?body" using Cons by (simp add: Let_def)
    then show ?thesis using p n by simp
  qed
next
  case (JObj kvs)
  then obtain k where n: "n = Suc k" by (cases n) auto
  show ?case
  proof (cases kvs)
    case Nil
    then show ?thesis using n by (simp add: skip_ws_Cons is_json_ws_def dquote_def)
  next
    case (Cons kv kvs')
    let ?ind' = "ind @ ''  ''"
    have i: "ws_only ?ind'" "ws_only ind" using JObj.prems(2) by (simp_all add: ws_only_spaces)
    have IH: "\<forall>kv\<in>set kvs. \<forall>n r. jfuel (snd kv) \<le> n \<longrightarrow> stops r \<longrightarrow>
                parse_value n (json_str ?ind' (snd kv) @ r) = Some (snd kv, r)"
    proof (intro ballI allI impI)
      fix kv n r assume kv: "kv \<in> set kvs" and f: "jfuel (snd kv) \<le> n" and s: "stops r"
      obtain a b where ab: "kv = (a, b)" by (cases kv)
      have nb: "nums_ok b" using JObj.prems(1) kv ab by auto
      have bs: "b \<in> Basic_BNFs.snds kv" using ab by (simp add: prod_set_defs)
      have sp: "spaces ?ind'" using JObj.prems(2) by simp
      have fb: "jfuel b \<le> n" using f ab by simp
      show "parse_value n (json_str ?ind' (snd kv) @ r) = Some (snd kv, r)"
        using JObj.IH [OF kv bs nb sp fb s] ab by simp
    qed
    have fuel: "sum_list (map (\<lambda>kv. jfuel (snd kv)) kvs) + length kvs \<le> k" using JObj.prems(3) n by simp
    let ?body = "js_join ('','' @ nl @ ?ind') (map (\<lambda>(k, v). json_quote k @ '': '' @ json_str ?ind' v) kvs)
                 @ nl @ ind @ CHR ''}'' # r"
    have e: "parse_members k ((nl @ ?ind') @ ?body) [] = Some (JObj kvs, r)"
      using parse_members_join [OF IH _ _ i fuel, of "nl @ ?ind'" r "[]"] Cons i by simp
    have sk: "skip_ws ((nl @ ?ind') @ ?body) = skip_ws ?body"
      by (rule skip_ws_append) (use i in simp)
    obtain a b where ab: "kv = (a, b)" by (cases kv)
    obtain x where bx: "?body = dquote # x" using Cons ab by (cases kvs') (auto simp: json_quote_def)
    have "skip_ws ((nl @ ?ind') @ ?body) = dquote # x"
      using sk bx by (simp add: skip_ws_Cons is_json_ws_def dquote_def)
    moreover have "dquote \<noteq> CHR ''}''" by (simp add: dquote_def)
    ultimately have p: "parse_value (Suc k) (CHR ''{'' # (nl @ ?ind') @ ?body) = Some (JObj kvs, r)"
      using parse_value_obj e by metis
    have "json_str ind (JObj kvs) @ r = CHR ''{'' # (nl @ ?ind') @ ?body" using Cons by (simp add: Let_def)
    then show ?thesis using p n by simp
  qed
qed


lemma sum_list_mono_map:
  "(\<And>x. x \<in> set xs \<Longrightarrow> f x \<le> g x) \<Longrightarrow> sum_list (map f xs) \<le> sum_list (map (g :: 'a \<Rightarrow> nat) xs)"
  by (induction xs) (auto intro: add_mono)

lemma jfuel_le_length: "nums_ok v \<Longrightarrow> jfuel v \<le> length (json_str ind v)"
proof (induction v arbitrary: ind)
  case (JStr s)
  then show ?case by (simp add: json_quote_def)
next
  case (JNum d)
  then show ?case by (cases d) auto
next
  case (JArr vs)
  show ?case
  proof (cases vs)
    case (Cons v vs')
    let ?ind' = "ind @ ''  ''"
    have "sum_list (map jfuel vs) \<le> sum_list (map (\<lambda>v. length (json_str ?ind' v)) vs)"
      using JArr by (intro sum_list_mono_map) simp
    then show ?thesis using Cons by (simp add: Let_def length_js_join nl_def comp_def)
  qed simp
next
  case (JObj kvs)
  show ?case
  proof (cases kvs)
    case (Cons kv kvs')
    let ?ind' = "ind @ ''  ''"
    have "sum_list (map (\<lambda>kv. jfuel (snd kv)) kvs) \<le>
          sum_list (map (\<lambda>kv. length ((\<lambda>(k, v). json_quote k @ '': '' @ json_str ?ind' v) kv)) kvs)"
    proof (intro sum_list_mono_map)
      fix kv assume kv: "kv \<in> set kvs"
      obtain a b where ab: "kv = (a, b)" by (cases kv)
      have "b \<in> Basic_BNFs.snds kv" using ab by (simp add: prod_set_defs)
      moreover have "nums_ok b" using JObj.prems kv ab by auto
      ultimately have "jfuel b \<le> length (json_str ?ind' b)" using JObj.IH kv by blast
      then show "jfuel (snd kv) \<le> length ((\<lambda>(k, v). json_quote k @ '': '' @ json_str ?ind' v) kv)"
        using ab by simp
    qed
    then show ?thesis using Cons by (simp add: Let_def length_js_join nl_def comp_def)
  qed simp
qed

lemma stops_Nil: "stops []"
  by (simp add: stops_def)

lemma json_parse_stringify: "nums_ok v \<Longrightarrow> json_parse (json_stringify v) = Some v"
proof -
  assume ok: "nums_ok v"
  have "parse_value (2 * length (json_str [] v)) (json_str [] v @ []) = Some (v, [])"
    using ok jfuel_le_length [OF ok, of "[]"] stops_Nil by (intro parse_json_str) (simp_all add: spaces_def)
  then show ?thesis by (simp add: json_parse_def json_stringify_def skip_ws_def)
qed

subsection \<open>The reader's fuel\<close>

text \<open>Every call of the reader consumes input, an element or member at least two
  characters; so the fuel \<open>2 * length s\<close> is never exhausted before the input is, and
  any larger fuel gives the same result.\<close>

lemma length_skip_ws: "length (skip_ws s) \<le> length s"
  by (simp add: skip_ws_def length_dropWhile_le)

lemma skip_ws_ConsD: "skip_ws s = c # cs \<Longrightarrow> length cs < length s"
  using length_skip_ws [of s] by simp

lemma json_unquote_body_shorter: "json_unquote_body s = Some p \<Longrightarrow> length (snd p) < length s"
proof (induction "length s" arbitrary: s p rule: less_induct)
  case less
  show ?case
  proof (cases s)
    case Nil with less.prems show ?thesis by simp
  next
    case (Cons c cs)
    have IH: "\<And>t q. json_unquote_body t = Some q \<Longrightarrow> length t < length s \<Longrightarrow> length (snd q) < length t"
      using less.hyps by blast
    show ?thesis using less.prems Cons
      by (auto simp: cons_fst_def split: if_splits list.splits option.splits nat.splits dest!: IH)
  qed
qed

lemma parse_shorter:
  "parse_value n s = Some (v, r) \<Longrightarrow> length r < length s"
  "parse_elems n s acc = Some (v, r) \<Longrightarrow> length r < length s"
  "parse_members n s kacc = Some (v, r) \<Longrightarrow> length r < length s"
proof (induction n s and n s acc and n s kacc arbitrary: v r and v r acc and v r kacc
       rule: parse_value_parse_elems_parse_members.induct)
  case (2 n s)
  obtain c cs where sk: "skip_ws s = c # cs"
    using "2.prems" by (cases "skip_ws s") simp_all
  have cs: "length cs < length s" using sk by (rule skip_ws_ConsD)
  consider (q) "c = dquote" | (a) "c \<noteq> dquote" "c = CHR ''[''" | (o) "c \<noteq> dquote" "c \<noteq> CHR ''[''" "c = CHR ''{''"
    | (n) "c \<noteq> dquote" "c \<noteq> CHR ''[''" "c \<noteq> CHR ''{''" by blast
  then show ?case
  proof cases
    case q
    then obtain t where "json_unquote_body cs = Some (t, r)" using "2.prems" sk by auto
    then show ?thesis using cs json_unquote_body_shorter by fastforce
  next
    case a
    show ?thesis
    proof (cases "skip_ws cs")
      case Nil then show ?thesis using "2.prems" sk a by simp
    next
      case (Cons d ds)
      then have "length ds < length cs" by (rule skip_ws_ConsD)
      show ?thesis
      proof (cases "d = CHR '']''")
        case True
        then have "r = ds" using "2.prems" sk a Cons by simp
        then show ?thesis using cs \<open>length ds < length cs\<close> by simp
      next
        case False
        then have "parse_elems n cs [] = Some (v, r)" using "2.prems" sk a Cons by simp
        then show ?thesis using "2.IH"(1) [OF sk a(1) a(2) Cons False] cs by fastforce
      qed
    qed
  next
    case o
    show ?thesis
    proof (cases "skip_ws cs")
      case Nil then show ?thesis using "2.prems" sk o by simp
    next
      case (Cons d ds)
      then have "length ds < length cs" by (rule skip_ws_ConsD)
      show ?thesis
      proof (cases "d = CHR ''}''")
        case True
        then have "r = ds" using "2.prems" sk o Cons by simp
        then show ?thesis using cs \<open>length ds < length cs\<close> by simp
      next
        case False
        then have "parse_members n cs [] = Some (v, r)" using "2.prems" sk o Cons by simp
        then show ?thesis using "2.IH"(2) [OF sk o(1) o(2) o(3) Cons False] cs by fastforce
      qed
    qed
  next
    case n
    then have "r = dropWhile is_num_char (c # cs)" using "2.prems" sk by (auto split: if_splits)
    moreover have "is_num_char c" using "2.prems" sk n by (auto split: if_splits)
    ultimately have "length r \<le> length cs" by (simp add: length_dropWhile_le)
    then show ?thesis using cs by simp
  qed
next
  case (4 n s acc)
  obtain v1 r1 where p1: "parse_value n s = Some (v1, r1)"
    using "4.prems" by (cases "parse_value n s") auto
  have r1: "length r1 < length s" using "4.IH"(1) [OF p1] .
  obtain d ds where sk: "skip_ws r1 = d # ds"
    using "4.prems" p1 by (cases "skip_ws r1") auto
  have ds: "length ds < length r1" using sk by (rule skip_ws_ConsD)
  show ?case
  proof (cases "d = CHR '',''")
    case True
    then have "parse_elems n ds (acc @ [v1]) = Some (v, r)" using "4.prems" p1 sk by simp
    then show ?thesis using "4.IH"(2) [OF p1 refl sk True] r1 ds by fastforce
  next
    case False
    then have "r = ds" using "4.prems" p1 sk by (auto split: if_splits)
    then show ?thesis using r1 ds by simp
  qed
next
  case (6 n s kacc)
  obtain c cs where sk: "skip_ws s = c # cs"
    using "6.prems" by (cases "skip_ws s") simp_all
  have q: "c = dquote" using "6.prems" sk by (auto split: if_splits)
  obtain k r0 where ju: "json_unquote_body cs = Some (k, r0)"
    using "6.prems" sk q by (cases "json_unquote_body cs") auto
  obtain e es where ske: "skip_ws r0 = e # es"
    using "6.prems" sk q ju by (cases "skip_ws r0") auto
  have col: "e = CHR '':''" using "6.prems" sk q ju ske by (auto split: if_splits)
  obtain v1 r1 where p1: "parse_value n es = Some (v1, r1)"
    using "6.prems" sk q ju ske col by (cases "parse_value n es") auto
  obtain d ds where skd: "skip_ws r1 = d # ds"
    using "6.prems" sk q ju ske col p1 by (cases "skip_ws r1") auto
  have nq: "\<not> c \<noteq> dquote" and ncol: "\<not> e \<noteq> CHR '':''" using q col by simp_all
  have "length es < length s"
    using skip_ws_ConsD [OF sk] skip_ws_ConsD [OF ske] json_unquote_body_shorter [OF ju] by simp
  moreover have "length r1 < length es" using "6.IH"(1) [OF sk nq ju refl ske ncol p1] .
  moreover have "length ds < length r1" using skd by (rule skip_ws_ConsD)
  ultimately have lt: "length ds < length s" by simp
  show ?case
  proof (cases "d = CHR '',''")
    case True
    then have "parse_members n ds (kacc @ [(k, v1)]) = Some (v, r)" using "6.prems" sk q ju ske col p1 skd by simp
    then show ?thesis using "6.IH"(2) [OF sk nq ju refl ske ncol p1 refl skd True] lt by fastforce
  next
    case False
    then have "r = ds" using "6.prems" sk q ju ske col p1 skd by (auto split: if_splits)
    then show ?thesis using lt by simp
  qed
qed simp_all

lemma parse_fuel:
  "(2 * length s \<le> n \<longrightarrow> parse_value (n + k) s = parse_value n s) \<and>
   (2 * length s < n \<longrightarrow> parse_elems (n + k) s acc = parse_elems n s acc) \<and>
   (2 * length s < n \<longrightarrow> parse_members (n + k) s kacc = parse_members n s kacc)"
proof (induction n arbitrary: s acc kacc)
  case 0
  show ?case by (cases k) (simp_all add: skip_ws_def)
next
  case (Suc n)
  have V: "\<And>t. 2 * length t \<le> n \<Longrightarrow> parse_value (n + k) t = parse_value n t"
    using Suc.IH by blast
  have E: "\<And>t a. 2 * length t < n \<Longrightarrow> parse_elems (n + k) t a = parse_elems n t a"
    using Suc.IH by blast
  have M: "\<And>t a. 2 * length t < n \<Longrightarrow> parse_members (n + k) t a = parse_members n t a"
    using Suc.IH by blast
  show ?case
  proof (intro conjI impI)
    assume len: "2 * length s \<le> Suc n"
    show "parse_value (Suc n + k) s = parse_value (Suc n) s"
    proof (cases "skip_ws s")
      case Nil then show ?thesis by simp
    next
      case (Cons c cs)
      have "2 * length cs < n" using skip_ws_ConsD [OF Cons] len by simp
      then have "parse_elems (n + k) cs [] = parse_elems n cs []"
        and "parse_members (n + k) cs [] = parse_members n cs []" by (simp_all add: E M)
      then show ?thesis using Cons by (simp split: list.split)
    qed
  next
    assume len: "2 * length s < Suc n"
    then have pv: "parse_value (n + k) s = parse_value n s" by (intro V) simp
    show "parse_elems (Suc n + k) s acc = parse_elems (Suc n) s acc"
    proof (cases "parse_value n s")
      case None then show ?thesis using pv by simp
    next
      case (Some p)
      obtain v r where p: "p = (v, r)" by (cases p)
      have r: "length r < length s" using parse_shorter(1) Some p by blast
      show ?thesis
      proof (cases "skip_ws r")
        case Nil then show ?thesis using pv Some p by simp
      next
        case (Cons d ds)
        have "2 * length ds < n" using skip_ws_ConsD [OF Cons] r len by simp
        then show ?thesis using pv Some p Cons by (simp add: E)
      qed
    qed
  next
    assume len: "2 * length s < Suc n"
    show "parse_members (Suc n + k) s kacc = parse_members (Suc n) s kacc"
    proof (cases "skip_ws s")
      case Nil then show ?thesis by simp
    next
      case (Cons c cs)
      show ?thesis
      proof (cases "json_unquote_body cs")
        case None then show ?thesis using Cons by simp
      next
        case (Some q)
        obtain kk r0 where q: "q = (kk, r0)" by (cases q)
        have r0: "length r0 < length s"
          using skip_ws_ConsD [OF Cons] json_unquote_body_shorter [OF Some] q by simp
        show ?thesis
        proof (cases "skip_ws r0")
          case Nil then show ?thesis using Cons Some q by simp
        next
          case Cons2: (Cons e es)
          have es: "2 * length es \<le> n" using skip_ws_ConsD [OF Cons2] r0 len by simp
          show ?thesis
          proof (cases "parse_value n es")
            case None then show ?thesis using Cons Some q Cons2 V [OF es] by simp
          next
            case (Some p)
            obtain v r where p: "p = (v, r)" by (cases p)
            have r: "length r < length es" using parse_shorter(1) Some p by blast
            show ?thesis
            proof (cases "skip_ws r")
              case Nil then show ?thesis using Cons \<open>json_unquote_body cs = Some q\<close> q Cons2 V [OF es] Some p
                by simp
            next
              case Cons3: (Cons d ds)
              have "2 * length ds < n" using skip_ws_ConsD [OF Cons3] skip_ws_ConsD [OF Cons2] r r0 len by simp
              then show ?thesis using Cons \<open>json_unquote_body cs = Some q\<close> q Cons2 V [OF es] Some p Cons3
                by (simp add: M)
            qed
          qed
        qed
      qed
    qed
  qed
qed


lemma json_parse_fuel:
  "json_parse s =
     (case parse_value (2 * length s + k) s of
        None \<Rightarrow> None
      | Some (v, r) \<Rightarrow> if skip_ws r = [] then Some v else None)"
  using parse_fuel [of s "2 * length s" k] by (simp add: json_parse_def)

end
