(* ===== verification/Synthesis.thy ===== *)
theory Synthesis
  imports Transform Json Templates
begin

text \<open>
  The code synthesizer: the \<open>generate*\<close> functions of
  \<open>src/src/utils/generatePortfolio.js\<close> that bind the form's content into the text of
  one output file each, written as their template literals line by line (see
  \<open>Templates\<close>) with every \<open>${...}\<close> of the source at its place: a field of the
  form, a value of the content transformer (\<open>Transform\<close>), a nested template, a
  conditional \<open>cond ? text : ''\<close>, or \<open>JSON.stringify\<close> of the normalised data
  (\<open>Json\<close>). \<open>generateSkillsContent\<close> also takes the engine (\<open>js_env\<close>): the
  random source behind \<open>Math.random()\<close> and \<open>Number::toString\<close>.
\<close>

subsection \<open>The page shell and the introduction\<close>

definition generateAppContent :: "form_data \<Rightarrow> string" where
  \<open>generateAppContent fd = tpl
     [''import React, { useState, useEffect } from 'react';'',
      ''import { AnimatePresence } from 'framer-motion';'',
      ''import Hero from './components/Hero';'',
      ''import About from './components/About';'',
      ''import Projects from './components/Projects';'',
      ''import Skills from './components/Skills';'',
      ''import Contact from './components/Contact';'',
      ''import Navbar from './components/Navbar';'',
      ''import CustomCursor from './components/CustomCursor';'',
      ''import ScrollProgress from './components/ScrollProgress';'',
      ''import ThreeBackground from './components/ThreeBackground';'',
      ''import './index.css';'',
      [],
      ''function App() {'',
      ''  const [isLoading, setIsLoading] = useState(true);'',
      [],
      ''  useEffect(() => {'',
      ''    setTimeout(() => setIsLoading(false), 2000);'',
      ''  }, []);'',
      [],
      ''  return ('',
      ''    <div className="relative min-h-screen bg-black text-white overflow-x-hidden">'',
      ''      <CustomCursor />'',
      ''      <ScrollProgress />'',
      ''      <ThreeBackground />'',
      ''      '',
      ''      <AnimatePresence>'',
      ''        {isLoading ? ('',
      ''          <div className="fixed inset-0 z-50 flex items-center justify-center bg-black">'',
      ''            <div className="text-4xl font-bold animate-pulse">Welcome to '' @ name fd @ [CHR 0x27] @ ''s Portfolio</div>'',
      ''          </div>'',
      ''        ) : ('',
      ''          <>'',
      ''            <Navbar />'',
      ''            <Hero />'',
      ''            <About />'',
      ''            <Projects />'',
      ''            <Skills />'',
      ''            <Contact />'',
      ''          </>'',
      ''        )}'',
      ''      </AnimatePresence>'',
      ''    </div>'',
      ''  );'',
      ''}'',
      [],
      ''export default App;'']\<close>

definition hero_word :: "string \<Rightarrow> string" where
  \<open>hero_word n = ''{ text: "'' @ n @ ''", className: "text-purple-500" }''\<close>

definition generateHeroContent :: "form_data \<Rightarrow> string" where
  \<open>generateHeroContent fd = tpl
     [''import React from 'react';'',
      ''import { motion } from 'framer-motion';'',
      ''import { TypewriterEffect } from '@aceternity/ui';'',
      ''import Spline from '@splinetool/react-spline';'',
      ''import { ChevronDown } from 'lucide-react';'',
      [],
      ''export default function Hero() {'',
      ''  const words = ['',
      ''    { text: "Hi,", className: "text-white" },'',
      ''    { text: "I'm", className: "text-white" },'',
      ''    '' @ js_join ('','' @ nl @ ''    '') (map hero_word (hero_names fd)) @ '','',
      ''  ];'',
      [],
      ''  return ('',
      ''    <section className="relative min-h-screen flex items-center justify-center">'',
      ''      <div className="absolute inset-0 z-0">'',
      ''        <Spline scene="https://prod.spline.design/6Wq1Q7YGyM-iab9P/scene.splinecode" />'',
      ''      </div>'',
      ''      '',
      ''      <div className="relative z-10 text-center px-4">'',
      ''        <motion.div'',
      ''          initial={{ opacity: 0, y: 20 }}'',
      ''          animate={{ opacity: 1, y: 0 }}'',
      ''          transition={{ duration: 0.8 }}'',
      ''        >'',
      ''          <TypewriterEffect words={words} className="text-6xl md:text-8xl font-bold mb-4" />'',
      ''          <motion.p '',
      ''            className="text-xl md:text-2xl text-gray-300 mb-8"'',
      ''            initial={{ opacity: 0 }}'',
      ''            animate={{ opacity: 1 }}'',
      ''            transition={{ delay: 1, duration: 0.8 }}'',
      ''          >'',
      ''            '' @ title fd,
      ''          </motion.p>'',
      ''          '',
      ''          <motion.div'',
      ''            initial={{ opacity: 0 }}'',
      ''            animate={{ opacity: 1 }}'',
      ''            transition={{ delay: 1.5, duration: 0.8 }}'',
      ''            className="flex gap-4 justify-center"'',
      ''          >'',
      ''            <a href="#projects" className="px-8 py-3 bg-purple-600 hover:bg-purple-700 rounded-full font-semibold transition-all transform hover:scale-105">'',
      ''              View Projects'',
      ''            </a>'',
      ''            <a href="#contact" className="px-8 py-3 border-2 border-purple-600 hover:bg-purple-600 rounded-full font-semibold transition-all transform hover:scale-105">'',
      ''              Contact Me'',
      ''            </a>'',
      ''          </motion.div>'',
      ''        </motion.div>'',
      ''      </div>'',
      ''      '',
      ''      <motion.div'',
      ''        className="absolute bottom-10 left-1/2 transform -translate-x-1/2"'',
      ''        animate={{ y: [0, 10, 0] }}'',
      ''        transition={{ repeat: Infinity, duration: 2 }}'',
      ''      >'',
      ''        <ChevronDown size={32} className="text-purple-500" />'',
      ''      </motion.div>'',
      ''    </section>'',
      ''  );'',
      ''}'']\<close>

subsection \<open>The manifest and the about section\<close>

definition generatePackageJson :: "string \<Rightarrow> string" where
  \<open>generatePackageJson nm = tpl
     [''{'',
      ''  "name": "'' @ slugify nm @ ''-portfolio",'',
      ''  "private": true,'',
      ''  "version": "1.0.0",'',
      ''  "type": "module",'',
      ''  "scripts": {'',
      ''    "dev": "vite",'',
      ''    "build": "vite build",'',
      ''    "preview": "vite preview"'',
      ''  },'',
      ''  "dependencies": {'',
      ''    "react": "^18.2.0",'',
      ''    "react-dom": "^18.2.0",'',
      ''    "three": "^0.160.0",'',
      ''    "@react-three/fiber": "^8.15.0",'',
      ''    "@react-three/drei": "^9.92.0",'',
      ''    "framer-motion": "^10.16.0",'',
      ''    "@splinetool/react-spline": "^2.2.6",'',
      ''    "@aceternity/ui": "^0.1.0",'',
      ''    "lucide-react": "^0.303.0",'',
      ''    "clsx": "^2.1.0",'',
      ''    "tailwind-merge": "^2.2.0",'',
      ''    "react-intersection-observer": "^9.5.3",'',
      ''    "react-parallax-tilt": "^1.7.175"'',
      ''  },'',
      ''  "devDependencies": {'',
      ''    "@types/react": "^18.2.0",'',
      ''    "@types/react-dom": "^18.2.0",'',
      ''    "@vitejs/plugin-react": "^4.2.0",'',
      ''    "autoprefixer": "^10.4.16",'',
      ''    "postcss": "^8.4.32",'',
      ''    "tailwindcss": "^3.4.0",'',
      ''    "vite": "^5.0.0"'',
      ''  }'',
      ''}'']\<close>

definition generateAboutContent :: "form_data \<Rightarrow> string" where
  \<open>generateAboutContent fd = tpl
     [''import React from 'react';'',
      ''import { motion } from 'framer-motion';'',
      ''import { useInView } from 'react-intersection-observer';'',
      ''import Tilt from 'react-parallax-tilt';'',
      ''import { Code2, Palette, Rocket } from 'lucide-react';'',
      ''import Spline from '@splinetool/react-spline';'',
      [],
      ''export default function About() {'',
      ''  const [ref, inView] = useInView({'',
      ''    threshold: 0.3,'',
      ''    triggerOnce: true,'',
      ''  });'',
      [],
      ''  const cards = ['',
      ''    {'',
      ''      icon: <Code2 size={40} />,'',
      ''      title: "Clean Code",'',
      ''      description: "Writing maintainable and scalable code with best practices"'',
      ''    },'',
      ''    {'',
      ''      icon: <Palette size={40} />,'',
      ''      title: "Creative Design", '',
      ''      description: "Bringing ideas to life with stunning visual experiences"'',
      ''    },'',
      ''    {'',
      ''      icon: <Rocket size={40} />,'',
      ''      title: "Performance",'',
      ''      description: "Optimizing for speed and exceptional user experience"'',
      ''    }'',
      ''  ];'',
      [],
      ''  return ('',
      ''    <section id="about" ref={ref} className="relative py-20 px-4 md:px-8 lg:px-16">'',
      ''      <motion.div'',
      ''        initial={{ opacity: 0, y: 50 }}'',
      ''        animate={inView ? { opacity: 1, y: 0 } : {}}'',
      ''        transition={{ duration: 0.8 }}'',
      ''        className="max-w-7xl mx-auto"'',
      ''      >'',
      ''        <h2 className="text-5xl md:text-6xl font-bold text-center mb-16">'',
      ''          About <span className="text-purple-500">Me</span>'',
      ''        </h2>'',
      ''        '',
      ''        <div className="grid md:grid-cols-2 gap-12 items-center mb-16">'',
      ''          <motion.div'',
      ''            initial={{ opacity: 0, x: -50 }}'',
      ''            animate={inView ? { opacity: 1, x: 0 } : {}}'',
      ''            transition={{ duration: 0.8, delay: 0.2 }}'',
      ''          >'',
      ''            <p className="text-lg text-gray-300 leading-relaxed mb-6">'',
      ''              '' @ about fd,
      ''            </p>'',
      ''          </motion.div>'',
      ''          '',
      ''          <motion.div'',
      ''            initial={{ opacity: 0, x: 50 }}'',
      ''            animate={inView ? { opacity: 1, x: 0 } : {}}'',
      ''            transition={{ duration: 0.8, delay: 0.4 }}'',
      ''            className="relative"'',
      ''          >'',
      ''            <div className="w-full h-96 bg-gradient-to-br from-purple-600 to-pink-600 rounded-2xl overflow-hidden">'',
      ''              <Spline scene="https://prod.spline.design/VzSTJ1LN5DTJh5Cv/scene.splinecode" />'',
      ''            </div>'',
      ''          </motion.div>'',
      ''        </div>'',
      ''        '',
      ''        <div className="grid md:grid-cols-3 gap-8">'',
      ''          {cards.map((card, index) => ('',
      ''            <Tilt key={index} tiltMaxAngleX={10} tiltMaxAngleY={10}>'',
      ''              <motion.div'',
      ''                initial={{ opacity: 0, y: 50 }}'',
      ''                animate={inView ? { opacity: 1, y: 0 } : {}}'',
      ''                transition={{ duration: 0.8, delay: 0.6 + index * 0.1 }}'',
      ''                className="bg-white/5 backdrop-blur-lg border border-white/10 rounded-2xl p-8 hover:bg-white/10 transition-all"'',
      ''              >'',
      ''                <div className="text-purple-500 mb-4">{card.icon}</div>'',
      ''                <h3 className="text-2xl font-bold mb-2">{card.title}</h3>'',
      ''                <p className="text-gray-400">{card.description}</p>'',
      ''              </motion.div>'',
      ''            </Tilt>'',
      ''          ))}'',
      ''        </div>'',
      ''      </motion.div>'',
      ''    </section>'',
      ''  );'',
      ''}'']\<close>

subsection \<open>The projects section\<close>

definition project_json :: "norm_project \<Rightarrow> json" where
  "project_json np =
     JObj [(''title'', JStr (np_title np)), (''description'', JStr (np_description np)),
           (''tech'', JArr (map JStr (np_tech np))), (''link'', JStr (np_link np)),
           (''github'', JStr (np_github np)), (''image'', JStr (np_image np)),
           (''color'', JStr (np_color np))]"

definition projects_gallery :: "string" where
  \<open>projects_gallery = tpl
     ([] # [''        <div className="relative">'',
      ''          <AnimatePresence mode="wait">'',
      ''            <motion.div'',
      ''              key={currentProject}'',
      ''              initial={{ opacity: 0, x: 100 }}'',
      ''              animate={{ opacity: 1, x: 0 }}'',
      ''              exit={{ opacity: 0, x: -100 }}'',
      ''              transition={{ duration: 0.5 }}'',
      ''              className="grid md:grid-cols-2 gap-12 items-center"'',
      ''            >'',
      ''              <BackgroundGradient className="rounded-2xl p-1">'',
      ''                <div className="relative overflow-hidden rounded-2xl">'',
      ''                  <img '',
      ''                    src={projects[currentProject].image} '',
      ''                    alt={projects[currentProject].title}'',
      ''                    className="w-full h-80 object-cover"'',
      ''                  />'',
      ''                  <div className={`absolute inset-0 bg-gradient-to-br ${projects[currentProject].color} opacity-20`} />'',
      ''                </div>'',
      ''              </BackgroundGradient>'',
      ''              '',
      ''              <div>'',
      ''                <h3 className="text-3xl font-bold mb-4">{projects[currentProject].title}</h3>'',
      ''                <p className="text-gray-300 mb-6">{projects[currentProject].description}</p>'',
      ''                '',
      ''                <div className="flex flex-wrap gap-2 mb-8">'',
      ''                  {projects[currentProject].tech.map((tech, index) => ('',
      ''                    <span '',
      ''                      key={index}'',
      ''                      className="px-4 py-2 bg-purple-500/20 text-purple-300 rounded-full text-sm"'',
      ''                    >'',
      ''                      {tech}'',
      ''                    </span>'',
      ''                  ))}'',
      ''                </div>'',
      ''                '',
      ''                <div className="flex gap-4">'',
      ''                  {projects[currentProject].github && ('',
      ''                    <a '',
      ''                      href={projects[currentProject].github}'',
      ''                      className="flex items-center gap-2 px-6 py-3 bg-white/10 hover:bg-white/20 rounded-full transition-all"'',
      ''                    >'',
      ''                      <Github size={20} />'',
      ''                      Code'',
      ''                    </a>'',
      ''                  )}'',
      ''                  {projects[currentProject].link && ('',
      ''                    <a '',
      ''                      href={projects[currentProject].link}'',
      ''                      className="flex items-center gap-2 px-6 py-3 bg-purple-600 hover:bg-purple-700 rounded-full transition-all"'',
      ''                    >'',
      ''                      <ExternalLink size={20} />'',
      ''                      Live Demo'',
      ''                    </a>'',
      ''                  )}'',
      ''                </div>'',
      ''              </div>'',
      ''            </motion.div>'',
      ''          </AnimatePresence>'',
      ''          '',
      ''          {projects.length > 1 && ('',
      ''            <div className="flex justify-center gap-4 mt-12">'',
      ''              <button '',
      ''                onClick={prevProject}'',
      ''                className="p-3 bg-white/10 hover:bg-white/20 rounded-full transition-all"'',
      ''              >'',
      ''                <ChevronLeft size={24} />'',
      ''              </button>'',
      ''              <button '',
      ''                onClick={nextProject}'',
      ''                className="p-3 bg-white/10 hover:bg-white/20 rounded-full transition-all"'',
      ''              >'',
      ''                <ChevronRight size={24} />'',
      ''              </button>'',
      ''            </div>'',
      ''          )}'',
      ''        </div>''] @ [''        ''])\<close>

definition projects_fallback :: string where
  \<open>projects_fallback = ''<p className="text-center text-gray-400">No projects added yet.</p>''\<close>

definition generateProjectsContent :: "form_data \<Rightarrow> string" where
  \<open>generateProjectsContent fd = tpl
     [''import React, { useState } from 'react';'',
      ''import { motion, AnimatePresence } from 'framer-motion';'',
      ''import { useInView } from 'react-intersection-observer';'',
      ''import { ExternalLink, Github, ChevronLeft, ChevronRight } from 'lucide-react';'',
      ''import { BackgroundGradient } from '@aceternity/ui';'',
      [],
      ''export default function Projects() {'',
      ''  const [ref, inView] = useInView({'',
      ''    threshold: 0.2,'',
      ''    triggerOnce: true,'',
      ''  });'',
      [],
      ''  const [currentProject, setCurrentProject] = useState(0);'',
      [],
      ''  const projects = '' @ json_stringify (JArr (map project_json (normalize_projects fd))) @ '';'',
      [],
      ''  const nextProject = () => {'',
      ''    setCurrentProject((prev) => (prev + 1) % projects.length);'',
      ''  };'',
      [],
      ''  const prevProject = () => {'',
      ''    setCurrentProject((prev) => (prev - 1 + projects.length) % projects.length);'',
      ''  };'',
      [],
      ''  return ('',
      ''    <section id="projects" ref={ref} className="relative py-20 px-4 md:px-8 lg:px-16">'',
      ''      <motion.div'',
      ''        initial={{ opacity: 0, y: 50 }}'',
      ''                animate={inView ? { opacity: 1, y: 0 } : {}}'',
      ''        transition={{ duration: 0.8 }}'',
      ''        className="max-w-7xl mx-auto"'',
      ''      >'',
      ''        <h2 className="text-5xl md:text-6xl font-bold text-center mb-16">'',
      ''          Featured <span className="text-purple-500">Projects</span>'',
      ''        </h2>'',
      ''        '',
      ''        '' @ (if 0 < length (kept_projects fd) then projects_gallery else projects_fallback),
      ''      </motion.div>'',
      ''    </section>'',
      ''  );'',
      ''}'']\<close>

subsection \<open>The skills section\<close>

definition skill_json :: "js_env \<Rightarrow> skill_entry \<Rightarrow> json" where
  "skill_json env s =
     JObj [(''name'', JStr (sk_name s)), (''level'', JNum (number_str env (sk_level s))),
           (''category'', JStr (sk_category s))]"

definition skill_tag :: "string \<Rightarrow> string" where
  \<open>skill_tag s = tpl
     [''<span className="px-4 py-2 bg-purple-500/20 text-purple-300 rounded-full text-sm">'',
      ''              '' @ s,
      ''            </span>'']\<close>

definition generateSkillsContent :: "js_env \<Rightarrow> form_data \<Rightarrow> string" where
  \<open>generateSkillsContent env fd = tpl
     [''import React from 'react';'',
      ''import { motion } from 'framer-motion';'',
      ''import { useInView } from 'react-intersection-observer';'',
      ''import { Canvas } from '@react-three/fiber';'',
      ''import { OrbitControls, Text3D, Center } from '@react-three/drei';'',
      [],
      ''export default function Skills() {'',
      ''  const [ref, inView] = useInView({'',
      ''    threshold: 0.2,'',
      ''    triggerOnce: true,'',
      ''  });'',
      [],
      ''  const skills = '' @ json_stringify (JArr (map (skill_json env) (skill_entries env fd))) @ '';'',
      [],
      ''  return ('',
      ''    <section id="skills" ref={ref} className="relative py-20 px-4 md:px-8 lg:px-16">'',
      ''      <motion.div'',
      ''        initial={{ opacity: 0, y: 50 }}'',
      ''        animate={inView ? { opacity: 1, y: 0 } : {}}'',
      ''        transition={{ duration: 0.8 }}'',
      ''        className="max-w-7xl mx-auto"'',
      ''      >'',
      ''        <h2 className="text-5xl md:text-6xl font-bold text-center mb-16">'',
      ''          Skills & <span className="text-purple-500">Expertise</span>'',
      ''        </h2>'',
      ''        '',
      ''        <div className="grid md:grid-cols-2 lg:grid-cols-3 gap-8 mb-16">'',
      ''          {skills.map((skill, index) => ('',
      ''            <motion.div'',
      ''              key={skill.name}'',
      ''              initial={{ opacity: 0, scale: 0.8 }}'',
      ''              animate={inView ? { opacity: 1, scale: 1 } : {}}'',
      ''              transition={{ duration: 0.5, delay: index * 0.1 }}'',
      ''              className="bg-white/5 backdrop-blur-lg border border-white/10 rounded-2xl p-6"'',
      ''            >'',
      ''              <div className="flex justify-between items-center mb-2">'',
      ''                <h3 className="text-xl font-semibold">{skill.name}</h3>'',
      ''                <span className="text-sm text-purple-400">{skill.category}</span>'',
      ''              </div>'',
      ''              <div className="relative h-3 bg-white/10 rounded-full overflow-hidden">'',
      ''                <motion.div'',
      ''                  initial={{ width: 0 }}'',
      ''                  animate={inView ? { width: `${skill.level}%` } : {}}'',
      ''                  transition={{ duration: 1, delay: 0.5 + index * 0.1 }}'',
      ''                  className="absolute h-full bg-gradient-to-r from-purple-500 to-pink-500"'',
      ''                />'',
      ''              </div>'',
      ''              <span className="text-sm text-gray-400 mt-2">{Math.round(skill.level)}%</span>'',
      ''            </motion.div>'',
      ''          ))}'',
      ''        </div>'',
      ''        '',
      ''        <div className="flex flex-wrap gap-3 justify-center">'',
      ''          '' @ js_join (nl @ ''          '') (map skill_tag (skill_tokens fd)),
      ''        </div>'',
      ''      </motion.div>'',
      ''    </section>'',
      ''  );'',
      ''}'']\<close>

subsection \<open>The contact section and the instructions\<close>

definition opt_line :: "string \<Rightarrow> string \<Rightarrow> string" where
  "opt_line v txt = (if js_truthy v then txt else [])"

definition generateContactContent :: "form_data \<Rightarrow> string" where
  \<open>generateContactContent fd = tpl
     [''import React, { useState } from 'react';'',
      ''import { motion } from 'framer-motion';'',
      ''import { useInView } from 'react-intersection-observer';'',
      ''import { Send, Mail, MapPin, Phone, Github, Linkedin, Twitter } from 'lucide-react';'',
      ''import { BackgroundBeams } from '@aceternity/ui';'',
      [],
      ''export default function Contact() {'',
      ''  const [ref, inView] = useInView({'',
      ''    threshold: 0.2,'',
      ''    triggerOnce: true,'',
      ''  });'',
      [],
      ''  const [formData, setFormData] = useState({'',
      ''    name: '' @ [CHR 0x27, CHR 0x27] @ '','',
      ''    email: '' @ [CHR 0x27, CHR 0x27] @ '','',
      ''    message: '' @ [CHR 0x27, CHR 0x27],
      ''  });'',
      [],
      ''  const handleSubmit = (e) => {'',
      ''    e.preventDefault();'',
      ''    // Handle form submission'',
      ''    const mailtoLink = `mailto:'' @ email fd @ ''?subject=Portfolio Contact from ${formData.name}&body=${encodeURIComponent(formData.message)}`;'',
      ''    window.open(mailtoLink);'',
      ''  };'',
      [],
      ''  const socialLinks = ['',
      ''    '' @ opt_line (github fd) (''{ icon: <Github size={24} />, href: "'' @ github fd @ ''", label: "GitHub" },''),
      ''    '' @ opt_line (linkedin fd) (''{ icon: <Linkedin size={24} />, href: "'' @ linkedin fd @ ''", label: "LinkedIn" },''),
      ''    '' @ opt_line (twitter fd) (''{ icon: <Twitter size={24} />, href: "'' @ twitter fd @ ''", label: "Twitter" },''),
      ''  ].filter(Boolean);'',
      [],
      ''  const contactInfo = ['',
      ''    { icon: <Mail size={20} />, text: "'' @ email fd @ ''" },'',
      ''    '' @ opt_line (phone fd) (''{ icon: <Phone size={20} />, text: "'' @ phone fd @ ''" },''),
      ''    '' @ opt_line (location fd) (''{ icon: <MapPin size={20} />, text: "'' @ location fd @ ''" },''),
      ''  ].filter(Boolean);'',
      [],
      ''  return ('',
      ''    <section id="contact" ref={ref} className="relative py-20 px-4 md:px-8 lg:px-16">'',
      ''      <BackgroundBeams />'',
      ''      <motion.div'',
      ''        initial={{ opacity: 0, y: 50 }}'',
      ''        animate={inView ? { opacity: 1, y: 0 } : {}}'',
      ''        transition={{ duration: 0.8 }}'',
      ''        className="max-w-7xl mx-auto relative z-10"'',
      ''      >'',
      ''        <h2 className="text-5xl md:text-6xl font-bold text-center mb-16">'',
      ''          Get In <span className="text-purple-500">Touch</span>'',
      ''        </h2>'',
      ''        '',
      ''        <div className="grid md:grid-cols-2 gap-12">'',
      ''          <motion.div'',
      ''            initial={{ opacity: 0, x: -50 }}'',
      ''            animate={inView ? { opacity: 1, x: 0 } : {}}'',
      ''            transition={{ duration: 0.8, delay: 0.2 }}'',
      ''          >'',
      ''            <h3 className="text-2xl font-bold mb-6">Let's work together</h3>'',
      ''            <p className="text-gray-300 mb-8">'',
      ''              I'm always interested in hearing about new projects and opportunities. '',
      ''                            Whether you have a question or just want to say hi, feel free to reach out!'',
      ''            </p>'',
      ''            '',
      ''            <div className="space-y-4 mb-8">'',
      ''              {contactInfo.map((item, index) => ('',
      ''                <div key={index} className="flex items-center gap-3 text-gray-300">'',
      ''                  <span className="text-purple-500">{item.icon}</span>'',
      ''                  <span>{item.text}</span>'',
      ''                </div>'',
      ''              ))}'',
      ''            </div>'',
      ''            '',
      ''            {socialLinks.length > 0 && ('',
      ''              <div className="flex gap-4">'',
      ''                {socialLinks.map((link, index) => ('',
      ''                  <motion.a'',
      ''                    key={index}'',
      ''                    href={link.href}'',
      ''                    whileHover={{ scale: 1.1, rotate: 5 }}'',
      ''                    whileTap={{ scale: 0.95 }}'',
      ''                    className="p-3 bg-white/10 hover:bg-purple-500/20 rounded-full transition-all"'',
      ''                    aria-label={link.label}'',
      ''                  >'',
      ''                    {link.icon}'',
      ''                  </motion.a>'',
      ''                ))}'',
      ''              </div>'',
      ''            )}'',
      ''          </motion.div>'',
      ''          '',
      ''          <motion.form'',
      ''            initial={{ opacity: 0, x: 50 }}'',
      ''            animate={inView ? { opacity: 1, x: 0 } : {}}'',
      ''            transition={{ duration: 0.8, delay: 0.4 }}'',
      ''            onSubmit={handleSubmit}'',
      ''            className="space-y-6"'',
      ''          >'',
      ''            <div>'',
      ''              <input'',
      ''                type="text"'',
      ''                placeholder="Your Name"'',
      ''                value={formData.name}'',
      ''                onChange={(e) => setFormData({ ...formData, name: e.target.value })}'',
      ''                className="w-full px-6 py-4 bg-white/5 border border-white/10 rounded-xl focus:border-purple-500 outline-none transition-all"'',
      ''                required'',
      ''              />'',
      ''            </div>'',
      ''            <div>'',
      ''              <input'',
      ''                type="email"'',
      ''                placeholder="Your Email"'',
      ''                value={formData.email}'',
      ''                onChange={(e) => setFormData({ ...formData, email: e.target.value })}'',
      ''                className="w-full px-6 py-4 bg-white/5 border border-white/10 rounded-xl focus:border-purple-500 outline-none transition-all"'',
      ''                required'',
      ''              />'',
      ''            </div>'',
      ''            <div>'',
      ''              <textarea'',
      ''                placeholder="Your Message"'',
      ''                rows={6}'',
      ''                value={formData.message}'',
      ''                onChange={(e) => setFormData({ ...formData, message: e.target.value })}'',
      ''                className="w-full px-6 py-4 bg-white/5 border border-white/10 rounded-xl focus:border-purple-500 outline-none transition-all resize-none"'',
      ''                required'',
      ''              />'',
      ''            </div>'',
      ''            <motion.button'',
      ''              type="submit"'',
      ''              whileHover={{ scale: 1.05 }}'',
      ''              whileTap={{ scale: 0.95 }}'',
      ''              className="w-full px-8 py-4 bg-gradient-to-r from-purple-600 to-pink-600 hover:from-purple-700 hover:to-pink-700 rounded-xl font-semibold flex items-center justify-center gap-2 transition-all"'',
      ''            >'',
      ''              Send Message'',
      ''              <Send size={20} />'',
      ''            </motion.button>'',
      ''          </motion.form>'',
      ''        </div>'',
      ''      </motion.div>'',
      ''    </section>'',
      ''  );'',
      ''}'']\<close>

definition generateReadme :: "form_data \<Rightarrow> string" where
  \<open>generateReadme fd = tpl
     [''# '' @ name fd @ [CHR 0x27] @ ''s Portfolio'',
      [],
      ''An interactive 3D portfolio website built with React, Three.js, and Spline.'',
      [],
      ''## '' @ [CHR 0xC3, CHR 0xB0, CHR 0xC5, CHR 0xB8, CHR 0xC5, CHR 0xA1, CHR 0xE2, CHR 0x82, CHR 0xAC] @ '' Features'',
      [],
      ''- **Interactive 3D Graphics**: Stunning visual effects with Three.js and Spline'',
      ''- **Smooth Animations**: Powered by Framer Motion'',
      ''- **Responsive Design**: Works perfectly on all devices'',
      ''- **Modern UI Components**: Using Aceternity UI for beautiful interfaces'',
      ''- **Custom Cursor**: Enhanced user experience with custom cursor effects'',
      ''- **Scroll Progress**: Visual scroll progress indicator'',
      [],
      ''## '' @ [CHR 0xC3, CHR 0xB0, CHR 0xC5, CHR 0xB8, CHR 0xE2, CHR 0x80, CHR 0xBA, CHR 0xC2, CHR 0xA0, CHR 0xC3, CHR 0xAF, CHR 0xC2, CHR 0xB8] @ '' Technologies Used'',
      [],
      ''- React 18'',
      ''- Three.js & React Three Fiber'',
      ''- Spline for 3D scenes'',
      ''- Framer Motion for animations'',
      ''- Tailwind CSS for styling'',
      ''- Aceternity UI components'',
      ''- Vite for fast development'',
      [],
      ''## '' @ [CHR 0xC3, CHR 0xB0, CHR 0xC5, CHR 0xB8, CHR 0xE2, CHR 0x80, CHR 0x9C, CHR 0xC2, CHR 0xA6] @ '' Installation'',
      [],
      ''1. Clone this repository'',
      ''2. Install dependencies:'',
      ''   ```bash'',
      ''   npm install'',
      ''   ```'',
      ''3. Start the development server:'',
      ''   ```bash'',
      ''   npm run dev'',
      ''   ```'',
      [],
      ''## '' @ [CHR 0xC3, CHR 0xB0, CHR 0xC5, CHR 0xB8, CHR 0xE2, CHR 0x80, CHR 0x94, CHR 0xC3, CHR 0xAF, CHR 0xC2, CHR 0xB8] @ '' Building for Production'',
      [],
      ''```bash'',
      ''npm run build'',
      ''```'',
      [],
      ''## '' @ [CHR 0xC3, CHR 0xB0, CHR 0xC5, CHR 0xB8, CHR 0xE2, CHR 0x80, CHR 0x9C] @ '' Customization'',
      [],
      ''To customize this portfolio:'',
      [],
      ''1. Update personal information in components'',
      ''2. Replace project data with your own'',
      ''3. Modify color schemes in tailwind.config.js'',
      ''4. Add your own 3D models or Spline scenes'',
      [],
      ''## '' @ [CHR 0xC3, CHR 0xB0, CHR 0xC5, CHR 0xB8, CHR 0xE2, CHR 0x80, CHR 0x9C, CHR 0xC2, CHR 0xA7] @ '' Contact'',
      [],
      ''- Email: '' @ email fd,
      opt_line (github fd) (''- GitHub: '' @ github fd),
      opt_line (linkedin fd) (''- LinkedIn: '' @ linkedin fd),
      [],
      ''## '' @ [CHR 0xC3, CHR 0xB0, CHR 0xC5, CHR 0xB8, CHR 0xE2, CHR 0x80, CHR 0x9C, CHR 0xE2, CHR 0x80, CHR 0x9E] @ '' License'',
      [],
      ''This project is open source and available under the MIT License.'',
      []]\<close>


subsection \<open>Properties of the projects section\<close>

lemma sublist_line_tpl: "sublist x l \<Longrightarrow> l \<in> set ls \<Longrightarrow> sublist x (tpl ls)"
  unfolding tpl_def using sublist_js_join sublist_order.order.trans by blast

lemma length_tpl: "length (tpl ls) = sum_list (map length ls) + (length ls - 1)"
  by (simp add: tpl_def length_js_join)

lemma sublist_length: "sublist xs ys \<Longrightarrow> length xs \<le> length ys"
  by (auto simp: sublist_def)

text \<open>C6: with no project left after the title filter, \<open>Projects.jsx\<close> holds the
  fixed "No projects added yet." body and not the project gallery, whose navigation
  controls are therefore absent too.\<close>

theorem projects_section_empty:
  assumes "kept_projects fd = []"
  shows "sublist projects_fallback (generateProjectsContent fd) \<and>
         \<not> sublist projects_gallery (generateProjectsContent fd)"
proof
  have np: "normalize_projects fd = []"
    using assms by (simp add: normalize_projects_def js_map_idx_def)
  show "sublist projects_fallback (generateProjectsContent fd)"
    unfolding generateProjectsContent_def using assms
    by (intro sublist_line_tpl [OF sublist_append_leftI [of projects_fallback "''        ''"]]) simp
  have "length (generateProjectsContent fd) < length projects_gallery"
    using assms np
    by (simp add: generateProjectsContent_def projects_gallery_def projects_fallback_def
        length_tpl json_stringify_def)
  then show "\<not> sublist projects_gallery (generateProjectsContent fd)"
    using sublist_length by fastforce
qed

theorem projects_section_empty_witness:
  "kept_projects initial_form_data = [] \<and>
   sublist projects_fallback (generateProjectsContent initial_form_data)"
proof -
  have k: "kept_projects initial_form_data = []"
    by (simp add: kept_projects_def initial_form_data_def empty_project_def js_truthy_def)
  show ?thesis using projects_section_empty [OF k] k by simp
qed

text \<open>C7: with at least one project left, \<open>Projects.jsx\<close> holds the project gallery,
  whose previous/next controls are guarded at run time by \<open>projects.length > 1\<close>
  (the spec has them omitted when there is exactly one project; the generated code
  renders them conditionally instead).\<close>

theorem projects_section_nonempty:
  assumes "kept_projects fd \<noteq> []"
  shows "sublist projects_gallery (generateProjectsContent fd) \<and>
         sublist ''{projects.length > 1 && ('' (generateProjectsContent fd)"
proof
  show g: "sublist projects_gallery (generateProjectsContent fd)"
    unfolding generateProjectsContent_def using assms
    by (intro sublist_line_tpl [OF sublist_append_leftI [of projects_gallery "''        ''"]]) simp
  have "sublist ''{projects.length > 1 && ('' projects_gallery"
    unfolding projects_gallery_def
    by (intro sublist_line_tpl [OF sublist_append_leftI [of _ "''          ''"]]) simp
  then show "sublist ''{projects.length > 1 && ('' (generateProjectsContent fd)"
    using g sublist_order.order.trans by blast
qed

theorem projects_section_nonempty_witness:
  "kept_projects (initial_form_data\<lparr>projects := [empty_project\<lparr>ptitle := ''P''\<rparr>]\<rparr>) \<noteq> [] \<and>
   sublist projects_gallery
     (generateProjectsContent (initial_form_data\<lparr>projects := [empty_project\<lparr>ptitle := ''P''\<rparr>]\<rparr>))"
proof -
  have k: "kept_projects (initial_form_data\<lparr>projects := [empty_project\<lparr>ptitle := ''P''\<rparr>]\<rparr>) \<noteq> []"
    by (simp add: kept_projects_def js_truthy_def)
  show ?thesis using projects_section_nonempty [OF k] k by simp
qed

subsection \<open>Where the generated text departs from the spec\<close>

text \<open>C10: the README never mentions Twitter: changing the \<open>twitter\<close> field leaves it
  unchanged, while the spec lists each provided social link (the code writes only
  GitHub and LinkedIn).\<close>

theorem readme_ignores_twitter: "generateReadme (fd\<lparr>twitter := t\<rparr>) = generateReadme fd"
  by (simp add: generateReadme_def)


subsection \<open>The embedded data reads back\<close>

lemma projects_literal:
  "sublist (''  const projects = '' @ json_stringify (JArr (map project_json (normalize_projects fd))) @ '';'')
     (generateProjectsContent fd)"
  unfolding generateProjectsContent_def by (intro sublist_line_tpl [OF sublist_order.order.refl]) simp

lemma skills_literal:
  "sublist (''  const skills = '' @ json_stringify (JArr (map (skill_json env) (skill_entries env fd))) @ '';'')
     (generateSkillsContent env fd)"
  unfolding generateSkillsContent_def by (intro sublist_line_tpl [OF sublist_order.order.refl]) simp

text \<open>C28: the \<open>projects\<close> array written into \<open>Projects.jsx\<close> is a JSON text that reads
  back as exactly the normalised projects: every title, description, link and technology
  token survives the quoting, whatever characters it contains.\<close>

theorem projects_json_roundtrip:
  "\<exists>lit. sublist (''  const projects = '' @ lit @ '';'') (generateProjectsContent fd) \<and>
         json_parse lit = Some (JArr (map project_json (normalize_projects fd)))"
proof -
  have ok: "nums_ok (JArr (map project_json (normalize_projects fd)))"
    by (simp add: project_json_def)
  then show ?thesis using projects_literal json_parse_stringify [OF ok] by blast
qed

text \<open>C29: the \<open>skills\<close> array written into \<open>Skills.jsx\<close> reads back as exactly the
  skill meter's entries, provided the engine prints each level as a JSON number
  (non-empty, of the characters of a numeral).\<close>

theorem skills_json_roundtrip:
  assumes "\<forall>q. number_str env q \<noteq> [] \<and> (\<forall>c\<in>set (number_str env q). is_num_char c)"
  shows "\<exists>lit. sublist (''  const skills = '' @ lit @ '';'') (generateSkillsContent env fd) \<and>
         json_parse lit = Some (JArr (map (skill_json env) (skill_entries env fd)))"
proof -
  have ok: "nums_ok (JArr (map (skill_json env) (skill_entries env fd)))"
    using assms by (simp add: skill_json_def)
  then show ?thesis using skills_literal json_parse_stringify [OF ok] by blast
qed

theorem skills_json_roundtrip_witness:
  "(\<forall>q. number_str \<lparr>random_bits = (\<lambda>_. 0), number_str = (\<lambda>_. ''75'')\<rparr> q \<noteq> [] \<and>
        (\<forall>c\<in>set (number_str \<lparr>random_bits = (\<lambda>_. 0), number_str = (\<lambda>_. ''75'')\<rparr> q). is_num_char c)) \<and>
   (\<exists>lit. json_parse lit = Some (JArr (map (skill_json \<lparr>random_bits = (\<lambda>_. 0), number_str = (\<lambda>_. ''75'')\<rparr>)
      (skill_entries \<lparr>random_bits = (\<lambda>_. 0), number_str = (\<lambda>_. ''75'')\<rparr> initial_form_data))))"
proof -
  have h: "\<forall>q. number_str \<lparr>random_bits = (\<lambda>_. 0), number_str = (\<lambda>_. ''75'')\<rparr> q \<noteq> [] \<and>
        (\<forall>c\<in>set (number_str \<lparr>random_bits = (\<lambda>_. 0), number_str = (\<lambda>_. ''75'')\<rparr> q). is_num_char c)"
    by (simp add: is_num_char_def)
  show ?thesis using skills_json_roundtrip [OF h, of initial_form_data] h by blast
qed

end
