(* ===== verification/Archive.thy ===== *)
theory Archive
  imports Prelude "HOL-Library.State_Monad"
begin

text \<open>
  The archive builder: the part of JSZip 3 that \<open>generatePortfolio\<close> drives
  (\<open>new JSZip()\<close>, \<open>folder(name)\<close>, \<open>file(name, data)\<close>). JSZip is a library, not
  code of this repository; it is modelled from the spec (\<open>spec.md\<close> 4.3 and 6) and
  JSZip's documented behaviour. All folder objects share one table of entries
  (\<open>this.files\<close>), a JavaScript object whose keys keep their insertion order and
  where writing an existing key keeps its place: the state is an association list
  \<open>zip_files\<close> threaded through the calls by the state monad, and a folder object is
  its path prefix (\<open>root\<close>). \<open>file\<close> creates the missing parent folders of its
  path first (JSZip's default \<open>createFolders: true\<close>), which \<open>zip_add\<close> does by
  recursion on the shorter parent path.
\<close>

datatype zip_entry = ZDir | ZFile string

type_synonym zip_files = "(string \<times> zip_entry) list"

text \<open>Assignment to a key of a JavaScript object.\<close>

fun upsert :: "'k \<Rightarrow> 'v \<Rightarrow> ('k \<times> 'v) list \<Rightarrow> ('k \<times> 'v) list" where
  "upsert k v [] = [(k, v)]"
| "upsert k v ((k', v') # kvs) = (if k = k' then (k, v) # kvs else (k', v') # upsert k v kvs)"

definition slash :: char where
  "slash = CHR ''/''"

definition ends_slash :: "string \<Rightarrow> bool" where
  "ends_slash s \<longleftrightarrow> s \<noteq> [] \<and> last s = slash"

definition force_slash :: "string \<Rightarrow> string" where
  "force_slash s = (if ends_slash s then s else s @ [slash])"

text \<open>JSZip's \<open>parentFolder\<close>: drop one trailing slash, then the part before the last
  slash if that slash is not the first character, else the empty string.\<close>

definition parent_folder :: "string \<Rightarrow> string" where
  "parent_folder path =
     (let q = (if ends_slash path then butlast path else path);
          r = rev (dropWhile (\<lambda>c. c \<noteq> slash) (rev q))
      in if 1 < length r then butlast r else [])"

lemma parent_folder_shorter:
  assumes "parent_folder path \<noteq> []"
  shows "length (force_slash (parent_folder path)) < length path"
proof -
  define q where "q = (if ends_slash path then butlast path else path)"
  define r where "r = rev (dropWhile (\<lambda>c. c \<noteq> slash) (rev q))"
  have pf: "parent_folder path = (if 1 < length r then butlast r else [])"
    by (simp add: parent_folder_def q_def r_def Let_def)
  with assms have r2: "1 < length r" by (auto split: if_splits)
  have pre: "prefix r q" unfolding r_def by (rule prefix_rev_dropWhile_rev)
  have "r \<noteq> []" using r2 by auto
  then have "dropWhile (\<lambda>c. c \<noteq> slash) (rev q) \<noteq> []"
    unfolding r_def by (simp only: rev_is_Nil_conv simp_thms)
  then have "hd (dropWhile (\<lambda>c. c \<noteq> slash) (rev q)) = slash"
    by (metis (mono_tags, lifting) hd_dropWhile)
  then have last_r: "last r = slash" using r2 by (simp add: r_def last_rev)
  have "length r < length path"
  proof (cases "ends_slash path")
    case True
    then have "length q = length path - 1" "path \<noteq> []" by (auto simp: q_def ends_slash_def)
    moreover have "length r \<le> length q" using pre by (rule prefix_length_le)
    ultimately show ?thesis by (cases path) auto
  next
    case False
    then have q: "q = path" by (simp add: q_def)
    have "r \<noteq> path"
      using False last_r r2 by (auto simp: ends_slash_def)
    with pre q have "strict_prefix r path" by (simp add: strict_prefix_def)
    then show ?thesis by (rule prefix_length_less)
  qed
  moreover have "length (force_slash (butlast r)) \<le> length r"
    using r2 by (auto simp: force_slash_def)
  ultimately show ?thesis using pf r2 by simp
qed

function zip_add :: "string \<Rightarrow> zip_entry \<Rightarrow> zip_files \<Rightarrow> zip_files" where
  "zip_add path e fs =
     (let p = parent_folder path;
          fs' = (if p \<noteq> [] \<and> map_of fs (force_slash p) = None
                 then zip_add (force_slash p) ZDir fs else fs)
      in upsert path e fs')"
  by pat_completeness auto
termination
  by (relation "measure (\<lambda>(path, e, fs). length path)") (auto simp: parent_folder_shorter)

declare zip_add.simps [simp del]

definition zip_folder :: "string \<Rightarrow> string \<Rightarrow> (zip_files, string) state" where
  "zip_folder root arg =
     State (\<lambda>fs. let nm = force_slash (root @ arg)
                 in (nm, if map_of fs nm = None then zip_add nm ZDir fs else fs))"

definition zip_file :: "string \<Rightarrow> string \<Rightarrow> string \<Rightarrow> (zip_files, unit) state" where
  "zip_file root nm data = State (\<lambda>fs. ((), zip_add (root @ nm) (ZFile data) fs))"

subsection \<open>Adding an entry\<close>

lemma zip_add_upsert:
  "parent_folder p = [] \<or> map_of fs (force_slash (parent_folder p)) \<noteq> None \<Longrightarrow>
   zip_add p e fs = upsert p e fs"
  by (subst zip_add.simps) (auto simp: Let_def)

lemma map_of_upsert: "map_of (upsert k v kvs) = (map_of kvs)(k \<mapsto> v)"
  by (induction kvs) (auto simp: fun_eq_iff)

lemma distinct_upsert: "distinct (map fst kvs) \<Longrightarrow> distinct (map fst (upsert k v kvs))"
proof (induction kvs)
  case (Cons kv kvs)
  then show ?case
    by (cases kv) (auto simp: dom_map_of_conv_image_fst[symmetric] map_of_upsert)
qed simp

lemma dropWhile_all_append:
  "\<forall>x\<in>set xs. P x \<Longrightarrow> dropWhile P (xs @ ys) = dropWhile P ys"
  by (induction xs) auto

lemma ends_slash_in_set: "ends_slash s \<Longrightarrow> slash \<in> set s"
  unfolding ends_slash_def by (metis last_in_set)

lemma not_ends_slash_append:
  assumes "n \<noteq> []" "slash \<notin> set n"
  shows "\<not> ends_slash (r @ n)"
proof
  assume "ends_slash (r @ n)"
  then have "last n = slash" using assms(1) by (simp add: ends_slash_def)
  then have "slash \<in> set n" using last_in_set [OF assms(1)] by simp
  with assms(2) show False by simp
qed

lemma parent_folder_append:
  assumes r: "ends_slash r" "1 < length r" and n: "n \<noteq> []" "slash \<notin> set n"
  shows "parent_folder (r @ n) = butlast r"
proof -
  have ne: "\<not> ends_slash (r @ n)"
    using n by (rule not_ends_slash_append)
  obtain r' where r': "r = r' @ [slash]"
    using r by (cases r rule: rev_cases) (auto simp: ends_slash_def)
  have all: "\<forall>x\<in>set (rev n). x \<noteq> slash" using n by auto
  have "dropWhile (\<lambda>c. c \<noteq> slash) (rev (r @ n)) = slash # rev r'"
    by (simp add: r' dropWhile_all_append [OF all])
  then show ?thesis
    using ne r by (simp add: parent_folder_def r' Let_def)
qed

lemma parent_folder_top:
  assumes "slash \<notin> set n"
  shows "parent_folder n = []"
proof -
  have "\<not> ends_slash n"
    using assms ends_slash_in_set by blast
  moreover have "dropWhile (\<lambda>c. c \<noteq> slash) (rev n) = []"
    using assms by (auto simp: dropWhile_eq_Nil_conv)
  ultimately show ?thesis by (simp add: parent_folder_def del: dropWhile_eq_Nil_conv)
qed

lemma force_slash_snoc: "force_slash (r @ [slash]) = r @ [slash]"
  by (simp add: force_slash_def ends_slash_def)

lemma force_slash_no_slash:
  "n \<noteq> [] \<Longrightarrow> slash \<notin> set n \<Longrightarrow> force_slash (r @ n) = r @ n @ [slash]"
  using not_ends_slash_append by (auto simp: force_slash_def)

lemma parent_folder_snoc_slash:
  assumes "\<not> ends_slash p"
  shows "parent_folder (p @ [slash]) = parent_folder p"
proof -
  have "ends_slash (p @ [slash])" by (simp add: ends_slash_def)
  with assms show ?thesis by (simp only: parent_folder_def if_True if_False butlast_snoc)
qed

lemma butlast_force: "ends_slash r \<Longrightarrow> force_slash (butlast r) = r \<or> ends_slash (butlast r)"
  by (cases r rule: rev_cases) (auto simp: force_slash_def ends_slash_def)

text \<open>\<open>file(name, data)\<close> on a folder object whose folder exists, and on the root.\<close>

lemma run_state_zip_file_in:
  assumes "ends_slash root" "1 < length root" "\<not> ends_slash (butlast root)"
    "nm \<noteq> []" "slash \<notin> set nm" "map_of fs root \<noteq> None"
  shows "run_state (zip_file root nm d) fs = ((), upsert (root @ nm) (ZFile d) fs)"
proof -
  have "force_slash (parent_folder (root @ nm)) = root"
    using assms butlast_force [of root] by (simp add: parent_folder_append)
  with assms show ?thesis by (simp add: zip_file_def zip_add_upsert)
qed

lemma run_state_zip_file_top:
  assumes "slash \<notin> set nm"
  shows "run_state (zip_file [] nm d) fs = ((), upsert nm (ZFile d) fs)"
proof -
  have "parent_folder nm = []"
    using assms by (rule parent_folder_top)
  then show ?thesis by (simp add: zip_file_def zip_add_upsert)
qed

text \<open>\<open>folder(name)\<close> on the root and on a folder object whose folder exists.\<close>

lemma run_state_zip_folder:
  assumes "arg \<noteq> []" "slash \<notin> set arg"
    "root = [] \<or> ends_slash root \<and> 1 < length root \<and> \<not> ends_slash (butlast root) \<and> map_of fs root \<noteq> None"
  shows "run_state (zip_folder root arg) fs =
           (root @ arg @ [slash],
            if map_of fs (root @ arg @ [slash]) = None then upsert (root @ arg @ [slash]) ZDir fs else fs)"
proof -
  let ?nm = "root @ arg @ [slash]"
  have fs: "force_slash (root @ arg) = ?nm"
    using assms by (simp add: force_slash_no_slash)
  have "parent_folder ?nm = [] \<or> map_of fs (force_slash (parent_folder ?nm)) \<noteq> None"
  proof (cases "root = []")
    case True
    have "\<not> ends_slash arg"
      using not_ends_slash_append [of arg "[]"] assms by simp
    with True have "parent_folder ?nm = parent_folder arg"
      by (simp add: parent_folder_snoc_slash)
    also have "\<dots> = []" using assms by (intro parent_folder_top)
    finally show ?thesis by simp
  next
    case False
    then have r: "ends_slash root" "1 < length root" "\<not> ends_slash (butlast root)"
      "map_of fs root \<noteq> None" using assms by auto
    have "\<not> ends_slash (root @ arg)" using assms by (simp add: not_ends_slash_append)
    from parent_folder_snoc_slash [OF this]
    have "parent_folder ?nm = parent_folder (root @ arg)" by simp
    also have "\<dots> = butlast root" using r assms by (simp add: parent_folder_append)
    finally show ?thesis using r butlast_force [of root] by simp
  qed
  then show ?thesis by (simp add: zip_folder_def fs zip_add_upsert Let_def)
qed

lemmas zip_path_eval = parent_folder_def force_slash_def ends_slash_def slash_def

end
