(* ===== verification/Pipeline.thy ===== *)
theory Pipeline
  imports Synthesis Archive
begin

text \<open>
  The pipeline \<open>generatePortfolio(formData)\<close> (\<open>src/src/utils/generatePortfolio.js\<close>,
  lines 4--44): the JSZip calls in the order of the source, threaded through the
  state monad, then the serialisation and the download. \<open>build_archive\<close> is lines
  5--39; \<open>archive_filename\<close> the name given to \<open>saveAs\<close> on line 43.
\<close>

definition build_archive :: "js_env \<Rightarrow> form_data \<Rightarrow> (zip_files, unit) state" where
  "build_archive env fd = do {
     src \<leftarrow> zip_folder [] ''src'';
     components \<leftarrow> zip_folder src ''components'';
     utils \<leftarrow> zip_folder src ''utils'';
     zip_file src ''App.jsx'' (generateAppContent fd);
     zip_file components ''Hero.jsx'' (generateHeroContent fd);
     zip_file components ''About.jsx'' (generateAboutContent fd);
     zip_file components ''Projects.jsx'' (generateProjectsContent fd);
     zip_file components ''Skills.jsx'' (generateSkillsContent env fd);
     zip_file components ''Contact.jsx'' (generateContactContent fd);
     zip_file components ''Navbar.jsx'' getNavbarComponent;
     zip_file components ''CustomCursor.jsx'' getCustomCursorComponent;
     zip_file components ''ScrollProgress.jsx'' getScrollProgressComponent;
     zip_file components ''ThreeBackground.jsx'' getThreeBackgroundComponent;
     zip_file [] ''package.json'' (generatePackageJson (name fd));
     zip_file [] ''README.md'' (generateReadme fd);
     zip_file src ''index.css'' getCSSContent;
     zip_file src ''main.jsx'' getMainContent
   }"

definition portfolio_files :: "js_env \<Rightarrow> form_data \<Rightarrow> zip_files" where
  "portfolio_files env fd = snd (run_state (build_archive env fd) [])"

definition archive_filename :: "form_data \<Rightarrow> string" where
  "archive_filename fd = slugify (name fd) @ ''-portfolio.zip''"

lemma portfolio_files_eq:
  "portfolio_files env fd =
     [(''src/'', ZDir), (''src/components/'', ZDir), (''src/utils/'', ZDir),
      (''src/App.jsx'', ZFile (generateAppContent fd)),
      (''src/components/Hero.jsx'', ZFile (generateHeroContent fd)),
      (''src/components/About.jsx'', ZFile (generateAboutContent fd)),
      (''src/components/Projects.jsx'', ZFile (generateProjectsContent fd)),
      (''src/components/Skills.jsx'', ZFile (generateSkillsContent env fd)),
      (''src/components/Contact.jsx'', ZFile (generateContactContent fd)),
      (''src/components/Navbar.jsx'', ZFile getNavbarComponent),
      (''src/components/CustomCursor.jsx'', ZFile getCustomCursorComponent),
      (''src/components/ScrollProgress.jsx'', ZFile getScrollProgressComponent),
      (''src/components/ThreeBackground.jsx'', ZFile getThreeBackgroundComponent),
      (''package.json'', ZFile (generatePackageJson (name fd))),
      (''README.md'', ZFile (generateReadme fd)),
      (''src/index.css'', ZFile getCSSContent),
      (''src/main.jsx'', ZFile getMainContent)]"
  by (simp add: portfolio_files_def build_archive_def run_state_zip_folder
      run_state_zip_file_in run_state_zip_file_top ends_slash_def slash_def)

text \<open>C1: the archive holds exactly these seventeen entries, in this order and with
  distinct paths: the three folders, the five generated sections, the four fixed
  components, \<open>package.json\<close> and \<open>README.md\<close> at the top level, then \<open>index.css\<close>
  and \<open>main.jsx\<close>. No \<open>src/utils/\<close> file is written.\<close>

theorem portfolio_archive_layout:
  "portfolio_files env fd =
     [(''src/'', ZDir), (''src/components/'', ZDir), (''src/utils/'', ZDir),
      (''src/App.jsx'', ZFile (generateAppContent fd)),
      (''src/components/Hero.jsx'', ZFile (generateHeroContent fd)),
      (''src/components/About.jsx'', ZFile (generateAboutContent fd)),
      (''src/components/Projects.jsx'', ZFile (generateProjectsContent fd)),
      (''src/components/Skills.jsx'', ZFile (generateSkillsContent env fd)),
      (''src/components/Contact.jsx'', ZFile (generateContactContent fd)),
      (''src/components/Navbar.jsx'', ZFile getNavbarComponent),
      (''src/components/CustomCursor.jsx'', ZFile getCustomCursorComponent),
      (''src/components/ScrollProgress.jsx'', ZFile getScrollProgressComponent),
      (''src/components/ThreeBackground.jsx'', ZFile getThreeBackgroundComponent),
      (''package.json'', ZFile (generatePackageJson (name fd))),
      (''README.md'', ZFile (generateReadme fd)),
      (''src/index.css'', ZFile getCSSContent),
      (''src/main.jsx'', ZFile getMainContent)] \<and>
   distinct (map fst (portfolio_files env fd))"
  by (simp add: portfolio_files_eq)

end
