(* ===== verification/Clone_Modal.thy ===== *)
theory Clone_Modal
  imports Pipeline
begin

text \<open>
  The clone dialog and the page that hosts it: \<open>src/src/components/CloneModal.jsx\<close> and
  \<open>src/src/App.jsx\<close>. The App shows a loading screen for two seconds, then the page with
  the navigation bar, whose clone button opens the dialog (\<open>showCloneModal\<close>). The
  dialog stays mounted while hidden, so its state (\<open>isGenerating\<close>, \<open>formData\<close>)
  survives closing and reopening. Its form edits \<open>formData\<close>; submitting calls
  \<open>generatePortfolio\<close>, whose content generation and archive building run at once and
  whose \<open>generateAsync\<close>/\<open>saveAs\<close> part resolves or rejects later; after a success a
  three-second timer clears \<open>isGenerating\<close> and closes the dialog.

  The state is the record \<open>app_state\<close>; the user's and the environment's actions are
  the events \<open>app_event\<close>; \<open>app_step\<close> is the handler of each event, \<open>None\<close> when the
  event cannot happen in that state (its control is not rendered or is disabled, or the
  timer or promise it stands for does not exist). Promises and timers are explicit:
  \<open>in_flight\<close> holds the archives whose \<open>generateAsync\<close> has not settled, in any number
  and settling in any order, and \<open>close_timers\<close> counts the pending timers. The browser's
  form validation is modelled by its \<open>required\<close> attributes (non-empty values); the
  format checks of the \<open>email\<close> and \<open>url\<close> inputs are not, so the model admits more
  submissions than the browser, which only strengthens the safety properties below.
  The submit button's attributes are the view \<open>submit_button\<close>; its \<open>disabled\<close>
  attribute is what keeps \<open>handleSubmit\<close> from a second submission.
  The events the environment produces on its own (\<open>env_event\<close>) use up the measure
  \<open>pending\<close>, so they cannot go on forever (C30). The theory \<open>Page\<close> composes this
  model with the other components of the page.
\<close>

subsection \<open>The form\<close>

datatype form_field =
  FName | FTitle | FEmail | FPhone | FLocation | FAbout | FGithub | FLinkedin | FTwitter | FSkills

text \<open>The \<open>onChange\<close> handler of each text input: \<open>setFormData({ ...formData, k: value })\<close>.\<close>

fun set_field :: "form_field \<Rightarrow> string \<Rightarrow> form_data \<Rightarrow> form_data" where
  "set_field FName v fd = fd\<lparr>name := v\<rparr>"
| "set_field FTitle v fd = fd\<lparr>title := v\<rparr>"
| "set_field FEmail v fd = fd\<lparr>email := v\<rparr>"
| "set_field FPhone v fd = fd\<lparr>phone := v\<rparr>"
| "set_field FLocation v fd = fd\<lparr>location := v\<rparr>"
| "set_field FAbout v fd = fd\<lparr>about := v\<rparr>"
| "set_field FGithub v fd = fd\<lparr>github := v\<rparr>"
| "set_field FLinkedin v fd = fd\<lparr>linkedin := v\<rparr>"
| "set_field FTwitter v fd = fd\<lparr>twitter := v\<rparr>"
| "set_field FSkills v fd = fd\<lparr>skills := v\<rparr>"

datatype project_field = PTitle | PDescription | PTech | PLink | PGithub

text \<open>\<open>updatedProjects[index][field] = value\<close> on one project object.\<close>

fun set_project_field :: "project_field \<Rightarrow> string \<Rightarrow> project \<Rightarrow> project" where
  "set_project_field PTitle v p = p\<lparr>ptitle := v\<rparr>"
| "set_project_field PDescription v p = p\<lparr>pdescription := v\<rparr>"
| "set_project_field PTech v p = p\<lparr>tech := v\<rparr>"
| "set_project_field PLink v p = p\<lparr>link := v\<rparr>"
| "set_project_field PGithub v p = p\<lparr>pgithub := v\<rparr>"

definition addProject :: "form_data \<Rightarrow> form_data" where
  "addProject fd = fd\<lparr>projects := projects fd @ [empty_project]\<rparr>"

text \<open>\<open>updateProject(index, field, value)\<close>: out of range, \<open>updatedProjects[index]\<close> is
  \<open>undefined\<close> and the assignment throws a \<open>TypeError\<close> (\<open>None\<close>), leaving the state.\<close>

definition updateProject :: "nat \<Rightarrow> project_field \<Rightarrow> string \<Rightarrow> form_data \<Rightarrow> form_data option" where
  "updateProject i f v fd =
     (if i < length (projects fd)
      then Some (fd\<lparr>projects := (projects fd)[i := set_project_field f v (projects fd ! i)]\<rparr>)
      else None)"

text \<open>The inputs marked \<open>required\<close>: name, title, email, about and skills.\<close>

definition required_filled :: "form_data \<Rightarrow> bool" where
  "required_filled fd \<longleftrightarrow>
     name fd \<noteq> [] \<and> title fd \<noteq> [] \<and> email fd \<noteq> [] \<and> about fd \<noteq> [] \<and> skills fd \<noteq> []"

subsection \<open>The page and the dialog\<close>

type_synonym download = "string \<times> zip_files"

text \<open>What \<open>generatePortfolio(formData)\<close> hands to \<open>saveAs\<close>: the file name and the archive.\<close>

definition generate :: "js_env \<Rightarrow> form_data \<Rightarrow> download" where
  "generate env fd = (archive_filename fd, portfolio_files env fd)"

record app_state =
  is_loading :: bool
  show_clone_modal :: bool
  is_generating :: bool
  form :: form_data
  in_flight :: "download list"
  close_timers :: nat
  downloads :: "download list"

definition init_app :: app_state where
  "init_app =
     \<lparr>is_loading = True, show_clone_modal = False, is_generating = False,
      form = initial_form_data, in_flight = [], close_timers = 0, downloads = []\<rparr>"

datatype app_event =
    LoadTimer
  | OpenModal
  | CloseModal
  | Edit form_field string
  | SetResume "string option"
  | AddProject
  | UpdateProject nat project_field string
  | Submit js_env
  | GenResolve nat
  | GenReject nat
  | CloseTimer

text \<open>The dialog's controls are rendered when the page has loaded and \<open>isOpen\<close> holds.\<close>

definition modal_visible :: "app_state \<Rightarrow> bool" where
  "modal_visible s \<longleftrightarrow> \<not> is_loading s \<and> show_clone_modal s"

definition remove_nth :: "nat \<Rightarrow> 'a list \<Rightarrow> 'a list" where
  "remove_nth i xs = take i xs @ drop (Suc i) xs"

text \<open>The submit button (lines 258--276): \<open>disabled={isGenerating}\<close>, its label, and
  the hover and tap scales of its animation (\<open>1.02\<close> and \<open>0.98\<close> as binary64 values).\<close>

record submit_view =
  sb_disabled :: bool
  sb_label :: string
  sb_hover_scale :: rat
  sb_tap_scale :: rat

definition submit_button :: "app_state \<Rightarrow> submit_view" where
  "submit_button s =
     \<lparr>sb_disabled = is_generating s,
      sb_label = (if is_generating s then ''Generating Your Portfolio...'' else ''Generate My Portfolio''),
      sb_hover_scale = (if is_generating s then 1 else fp_round (51 / 50)),
      sb_tap_scale = (if is_generating s then 1 else fp_round (49 / 50))\<rparr>"

text \<open>\<open>handleSubmit\<close> up to its \<open>await\<close>: \<open>setIsGenerating(true)\<close>, then the synchronous
  part of \<open>generatePortfolio\<close>, which builds the archive from the form as it is now.
  A disabled submit button submits nothing.\<close>

definition handleSubmit :: "js_env \<Rightarrow> app_state \<Rightarrow> app_state option" where
  "handleSubmit env s =
     (if modal_visible s \<and> \<not> sb_disabled (submit_button s) \<and> required_filled (form s)
      then Some (s\<lparr>is_generating := True, in_flight := in_flight s @ [generate env (form s)]\<rparr>)
      else None)"

text \<open>The \<open>await\<close> resolves: \<open>saveAs\<close> has delivered the archive; \<open>setTimeout\<close> is armed.\<close>

definition gen_resolve :: "nat \<Rightarrow> app_state \<Rightarrow> app_state option" where
  "gen_resolve i s =
     (if i < length (in_flight s)
      then Some (s\<lparr>in_flight := remove_nth i (in_flight s),
                   downloads := downloads s @ [in_flight s ! i],
                   close_timers := Suc (close_timers s)\<rparr>)
      else None)"

text \<open>The \<open>await\<close> rejects (serialisation or delivery failed): the \<open>catch\<close> branch.\<close>

definition gen_reject :: "nat \<Rightarrow> app_state \<Rightarrow> app_state option" where
  "gen_reject i s =
     (if i < length (in_flight s)
      then Some (s\<lparr>in_flight := remove_nth i (in_flight s), is_generating := False\<rparr>)
      else None)"

text \<open>The timer's callback: \<open>setIsGenerating(false); onClose()\<close>.\<close>

definition close_timer_fires :: "app_state \<Rightarrow> app_state option" where
  "close_timer_fires s =
     (if 0 < close_timers s
      then Some (s\<lparr>close_timers := close_timers s - 1, is_generating := False,
                   show_clone_modal := False\<rparr>)
      else None)"

text \<open>The resume input (lines 250--255): \<open>e.target.files[0]\<close>, the chosen file, or
  \<open>undefined\<close> (\<open>None\<close>) when the choice is cancelled.\<close>

definition set_resume :: "string option \<Rightarrow> form_data \<Rightarrow> form_data" where
  "set_resume r fd = fd\<lparr>resume := r\<rparr>"

definition edit_form :: "(form_data \<Rightarrow> form_data) \<Rightarrow> app_state \<Rightarrow> app_state option" where
  "edit_form f s = (if modal_visible s then Some (s\<lparr>form := f (form s)\<rparr>) else None)"

fun app_step :: "app_state \<Rightarrow> app_event \<Rightarrow> app_state option" where
  "app_step s LoadTimer = (if is_loading s then Some (s\<lparr>is_loading := False\<rparr>) else None)"
| "app_step s OpenModal = (if is_loading s then None else Some (s\<lparr>show_clone_modal := True\<rparr>))"
| "app_step s CloseModal = (if modal_visible s then Some (s\<lparr>show_clone_modal := False\<rparr>) else None)"
| "app_step s (Edit f v) = edit_form (set_field f v) s"
| "app_step s (SetResume r) = edit_form (set_resume r) s"
| "app_step s AddProject = edit_form addProject s"
| "app_step s (UpdateProject i f v) =
     (if modal_visible s then map_option (\<lambda>fd. s\<lparr>form := fd\<rparr>) (updateProject i f v (form s))
      else None)"
| "app_step s (Submit env) = handleSubmit env s"
| "app_step s (GenResolve i) = gen_resolve i s"
| "app_step s (GenReject i) = gen_reject i s"
| "app_step s CloseTimer = close_timer_fires s"

fun app_run :: "app_state \<Rightarrow> app_event list \<Rightarrow> app_state option" where
  "app_run s [] = Some s"
| "app_run s (e # es) = (case app_step s e of None \<Rightarrow> None | Some t \<Rightarrow> app_run t es)"

inductive reachable :: "app_state \<Rightarrow> bool" where
  start: "reachable init_app"
| step: "reachable s \<Longrightarrow> app_step s e = Some t \<Longrightarrow> reachable t"

text \<open>The invariant of the page: while loading nothing else has happened; at most one
  generation is in flight or waiting for its timer, and \<open>isGenerating\<close> holds exactly
  then; the form always has a project entry.\<close>

definition app_inv :: "app_state \<Rightarrow> bool" where
  "app_inv s \<longleftrightarrow>
     (is_loading s \<longrightarrow> \<not> show_clone_modal s \<and> in_flight s = [] \<and> close_timers s = 0) \<and>
     length (in_flight s) + close_timers s \<le> 1 \<and>
     (is_generating s \<longleftrightarrow> in_flight s \<noteq> [] \<or> 0 < close_timers s) \<and>
     projects (form s) \<noteq> []"

text \<open>The events the page's environment produces on its own (the loading timer, the
  serialisation settling, the closing timer), and the work they have left: each armed
  timer once, each generation in flight twice (it settles, then its timer fires).\<close>

fun env_event :: "app_event \<Rightarrow> bool" where
  "env_event LoadTimer = True"
| "env_event (GenResolve i) = True"
| "env_event (GenReject i) = True"
| "env_event CloseTimer = True"
| "env_event e = False"

definition pending :: "app_state \<Rightarrow> nat" where
  "pending s = (if is_loading s then 1 else 0) + 2 * length (in_flight s) + close_timers s"

subsection \<open>Project objects in place\<close>

text \<open>\<open>updateProject\<close> copies the array (\<open>[...formData.projects]\<close>) but assigns into the
  project object itself (\<open>updatedProjects[index][field] = value\<close>), an object the previous
  state shares; \<open>addProject\<close> appends a fresh object literal. With objects in a store
  (a list indexed by address, allocation at the end) and the form holding their
  addresses, these are \<open>addProject_h\<close> and \<open>updateProject_h\<close>; \<open>addProject\<close> and
  \<open>updateProject\<close> above are their view through \<open>deref\<close>, which is exact as long as no two
  entries share an object (\<open>store_ok\<close>).\<close>

type_synonym addr = nat
type_synonym project_store = "project list \<times> addr list"

definition deref :: "project_store \<Rightarrow> project list" where
  "deref st = map (\<lambda>a. fst st ! a) (snd st)"

definition addProject_h :: "project_store \<Rightarrow> project_store" where
  "addProject_h st = (fst st @ [empty_project], snd st @ [length (fst st)])"

definition updateProject_h :: "nat \<Rightarrow> project_field \<Rightarrow> string \<Rightarrow> project_store \<Rightarrow> project_store option" where
  "updateProject_h i f v st =
     (if i < length (snd st)
      then Some ((fst st)[snd st ! i := set_project_field f v (fst st ! (snd st ! i))], snd st)
      else None)"

definition store_ok :: "project_store \<Rightarrow> bool" where
  "store_ok st \<longleftrightarrow> distinct (snd st) \<and> (\<forall>a\<in>set (snd st). a < length (fst st))"

subsection \<open>Where a download comes from\<close>

definition from_form :: "download \<Rightarrow> bool" where
  "from_form d \<longleftrightarrow> (\<exists>env fd. required_filled fd \<and> d = generate env fd)"

definition provenance_ok :: "app_state \<Rightarrow> bool" where
  "provenance_ok s \<longleftrightarrow> (\<forall>d\<in>set (in_flight s). from_form d) \<and> (\<forall>d\<in>set (downloads s). from_form d)"

subsection \<open>A sample session\<close>

text \<open>A user who fills in the five required fields and submits.\<close>

definition demo_env :: js_env where
  "demo_env = \<lparr>random_bits = (\<lambda>_. 0), number_str = (\<lambda>_. ''75'')\<rparr>"

definition demo_submission :: "app_event list" where
  "demo_submission =
     [LoadTimer, OpenModal, Edit FName ''Ada'', Edit FTitle ''Dev'', Edit FEmail ''a@b.org'',
      Edit FAbout ''Hi'', Edit FSkills ''Isabelle'', Submit demo_env]"

subsection \<open>The invariant\<close>

lemmas app_step_defs = handleSubmit_def submit_button_def gen_resolve_def gen_reject_def close_timer_fires_def
  edit_form_def modal_visible_def

lemma length_remove_nth [simp]: "i < length xs \<Longrightarrow> length (remove_nth i xs) = length xs - 1"
  by (simp add: remove_nth_def)

lemma remove_nth_eq_Nil [simp]: "i < length xs \<Longrightarrow> remove_nth i xs = [] \<longleftrightarrow> length xs = 1"
  by (cases xs) (auto simp: remove_nth_def)

lemma updateProject_projects:
  "updateProject i f v fd = Some fd' \<Longrightarrow> length (projects fd') = length (projects fd)"
  by (auto simp: updateProject_def split: if_splits)

lemma inv_submit: "app_inv s \<Longrightarrow> handleSubmit env s = Some t \<Longrightarrow> app_inv t"
  by (auto simp: app_inv_def handleSubmit_def submit_button_def modal_visible_def split: if_splits)

lemma inv_resolve: "app_inv s \<Longrightarrow> gen_resolve i s = Some t \<Longrightarrow> app_inv t"
  by (auto simp: app_inv_def gen_resolve_def split: if_splits)

lemma inv_reject: "app_inv s \<Longrightarrow> gen_reject i s = Some t \<Longrightarrow> app_inv t"
  by (auto simp: app_inv_def gen_reject_def split: if_splits)

lemma app_inv_timer: "app_inv s \<Longrightarrow> 0 < close_timers s \<Longrightarrow> in_flight s = []"
  unfolding app_inv_def by (cases "in_flight s") auto

lemma inv_timer: "app_inv s \<Longrightarrow> close_timer_fires s = Some t \<Longrightarrow> app_inv t"
  by (frule app_inv_timer) (auto simp: app_inv_def close_timer_fires_def split: if_splits)

lemma inv_edit: "app_inv s \<Longrightarrow> projects (f (form s)) = projects (form s) \<or> f = addProject \<Longrightarrow>
    edit_form f s = Some t \<Longrightarrow> app_inv t"
  by (auto simp: app_inv_def edit_form_def addProject_def split: if_splits)

lemma inv_update: "app_inv s \<Longrightarrow> app_step s (UpdateProject i f v) = Some t \<Longrightarrow> app_inv t"
  by (auto simp: app_inv_def modal_visible_def split: if_splits dest!: updateProject_projects)

lemma projects_set_field [simp]: "projects (set_field f v fd) = projects fd"
  by (cases f) simp_all

lemma app_step_inv:
  assumes inv: "app_inv s" and st: "app_step s e = Some t"
  shows "app_inv t"
proof (cases e)
  case LoadTimer
  with assms show ?thesis by (auto simp: app_inv_def split: if_splits)
next
  case OpenModal
  with assms show ?thesis by (auto simp: app_inv_def split: if_splits)
next
  case CloseModal
  with assms show ?thesis by (auto simp: app_inv_def split: if_splits)
next
  case (Edit f v)
  with st have ed: "edit_form (set_field f v) s = Some t" by simp
  show ?thesis using inv_edit [OF inv _ ed] by simp
next
  case (SetResume r)
  with st have ed: "edit_form (set_resume r) s = Some t" by simp
  show ?thesis using inv_edit [OF inv _ ed] by (simp add: set_resume_def)
next
  case AddProject
  with st have ed: "edit_form (addProject) s = Some t" by simp
  show ?thesis using inv_edit [OF inv _ ed] by simp
next
  case (UpdateProject i f v)
  with assms show ?thesis using inv_update by simp
next
  case (Submit env)
  with assms show ?thesis using inv_submit by simp
next
  case (GenResolve i)
  with assms show ?thesis using inv_resolve by simp
next
  case (GenReject i)
  with assms show ?thesis using inv_reject by simp
next
  case CloseTimer
  with assms show ?thesis using inv_timer by simp
qed

lemma app_inv_init: "app_inv init_app"
  by (simp add: app_inv_def init_app_def initial_form_data_def)

lemma reachable_app_inv: "reachable s \<Longrightarrow> app_inv s"
  by (induction rule: reachable.induct) (auto intro: app_inv_init app_step_inv)

subsection \<open>Handlers, case by case\<close>

lemma handleSubmit_SomeD:
  "handleSubmit env s = Some t \<Longrightarrow>
     modal_visible s \<and> \<not> is_generating s \<and> required_filled (form s) \<and>
     t = s\<lparr>is_generating := True, in_flight := in_flight s @ [generate env (form s)]\<rparr>"
  by (simp add: handleSubmit_def submit_button_def split: if_splits)

lemma gen_resolve_SomeD:
  "gen_resolve i s = Some t \<Longrightarrow> i < length (in_flight s) \<and>
     t = s\<lparr>in_flight := remove_nth i (in_flight s), downloads := downloads s @ [in_flight s ! i],
           close_timers := Suc (close_timers s)\<rparr>"
  by (simp add: gen_resolve_def split: if_splits)

lemma gen_reject_SomeD:
  "gen_reject i s = Some t \<Longrightarrow> i < length (in_flight s) \<and>
     t = s\<lparr>in_flight := remove_nth i (in_flight s), is_generating := False\<rparr>"
  by (simp add: gen_reject_def split: if_splits)

lemma close_timer_fires_SomeD:
  "close_timer_fires s = Some t \<Longrightarrow> 0 < close_timers s \<and>
     t = s\<lparr>close_timers := close_timers s - 1, is_generating := False, show_clone_modal := False\<rparr>"
  by (simp add: close_timer_fires_def split: if_splits)

lemma edit_form_SomeD:
  "edit_form f s = Some t \<Longrightarrow> modal_visible s \<and> t = s\<lparr>form := f (form s)\<rparr>"
  by (simp add: edit_form_def split: if_splits)

lemma update_step_SomeD:
  "app_step s (UpdateProject i f v) = Some t \<Longrightarrow>
     modal_visible s \<and> (\<exists>fd. updateProject i f v (form s) = Some fd \<and> t = s\<lparr>form := fd\<rparr>)"
  by (auto split: if_splits)

lemmas app_eval = init_app_def required_filled_def initial_form_data_def app_step_defs generate_def

subsection \<open>Provenance of the downloads\<close>

lemma ball_remove_nth: "\<forall>x\<in>set xs. P x \<Longrightarrow> \<forall>x\<in>set (remove_nth i xs). P x"
  by (auto simp: remove_nth_def dest: in_set_takeD in_set_dropD)

lemma provenance_step:
  assumes ok: "provenance_ok s" and st: "app_step s e = Some t"
  shows "provenance_ok t"
proof (cases e)
  case (Submit env)
  with st have "required_filled (form s)"
      "t = s\<lparr>is_generating := True, in_flight := in_flight s @ [generate env (form s)]\<rparr>"
    using handleSubmit_SomeD by simp_all
  moreover have "from_form (generate env (form s))" if "required_filled (form s)"
    using that unfolding from_form_def by blast
  ultimately show ?thesis using ok by (simp add: provenance_ok_def)
next
  case (GenResolve i)
  with st have "i < length (in_flight s)" "t = s\<lparr>in_flight := remove_nth i (in_flight s),
      downloads := downloads s @ [in_flight s ! i], close_timers := Suc (close_timers s)\<rparr>"
    using gen_resolve_SomeD by simp_all
  moreover have "\<forall>d\<in>set (remove_nth i (in_flight s)). from_form d"
    by (rule ball_remove_nth) (use ok in \<open>simp add: provenance_ok_def\<close>)
  moreover have "from_form (in_flight s ! i)"
    using ok \<open>i < length (in_flight s)\<close> by (simp add: provenance_ok_def)
  ultimately show ?thesis using ok by (simp add: provenance_ok_def)
next
  case (GenReject i)
  with st have "t = s\<lparr>in_flight := remove_nth i (in_flight s), is_generating := False\<rparr>"
    using gen_reject_SomeD by simp
  moreover have "\<forall>d\<in>set (remove_nth i (in_flight s)). from_form d"
    by (rule ball_remove_nth) (use ok in \<open>simp add: provenance_ok_def\<close>)
  ultimately show ?thesis using ok by (simp add: provenance_ok_def)
next
  case (UpdateProject i f v)
  with st obtain fd where "t = s\<lparr>form := fd\<rparr>" using update_step_SomeD by blast
  with ok show ?thesis by (simp add: provenance_ok_def)
next
  case CloseTimer
  with st have "t = s\<lparr>close_timers := close_timers s - 1, is_generating := False, show_clone_modal := False\<rparr>"
    using close_timer_fires_SomeD by simp
  with ok show ?thesis by (simp add: provenance_ok_def)
next
  case (Edit f v)
  with st have "t = s\<lparr>form := set_field f v (form s)\<rparr>" using edit_form_SomeD by simp
  with ok show ?thesis by (simp add: provenance_ok_def)
next
  case (SetResume r)
  with st have "t = s\<lparr>form := (form s)\<lparr>resume := r\<rparr>\<rparr>"
    using edit_form_SomeD [of "set_resume r" s t] by (simp add: set_resume_def)
  with ok show ?thesis by (simp add: provenance_ok_def)
next
  case AddProject
  with st have "t = s\<lparr>form := addProject (form s)\<rparr>" using edit_form_SomeD by simp
  with ok show ?thesis by (simp add: provenance_ok_def)
next
  case LoadTimer
  with st ok show ?thesis by (auto simp: provenance_ok_def split: if_splits) 
next
  case OpenModal
  with st ok show ?thesis by (auto simp: provenance_ok_def split: if_splits)
next
  case CloseModal
  with st ok show ?thesis by (auto simp: provenance_ok_def split: if_splits)
qed

lemma reachable_provenance: "reachable s \<Longrightarrow> provenance_ok s"
proof (induction rule: reachable.induct)
  case start
  then show ?case by (simp add: init_app_def provenance_ok_def)
next
  case (step s e t)
  then show ?case using provenance_step by blast
qed

subsection \<open>Properties of the page\<close>

lemma run_reachable: "reachable s \<Longrightarrow> app_run s es = Some t \<Longrightarrow> reachable t"
proof (induction es arbitrary: s)
  case Nil
  then show ?case by simp
next
  case (Cons e es)
  then obtain s' where "app_step s e = Some s'" "app_run s' es = Some t"
    by (auto split: option.splits)
  with Cons show ?case by (blast intro: reachable.step)
qed

lemma app_run_append:
  "app_run s (es @ fs) = (case app_run s es of None \<Rightarrow> None | Some t \<Rightarrow> app_run t fs)"
  by (induction es arbitrary: s) (auto split: option.splits)

text \<open>C16: in every reachable state of the page at most one archive is being serialised
  and at most one closing timer is pending; the dialog shows "generating" exactly while
  one of them exists (the submit button, \<open>disabled={isGenerating}\<close>, prevents a second
  submission, and shows "Generating Your Portfolio..." meanwhile), and the form always
  has a project entry.\<close>

theorem one_generation_at_a_time:
  assumes "reachable s"
  shows "length (in_flight s) \<le> 1 \<and> close_timers s \<le> 1 \<and>
         (is_generating s \<longleftrightarrow> in_flight s \<noteq> [] \<or> 0 < close_timers s) \<and> projects (form s) \<noteq> [] \<and>
         (sb_disabled (submit_button s) \<longleftrightarrow> in_flight s \<noteq> [] \<or> 0 < close_timers s)"
  using reachable_app_inv [OF assms] by (auto simp: app_inv_def submit_button_def)

lemma demo_submission_run:
  "\<exists>t. app_run init_app demo_submission = Some t \<and> reachable t \<and> modal_visible t \<and>
       in_flight t = [generate demo_env (form t)] \<and> close_timers t = 0 \<and> is_generating t \<and>
       required_filled (form t)"
proof -
  obtain t where r: "app_run init_app demo_submission = Some t" and
    p: "modal_visible t \<and> in_flight t = [generate demo_env (form t)] \<and> close_timers t = 0 \<and>
        is_generating t \<and> required_filled (form t)"
    by (simp add: demo_submission_def app_eval)
  then show ?thesis using run_reachable [OF reachable.start r] by blast
qed

theorem one_generation_at_a_time_witness:
  "reachable (the (app_run init_app demo_submission)) \<and>
   is_generating (the (app_run init_app demo_submission)) \<and>
   length (in_flight (the (app_run init_app demo_submission))) \<le> 1"
proof -
  obtain t where "app_run init_app demo_submission = Some t" "reachable t" "is_generating t"
    using demo_submission_run by blast
  then show ?thesis using one_generation_at_a_time [of t] by simp
qed

text \<open>C15: everything the page hands to \<open>saveAs\<close> is the output of \<open>generatePortfolio\<close>
  on a form whose required fields were non-empty when it was submitted: the archive named
  by the slug, holding the seventeen files of the generated project.\<close>

theorem downloads_are_generated:
  assumes "reachable s" and "(fn, files) \<in> set (downloads s)"
  shows "\<exists>env fd. required_filled fd \<and> fn = archive_filename fd \<and> files = portfolio_files env fd \<and>
           map fst files =
             [''src/'', ''src/components/'', ''src/utils/'', ''src/App.jsx'',
              ''src/components/Hero.jsx'', ''src/components/About.jsx'',
              ''src/components/Projects.jsx'', ''src/components/Skills.jsx'',
              ''src/components/Contact.jsx'', ''src/components/Navbar.jsx'',
              ''src/components/CustomCursor.jsx'', ''src/components/ScrollProgress.jsx'',
              ''src/components/ThreeBackground.jsx'', ''package.json'', ''README.md'',
              ''src/index.css'', ''src/main.jsx'']"
proof -
  have "from_form (fn, files)"
    using reachable_provenance [OF assms(1)] assms(2) by (simp add: provenance_ok_def)
  then obtain env fd where "required_filled fd" "fn = archive_filename fd" "files = portfolio_files env fd"
    by (auto simp: from_form_def generate_def)
  then show ?thesis by (auto simp: portfolio_files_eq)
qed

theorem downloads_are_generated_witness:
  "\<exists>t fn files. app_run init_app (demo_submission @ [GenResolve 0]) = Some t \<and> reachable t \<and>
      (fn, files) \<in> set (downloads t) \<and>
      (\<exists>env fd. required_filled fd \<and> fn = archive_filename fd \<and> files = portfolio_files env fd)"
proof -
  obtain t where t: "app_run init_app demo_submission = Some t" "reachable t"
      "in_flight t = [generate demo_env (form t)]"
    using demo_submission_run by blast
  then obtain u where u: "app_step t (GenResolve 0) = Some u" "downloads u = downloads t @ [generate demo_env (form t)]"
    by (simp add: gen_resolve_def)
  have ru: "reachable u" using reachable.step [OF t(2) u(1)] .
  have m: "generate demo_env (form t) \<in> set (downloads u)" using u(2) by simp
  obtain fn files where p: "generate demo_env (form t) = (fn, files)" by (cases "generate demo_env (form t)")
  from downloads_are_generated [OF ru m [unfolded p]] obtain env fd where
    "required_filled fd \<and> fn = archive_filename fd \<and> files = portfolio_files env fd" by blast
  moreover have "app_run init_app (demo_submission @ [GenResolve 0]) = Some u"
    using t(1) u(1) by (simp add: app_run_append)
  moreover have "(fn, files) \<in> set (downloads u)" using m p by simp
  ultimately show ?thesis using ru by blast
qed

text \<open>C17: "generating" always ends: from any reachable state in which it shows, the
  environment alone (the serialisation resolving, then the timer) clears it and closes
  the dialog, in at most two steps.\<close>

theorem generation_settles:
  assumes "reachable s" and "is_generating s"
  shows "\<exists>es t. set es \<subseteq> {GenResolve 0, CloseTimer} \<and> app_run s es = Some t \<and>
           \<not> is_generating t \<and> \<not> show_clone_modal t"
proof -
  have inv: "app_inv s" using reachable_app_inv [OF assms(1)] .
  show ?thesis
  proof (cases "in_flight s")
    case Nil
    with inv assms(2) have "close_timers s = 1" by (auto simp: app_inv_def)
    then show ?thesis
      by (intro exI [of _ "[CloseTimer]"]) (simp add: close_timer_fires_def)
  next
    case (Cons d ds)
    with inv have "ds = [] \<and> close_timers s = 0" by (auto simp: app_inv_def)
    with Cons show ?thesis
      by (intro exI [of _ "[GenResolve 0, CloseTimer]"])
        (simp add: gen_resolve_def close_timer_fires_def remove_nth_def)
  qed
qed

theorem generation_settles_witness:
  "\<exists>t es u. app_run init_app demo_submission = Some t \<and> reachable t \<and> is_generating t \<and>
     set es \<subseteq> {GenResolve 0, CloseTimer} \<and> app_run t es = Some u \<and> \<not> is_generating u"
proof -
  obtain t where "app_run init_app demo_submission = Some t" "reachable t" "is_generating t"
    using demo_submission_run by blast
  with generation_settles [of t] show ?thesis by blast
qed

text \<open>C18: when serialisation or delivery fails, nothing is downloaded, the dialog keeps
  the form and its visibility, "generating" clears, and the form can be submitted again.\<close>

theorem reject_keeps_form:
  assumes "reachable s" and "gen_reject i s = Some t"
  shows "form t = form s \<and> downloads t = downloads s \<and> show_clone_modal t = show_clone_modal s \<and>
         \<not> is_generating t \<and> in_flight t = [] \<and> close_timers t = 0 \<and>
         (modal_visible t \<and> required_filled (form t) \<longrightarrow> handleSubmit env t \<noteq> None)"
proof -
  have inv: "app_inv s" using reachable_app_inv [OF assms(1)] .
  from assms(2) have i: "i < length (in_flight s)" and
    t: "t = s\<lparr>in_flight := remove_nth i (in_flight s), is_generating := False\<rparr>"
    using gen_reject_SomeD by simp_all
  with inv have "length (in_flight s) = 1" "close_timers s = 0" by (auto simp: app_inv_def)
  with i t show ?thesis by (simp add: handleSubmit_def submit_button_def modal_visible_def)
qed

theorem reject_keeps_form_witness:
  "\<exists>t u. app_run init_app demo_submission = Some t \<and> reachable t \<and> gen_reject 0 t = Some u \<and>
     form u = form t \<and> \<not> is_generating u \<and> handleSubmit demo_env u \<noteq> None"
proof -
  obtain t where t: "app_run init_app demo_submission = Some t" "reachable t" "modal_visible t"
      "in_flight t = [generate demo_env (form t)]" "required_filled (form t)"
    using demo_submission_run by blast
  then obtain u where u: "gen_reject 0 t = Some u" by (simp add: gen_reject_def)
  have "modal_visible u" using u t(3) by (auto simp: gen_reject_def modal_visible_def split: if_splits)
  with reject_keeps_form [OF t(2) u, of demo_env] t show ?thesis using u by auto
qed


subsection \<open>Properties of the project store\<close>

lemma map_nth_update_distinct:
  assumes "distinct rs" "i < length rs" "\<forall>a\<in>set rs. a < length h"
  shows "map (\<lambda>a. h[rs ! i := p] ! a) rs = (map (\<lambda>a. h ! a) rs)[i := p]"
proof (rule nth_equalityI)
  show "length (map (\<lambda>a. h[rs ! i := p] ! a) rs) = length ((map (\<lambda>a. h ! a) rs)[i := p])" by simp
next
  fix j assume j: "j < length (map (\<lambda>a. h[rs ! i := p] ! a) rs)"
  have "rs ! i < length h" using assms(2,3) by simp
  moreover have "rs ! j = rs ! i \<longleftrightarrow> j = i" using assms(1,2) j by (simp add: nth_eq_iff_index_eq)
  ultimately show "map (\<lambda>a. h[rs ! i := p] ! a) rs ! j = (map (\<lambda>a. h ! a) rs)[i := p] ! j"
    using j by (auto simp: nth_list_update)
qed

text \<open>C19: the in-place updates of project objects implement the value-level
  \<open>addProject\<close> and \<open>updateProject\<close> used by the page model, as long as no two entries
  share an object, and they keep that condition.\<close>

theorem project_store_refines:
  assumes "store_ok st"
  shows "store_ok (addProject_h st) \<and>
         deref (addProject_h st) = projects (addProject (fd\<lparr>projects := deref st\<rparr>)) \<and>
         map_option deref (updateProject_h i f v st) =
           map_option projects (updateProject i f v (fd\<lparr>projects := deref st\<rparr>)) \<and>
         (\<forall>st'. updateProject_h i f v st = Some st' \<longrightarrow> store_ok st')"
proof -
  obtain h rs where st: "st = (h, rs)" by (cases st)
  with assms have d: "distinct rs" and b: "\<forall>a\<in>set rs. a < length h" by (auto simp: store_ok_def)
  have 1: "store_ok (addProject_h st)"
    using d b st by (auto simp: store_ok_def addProject_h_def)
  have 2: "deref (addProject_h st) = projects (addProject (fd\<lparr>projects := deref st\<rparr>))"
    using b st by (simp add: deref_def addProject_h_def addProject_def nth_append)
  have 3: "map_option deref (updateProject_h i f v st) =
        map_option projects (updateProject i f v (fd\<lparr>projects := deref st\<rparr>))"
    using d b st by (simp add: deref_def updateProject_h_def updateProject_def map_nth_update_distinct)
  have 4: "\<forall>st'. updateProject_h i f v st = Some st' \<longrightarrow> store_ok st'"
    using d b st by (auto simp: store_ok_def updateProject_h_def split: if_splits)
  show ?thesis using 1 2 3 4 by blast
qed

theorem project_store_refines_witness:
  "store_ok ([empty_project, empty_project], [1, 0]) \<and>
   map_option deref (updateProject_h 0 PTitle ''X'' ([empty_project, empty_project], [1, 0])) =
     Some [empty_project\<lparr>ptitle := ''X''\<rparr>, empty_project]"
proof -
  have ok: "store_ok ([empty_project, empty_project], [1, 0])" by (simp add: store_ok_def)
  have "map_option deref (updateProject_h 0 PTitle ''X'' ([empty_project, empty_project], [1, 0])) =
        map_option projects (updateProject 0 PTitle ''X''
          (initial_form_data\<lparr>projects := deref ([empty_project, empty_project], [1, 0])\<rparr>))"
    using project_store_refines [OF ok] by blast
  then show ?thesis using ok by (simp add: updateProject_def deref_def)
qed

lemma aliased_store_differs:
  "deref (the (updateProject_h 0 PTitle ''X'' ([empty_project], [0, 0]))) =
     [empty_project\<lparr>ptitle := ''X''\<rparr>, empty_project\<lparr>ptitle := ''X''\<rparr>]"
  by (simp add: updateProject_h_def deref_def)


subsection \<open>The environment runs out of events\<close>

lemma env_step_pending:
  assumes "env_event e" and "app_step s e = Some t"
  shows "pending t < pending s"
  using assms
proof (cases e)
  case (GenResolve i)
  then show ?thesis using assms(2)
    by (auto simp: pending_def gen_resolve_def length_remove_nth split: if_splits)
next
  case (GenReject i)
  then show ?thesis using assms(2)
    by (auto simp: pending_def gen_reject_def length_remove_nth split: if_splits)
qed (auto simp: pending_def close_timer_fires_def split: if_splits)

text \<open>C30: without user input the page comes to rest: every event of the environment
  uses up pending work, so a run of such events is no longer than the work pending at
  its start, and no timer or promise keeps the page busy forever.\<close>

theorem env_events_terminate:
  assumes "\<forall>e\<in>set es. env_event e" and "app_run s es = Some t"
  shows "length es + pending t \<le> pending s"
  using assms
proof (induction es arbitrary: s)
  case Nil then show ?case by simp
next
  case (Cons e es)
  obtain u where u: "app_step s e = Some u" and r: "app_run u es = Some t"
    using Cons.prems(2) by (cases "app_step s e") auto
  have "pending u < pending s" using env_step_pending [of e s u] Cons.prems(1) u by simp
  moreover have "length es + pending t \<le> pending u" using Cons.IH Cons.prems(1) r by simp
  ultimately show ?case by simp
qed

theorem env_events_terminate_witness:
  "app_run init_app [LoadTimer] = Some (init_app\<lparr>is_loading := False\<rparr>) \<and>
   length [LoadTimer] + pending (init_app\<lparr>is_loading := False\<rparr>) \<le> pending init_app"
proof -
  have r: "app_run init_app [LoadTimer] = Some (init_app\<lparr>is_loading := False\<rparr>)"
    by (simp add: init_app_def)
  have "\<forall>e\<in>set [LoadTimer]. env_event e" by simp
  then show ?thesis using env_events_terminate [OF _ r] r by blast
qed

end
