(* ===== verification/Carousel.thy ===== *)
theory Carousel
  imports Transform
begin

text \<open>
  The project carousel, written twice in the repository: on the builder's own page
  (\<open>src/src/components/Projects.jsx\<close>, three fixed projects, lines 13--51, with a
  thumbnail strip that selects a project and highlights the current one, lines 136--152) and in the generated
  \<open>Projects.jsx\<close> (\<open>generatePortfolio.js\<close> lines 304--319, over the normalised projects,
  with the previous/next buttons rendered only when \<open>projects.length > 1\<close>, line 394).
  The state is the index \<open>currentProject\<close>, an integral JavaScript number; the handlers
  compute it with \<open>%\<close> (\<open>js_rem\<close>). The view reads \<open>projects[currentProject].title\<close> and
  its siblings, which throws when the index is out of range (\<open>shown_project\<close> is
  \<open>None\<close> there).
\<close>

record showcase_project =
  sc_title :: string
  sc_description :: string
  sc_image :: string
  sc_tech :: "string list"
  sc_github :: string
  sc_live :: string
  sc_color :: string

definition showcase_projects :: "showcase_project list" where
  "showcase_projects =
     [\<lparr>sc_title = ''3D Portfolio Showcase'',
       sc_description = ''An immersive portfolio experience built with Three.js and React'',
       sc_image = ''https://images.unsplash.com/photo-1633356122544-f134324a6cee?w=800'',
       sc_tech = [''React'', ''Three.js'', ''Framer Motion''],
       sc_github = ''https://github.com'', sc_live = ''https://example.com'',
       sc_color = ''from-purple-500 to-pink-500''\<rparr>,
      \<lparr>sc_title = ''AI-Powered Chat App'',
       sc_description = ''Real-time chat application with AI integration and voice features'',
       sc_image = ''https://images.unsplash.com/photo-1677442136019-21780ecad995?w=800'',
       sc_tech = [''Next.js'', ''OpenAI'', ''Socket.io''],
       sc_github = ''https://github.com'', sc_live = ''https://example.com'',
       sc_color = ''from-blue-500 to-cyan-500''\<rparr>,
      \<lparr>sc_title = ''E-Commerce Platform'',
       sc_description = ''Modern e-commerce solution with 3D product visualization'',
       sc_image = ''https://images.unsplash.com/photo-1556742049-0cfed4f6a45d?w=800'',
       sc_tech = [''React'', ''Node.js'', ''MongoDB''],
       sc_github = ''https://github.com'', sc_live = ''https://example.com'',
       sc_color = ''from-green-500 to-emerald-500''\<rparr>]"

definition nextProject :: "int \<Rightarrow> int \<Rightarrow> int option" where
  "nextProject n prev = js_rem (prev + 1) n"

definition prevProject :: "int \<Rightarrow> int \<Rightarrow> int option" where
  "prevProject n prev = js_rem (prev - 1 + n) n"

datatype carousel_event = NextProject | PrevProject | SelectProject nat

text \<open>One click on the builder page: the arrows, or the thumbnail of index \<open>k\<close>, which is
  rendered for each of the \<open>n\<close> projects (\<open>setCurrentProject(index)\<close>).\<close>

fun carousel_step :: "int \<Rightarrow> int \<Rightarrow> carousel_event \<Rightarrow> int option" where
  "carousel_step n i NextProject = nextProject n i"
| "carousel_step n i PrevProject = prevProject n i"
| "carousel_step n i (SelectProject k) = (if int k < n then Some (int k) else None)"

fun carousel_run :: "int \<Rightarrow> int \<Rightarrow> carousel_event list \<Rightarrow> int option" where
  "carousel_run n i [] = Some i"
| "carousel_run n i (e # es) = (case carousel_step n i e of None \<Rightarrow> None | Some j \<Rightarrow> carousel_run n j es)"

text \<open>\<open>projects[currentProject]\<close>: \<open>undefined\<close> out of range, and reading its \<open>title\<close> throws.\<close>

definition shown_project :: "'a list \<Rightarrow> int \<Rightarrow> 'a option" where
  "shown_project ps i = (if 0 \<le> i \<and> i < int (length ps) then Some (ps ! nat i) else None)"

text \<open>A thumbnail of the builder page (lines 144--150): its class highlights the current
  project (\<open>currentProject === index\<close>), and its caption joins the technologies with the
  separator as the source file has it, the bytes \<open>C3 A2 E2 82 AC C2 A2\<close> between two
  spaces: the UTF-8 bullet \<open>E2 80 A2\<close> read as Windows-1252 and encoded again.\<close>

definition thumbnail_class :: "int \<Rightarrow> nat \<Rightarrow> string" where
  "thumbnail_class cur index =
     ''cursor-pointer p-4 rounded-xl transition-all '' @
     (if cur = int index then ''bg-purple-500/20 scale-105'' else ''bg-white/5 hover:bg-white/10'')"

definition tech_separator :: string where
  "tech_separator = [CHR 0x20, CHR 0xC3, CHR 0xA2, CHR 0xE2, CHR 0x82, CHR 0xAC, CHR 0xC2, CHR 0xA2, CHR 0x20]"

definition thumbnail_caption :: "showcase_project \<Rightarrow> string" where
  "thumbnail_caption p = js_join tech_separator (sc_tech p)"

text \<open>The generated page: the arrows exist only when there are at least two projects, and
  there are no thumbnails.\<close>

fun gen_carousel_step :: "form_data \<Rightarrow> int \<Rightarrow> carousel_event \<Rightarrow> int option" where
  "gen_carousel_step fd i (SelectProject k) = None"
| "gen_carousel_step fd i e =
     (if 1 < length (normalize_projects fd)
      then carousel_step (int (length (normalize_projects fd))) i e else None)"

fun gen_carousel_run :: "form_data \<Rightarrow> int \<Rightarrow> carousel_event list \<Rightarrow> int option" where
  "gen_carousel_run fd i [] = Some i"
| "gen_carousel_run fd i (e # es) =
     (case gen_carousel_step fd i e of None \<Rightarrow> None | Some j \<Rightarrow> gen_carousel_run fd j es)"

subsection \<open>Properties of the carousel\<close>

lemma carousel_step_range:
  assumes "0 < n" "0 \<le> i" "i < n" "carousel_step n i e = Some j"
  shows "0 \<le> j \<and> j < n"
  using assms by (cases e) (auto simp: nextProject_def prevProject_def js_rem_nonneg split: if_splits)

lemma carousel_run_range:
  "0 < n \<Longrightarrow> 0 \<le> i \<Longrightarrow> i < n \<Longrightarrow> carousel_run n i es = Some j \<Longrightarrow> 0 \<le> j \<and> j < n"
proof (induction es arbitrary: i)
  case (Cons e es)
  then obtain k where "carousel_step n i e = Some k" "carousel_run n k es = Some j"
    by (auto split: option.splits)
  with Cons show ?case using carousel_step_range by blast
qed simp

lemma length_normalize_projects [simp]: "length (normalize_projects fd) = length (kept_projects fd)"
  by (simp add: normalize_projects_def)

lemma gen_carousel_run_eq:
  "gen_carousel_run fd i es = Some j \<Longrightarrow> j = i \<or> (\<exists>es'. carousel_run (int (length (kept_projects fd))) i es' = Some j \<and> 1 < length (kept_projects fd))"
proof (induction es arbitrary: i)
  case (Cons e es)
  then obtain k where k: "gen_carousel_step fd i e = Some k" "gen_carousel_run fd k es = Some j"
    by (auto split: option.splits)
  then have s: "carousel_step (int (length (kept_projects fd))) i e = Some k" "1 < length (kept_projects fd)"
    by (cases e; simp split: if_splits)+
  from Cons.IH [OF k(2)] show ?case
  proof
    assume "j = k" then show ?thesis using s by (intro disjI2 exI [of _ "[e]"]) simp
  next
    assume "\<exists>es'. carousel_run (int (length (kept_projects fd))) k es' = Some j \<and> 1 < length (kept_projects fd)"
    then obtain es' where "carousel_run (int (length (kept_projects fd))) k es' = Some j" by blast
    then show ?thesis using s by (intro disjI2 exI [of _ "e # es'"]) simp
  qed
qed simp

text \<open>C21: whatever the visitor clicks, the carousel index stays in \<open>[0, n)\<close> for
  \<open>n > 0\<close> projects; on the builder page (three projects) \<open>projects[currentProject]\<close> is
  therefore always defined and the view never reads a field of \<open>undefined\<close>.\<close>

theorem carousel_in_range:
  "(0 < n \<longrightarrow> carousel_run n 0 es = Some i \<longrightarrow> 0 \<le> i \<and> i < n) \<and>
   (carousel_run (int (length showcase_projects)) 0 es = Some i \<longrightarrow> shown_project showcase_projects i \<noteq> None)"
proof -
  have "0 < n \<Longrightarrow> carousel_run n 0 es = Some i \<Longrightarrow> 0 \<le> i \<and> i < n"
    by (rule carousel_run_range) simp_all
  moreover have "carousel_run (int (length showcase_projects)) 0 es = Some i \<Longrightarrow> 0 \<le> i \<and> i < int (length showcase_projects)"
    by (rule carousel_run_range) (simp_all add: showcase_projects_def)
  ultimately show ?thesis by (auto simp: shown_project_def)
qed

text \<open>C22: in the generated \<open>Projects.jsx\<close>, when the gallery is emitted (some project
  has a title), every sequence of clicks on its arrows leaves \<open>currentProject\<close> on one
  of the embedded projects.\<close>

theorem carousel_in_range_witness:
  "carousel_run 3 0 [PrevProject] = Some 2 \<and> 0 \<le> (2::int) \<and> (2::int) < 3 \<and>
   shown_project showcase_projects 2 \<noteq> None"
proof -
  have r: "carousel_run 3 0 [PrevProject] = Some 2" by (simp add: prevProject_def js_rem_def)
  moreover have "carousel_run (int (length showcase_projects)) 0 [PrevProject] = Some 2"
    using r by (simp add: showcase_projects_def)
  ultimately show ?thesis using carousel_in_range [of 3 "[PrevProject]" 2] by simp
qed

theorem gen_carousel_in_range:
  assumes "kept_projects fd \<noteq> []" and "gen_carousel_run fd 0 es = Some i"
  shows "shown_project (normalize_projects fd) i \<noteq> None"
proof -
  have "0 \<le> i \<and> i < int (length (kept_projects fd))"
    using gen_carousel_run_eq [OF assms(2)]
  proof
    assume "i = 0" then show ?thesis using assms(1) by simp
  next
    assume "\<exists>es'. carousel_run (int (length (kept_projects fd))) 0 es' = Some i \<and> 1 < length (kept_projects fd)"
    then show ?thesis using carousel_run_range [of "int (length (kept_projects fd))" 0] by force
  qed
  then show ?thesis by (simp add: shown_project_def)
qed

text \<open>C23: "previous" undoes "next" and "next" undoes "previous" on every valid index.\<close>

theorem gen_carousel_in_range_witness:
  "kept_projects (initial_form_data\<lparr>projects := [empty_project\<lparr>ptitle := ''A''\<rparr>, empty_project\<lparr>ptitle := ''B''\<rparr>]\<rparr>) \<noteq> [] \<and>
   gen_carousel_run (initial_form_data\<lparr>projects := [empty_project\<lparr>ptitle := ''A''\<rparr>, empty_project\<lparr>ptitle := ''B''\<rparr>]\<rparr>) 0
     [NextProject, NextProject, PrevProject] = Some 1 \<and>
   shown_project (normalize_projects (initial_form_data\<lparr>projects :=
     [empty_project\<lparr>ptitle := ''A''\<rparr>, empty_project\<lparr>ptitle := ''B''\<rparr>]\<rparr>)) 1 \<noteq> None"
proof -
  let ?fd = "initial_form_data\<lparr>projects := [empty_project\<lparr>ptitle := ''A''\<rparr>, empty_project\<lparr>ptitle := ''B''\<rparr>]\<rparr>"
  have k: "kept_projects ?fd = [empty_project\<lparr>ptitle := ''A''\<rparr>, empty_project\<lparr>ptitle := ''B''\<rparr>]"
    by (simp add: kept_projects_def js_truthy_def)
  then have r: "gen_carousel_run ?fd 0 [NextProject, NextProject, PrevProject] = Some 1"
    by (simp add: nextProject_def prevProject_def js_rem_def)
  show ?thesis using gen_carousel_in_range [OF _ r] k r by simp
qed

theorem carousel_prev_next:
  assumes "0 \<le> i" "i < n"
  shows "Option.bind (nextProject n i) (prevProject n) = Some i \<and>
         Option.bind (prevProject n i) (nextProject n) = Some i"
proof -
  have n: "0 < n" using assms by simp
  have a: "(i + 1) mod n - 1 + n \<ge> 0" using n pos_mod_sign [of n "i + 1"] by linarith
  have b: "(i - 1 + n) mod n + 1 \<ge> 0" using n pos_mod_sign [of n "i - 1 + n"] by linarith
  have "((i + 1) mod n - 1 + n) mod n = i"
    using assms by (metis add.commute add_diff_cancel_left' mod_add_self1 mod_diff_left_eq mod_pos_pos_trivial)
  moreover have "((i - 1 + n) mod n + 1) mod n = i"
    using assms by (metis diff_add_cancel mod_add_left_eq mod_add_self2 mod_pos_pos_trivial)
  ultimately show ?thesis
    using assms n a b by (simp add: nextProject_def prevProject_def js_rem_nonneg)
qed

text \<open>C24: pressing "next" \<open>k\<close> times from the start shows project \<open>k mod n\<close>: the arrows
  reach every project, cyclically.\<close>

theorem carousel_prev_next_witness:
  "Option.bind (nextProject 3 2) (prevProject 3) = Some 2 \<and> nextProject 3 2 = Some 0"
  using carousel_prev_next [of 2 3] by (simp add: nextProject_def js_rem_def)

theorem carousel_visits_all:
  assumes "0 < n"
  shows "carousel_run n 0 (replicate k NextProject) = Some (int k mod n)"
proof -
  have "0 \<le> i \<Longrightarrow> carousel_run n (i mod n) (replicate k NextProject) = Some ((i + int k) mod n)" for i
  proof (induction k arbitrary: i)
    case (Suc k)
    have "carousel_step n (i mod n) NextProject = Some ((i + 1) mod n)"
      using assms Suc.prems by (simp add: nextProject_def js_rem_nonneg mod_add_left_eq)
    then show ?case using Suc.IH [of "i + 1"] Suc.prems by (simp add: add.assoc)
  qed simp
  from this [of 0] show ?thesis by simp
qed

theorem carousel_visits_all_witness:
  "carousel_run 3 0 (replicate 4 NextProject) = Some 1"
  using carousel_visits_all [of 3 4] by simp


subsection \<open>The thumbnail strip\<close>

text \<open>The caption of the first project holds the mis-encoded separator and not the bullet:
  the byte \<open>80\<close>, the middle byte of the UTF-8 bullet, does not occur in it.\<close>

lemma thumbnail_caption_mojibake:
  "thumbnail_caption (showcase_projects ! 0) =
     ''React'' @ tech_separator @ ''Three.js'' @ tech_separator @ ''Framer Motion'' \<and>
   CHR 0x80 \<notin> set (thumbnail_caption (showcase_projects ! 0))"
  by (simp add: thumbnail_caption_def showcase_projects_def tech_separator_def)

lemma thumbnail_class_current:
  "sublist ''scale-105'' (thumbnail_class cur k) \<longleftrightarrow> cur = int k"
  by (simp add: thumbnail_class_def sublist_code)

end
