(* ===== verification/Scroll_Progress.thy ===== *)
theory Scroll_Progress
  imports Js_Number
begin

text \<open>
  The reading-progress indicator of the builder page
  (\<open>src/src/components/ScrollProgress.jsx\<close>): on every \<open>scroll\<close> event it sets
  \<open>scrollProgress\<close> to \<open>window.scrollY / (scrollHeight - innerHeight) * 100\<close> (lines
  8--13) and renders it three times: as the scale of the top bar (line 23), as the
  dash offset of the ring (\<open>176 - (176 * p) / 100\<close>, line 41) and as the label
  \<open>Math.round(p)%\<close> (line 53). The DOM's measures are numbers (\<open>scroll_metrics\<close>); each
  operation rounds as binary64 does (\<open>Js_Number\<close>). A zero denominator makes the
  progress \<open>NaN\<close> or infinite, which \<open>updateScrollProgress\<close> returns as \<open>None\<close>.
\<close>

record scroll_metrics =
  doc_scroll_height :: rat
  inner_height :: rat
  scroll_y :: rat

definition scrollable_height :: "scroll_metrics \<Rightarrow> rat" where
  "scrollable_height m = fp_sub (doc_scroll_height m) (inner_height m)"

definition updateScrollProgress :: "scroll_metrics \<Rightarrow> rat option" where
  "updateScrollProgress m =
     (let h = scrollable_height m
      in if h = 0 then None else Some (fp_mul (fp_div (scroll_y m) h) 100))"

definition bar_scale :: "rat \<Rightarrow> rat" where
  "bar_scale p = fp_div p 100"

definition ring_offset :: "rat \<Rightarrow> rat" where
  "ring_offset p = fp_sub 176 (fp_div (fp_mul 176 p) 100)"

definition progress_label :: "rat \<Rightarrow> int" where
  "progress_label p = js_math_round p"

subsection \<open>Properties of the indicator\<close>

lemma fp_div_between:
  assumes "0 \<le> x" "x \<le> y" "0 < y"
  shows "0 \<le> fp_div x y \<and> fp_div x y \<le> 1"
proof -
  have "0 \<le> x / y" "x / y \<le> 1" using assms by simp_all
  then show ?thesis unfolding fp_div_def by (intro fp_round_between) (simp_all add: fp_round_exact_small)
qed

text \<open>C26: while the page is scrolled within its range (\<open>0 \<le> scrollY \<le> scrollHeight -
  innerHeight\<close>, a positive height), the progress lies in \<open>[0, 100]\<close>, the bar's scale
  in \<open>[0, 1]\<close>, the ring's dash offset in \<open>[0, 176]\<close> and the label in \<open>0..100\<close>, in
  spite of the rounding of each operation.\<close>

theorem scroll_progress_bounds:
  assumes "0 \<le> scroll_y m" "scroll_y m \<le> scrollable_height m" "0 < scrollable_height m"
  shows "\<exists>p. updateScrollProgress m = Some p \<and> 0 \<le> p \<and> p \<le> 100 \<and>
           0 \<le> bar_scale p \<and> bar_scale p \<le> 1 \<and> 0 \<le> ring_offset p \<and> ring_offset p \<le> 176 \<and>
           0 \<le> progress_label p \<and> progress_label p \<le> 100"
proof -
  define q where "q = fp_div (scroll_y m) (scrollable_height m)"
  define p where "p = fp_mul q 100"
  have q: "0 \<le> q" "q \<le> 1" using fp_div_between [OF assms] by (simp_all add: q_def)
  have p: "0 \<le> p \<and> p \<le> 100"
    unfolding p_def fp_mul_def using q by (intro fp_round_between) (simp_all add: fp_round_exact_small)
  have up: "updateScrollProgress m = Some p"
    using assms(3) by (simp add: updateScrollProgress_def p_def q_def)
  have bar: "0 \<le> bar_scale p \<and> bar_scale p \<le> 1"
    unfolding bar_scale_def using p by (intro fp_div_between) simp_all
  have m: "0 \<le> fp_mul 176 p \<and> fp_mul 176 p \<le> 17600"
    unfolding fp_mul_def using p by (intro fp_round_between) (simp_all add: fp_round_exact_small)
  have d: "0 \<le> fp_div (fp_mul 176 p) 100 \<and> fp_div (fp_mul 176 p) 100 \<le> 176"
    unfolding fp_div_def using m by (intro fp_round_between) (simp_all add: fp_round_exact_small)
  have ring: "0 \<le> ring_offset p \<and> ring_offset p \<le> 176"
    unfolding ring_offset_def fp_sub_def using d by (intro fp_round_between) (simp_all add: fp_round_exact_small)
  have lbl: "0 \<le> progress_label p \<and> progress_label p \<le> 100"
    using p by (simp add: progress_label_def js_math_round_def floor_le_iff)
  show ?thesis using up p bar ring lbl by blast
qed

theorem scroll_progress_bounds_witness:
  "updateScrollProgress \<lparr>doc_scroll_height = 3000, inner_height = 800, scroll_y = 1100\<rparr> = Some 50 \<and>
   ring_offset 50 = 88 \<and> progress_label 50 = 50"
proof -
  let ?m = "\<lparr>doc_scroll_height = 3000, inner_height = 800, scroll_y = 1100\<rparr>"
  have h: "scrollable_height ?m = 2200" unfolding scrollable_height_def fp_sub_def by code_simp
  have "\<exists>p. updateScrollProgress ?m = Some p \<and> 0 \<le> p \<and> p \<le> 100"
    using scroll_progress_bounds [of ?m] h by fastforce
  moreover have "updateScrollProgress ?m = Some 50"
    using h unfolding updateScrollProgress_def fp_mul_def fp_div_def by code_simp
  moreover have "ring_offset 50 = 88" unfolding ring_offset_def fp_sub_def fp_mul_def fp_div_def by code_simp
  moreover have "progress_label 50 = 50" by (simp add: progress_label_def js_math_round_def floor_eq_iff)
  ultimately show ?thesis by simp
qed


end
