(* ===== verification/Schema.thy ===== *)
theory Schema
  imports Synthesis
begin

text \<open>
  The shape of the data embedded in the generated \<open>Projects.jsx\<close> and \<open>Skills.jsx\<close>
  against the shape their code reads. A \<open>jtype\<close> is the type of a JSON value as the
  reading code uses it; \<open>has_type t v\<close> checks a value against it, where an object type
  lists the properties the code reads and an object has one when its last entry with
  that key (\<open>JSON.parse\<close> keeps the last of duplicate keys) has the listed type.
  \<open>project_type\<close> is what the gallery of the generated \<open>Projects.jsx\<close> reads of
  \<open>projects[currentProject]\<close> (\<open>generatePortfolio.js\<close> lines 347--382): \<open>image\<close>,
  \<open>title\<close>, \<open>color\<close>, \<open>description\<close>, \<open>tech\<close> through \<open>.map\<close>, \<open>github\<close>, \<open>link\<close>;
  \<open>skill_type\<close> what the skill meter of \<open>Skills.jsx\<close> reads of each \<open>skill\<close> (lines
  452--472): \<open>name\<close>, \<open>category\<close>, and \<open>level\<close> as a number for the bar width and
  \<open>Math.round\<close>.
\<close>

datatype jtype = TStr | TNum | TArr jtype | TObj "(string \<times> jtype) list"

definition js_get :: "(string \<times> json) list \<Rightarrow> string \<Rightarrow> json option" where
  "js_get kvs k = map_of (rev kvs) k"

fun has_type :: "jtype \<Rightarrow> json \<Rightarrow> bool" where
  "has_type TStr v = (case v of JStr s \<Rightarrow> True | _ \<Rightarrow> False)"
| "has_type TNum v = (case v of JNum s \<Rightarrow> True | _ \<Rightarrow> False)"
| "has_type (TArr t) v = (case v of JArr vs \<Rightarrow> (\<forall>w\<in>set vs. has_type t w) | _ \<Rightarrow> False)"
| "has_type (TObj fs) v =
     (case v of
        JObj kvs \<Rightarrow> (\<forall>f\<in>set fs. case js_get kvs (fst f) of None \<Rightarrow> False | Some w \<Rightarrow> has_type (snd f) w)
      | _ \<Rightarrow> False)"

definition project_type :: jtype where
  "project_type =
     TObj [(''image'', TStr), (''title'', TStr), (''color'', TStr), (''description'', TStr),
           (''tech'', TArr TStr), (''github'', TStr), (''link'', TStr)]"

definition skill_type :: jtype where
  "skill_type = TObj [(''name'', TStr), (''category'', TStr), (''level'', TNum)]"

lemma has_type_project_json: "has_type project_type (project_json np)"
  by (simp add: project_type_def project_json_def js_get_def)

lemma has_type_skill_json: "has_type skill_type (skill_json env sk)"
  by (simp add: skill_type_def skill_json_def js_get_def)

text \<open>C31: the \<open>projects\<close> array written into \<open>Projects.jsx\<close> reads back as an array of
  objects with every property the gallery reads, of the type it reads it at: strings for
  the image, title, colour class, description and links, and an array of strings for
  the technologies it maps over.\<close>

theorem projects_data_typed:
  "\<exists>lit. sublist (''  const projects = '' @ lit @ '';'') (generateProjectsContent fd) \<and>
         (\<exists>v. json_parse lit = Some v \<and> has_type (TArr project_type) v)"
proof -
  have ok: "nums_ok (JArr (map project_json (normalize_projects fd)))"
    by (simp add: project_json_def)
  have "has_type (TArr project_type) (JArr (map project_json (normalize_projects fd)))"
    by (simp add: has_type_project_json)
  then show ?thesis using projects_literal json_parse_stringify [OF ok] by blast
qed

text \<open>C32: the \<open>skills\<close> array written into \<open>Skills.jsx\<close> reads back as an array of
  objects with a string name and category and a numeric level, provided the engine
  prints each level as a JSON number.\<close>

theorem skills_data_typed:
  assumes "\<forall>q. number_str env q \<noteq> [] \<and> (\<forall>c\<in>set (number_str env q). is_num_char c)"
  shows "\<exists>lit. sublist (''  const skills = '' @ lit @ '';'') (generateSkillsContent env fd) \<and>
         (\<exists>v. json_parse lit = Some v \<and> has_type (TArr skill_type) v)"
proof -
  have ok: "nums_ok (JArr (map (skill_json env) (skill_entries env fd)))"
    using assms by (simp add: skill_json_def)
  have "has_type (TArr skill_type) (JArr (map (skill_json env) (skill_entries env fd)))"
    by (simp add: has_type_skill_json)
  then show ?thesis using skills_literal json_parse_stringify [OF ok] by blast
qed

theorem skills_data_typed_witness:
  "(\<forall>q. number_str \<lparr>random_bits = (\<lambda>_. 0), number_str = (\<lambda>_. ''75'')\<rparr> q \<noteq> [] \<and>
        (\<forall>c\<in>set (number_str \<lparr>random_bits = (\<lambda>_. 0), number_str = (\<lambda>_. ''75'')\<rparr> q). is_num_char c)) \<and>
   (\<exists>v. json_parse (json_stringify (JArr (map (skill_json \<lparr>random_bits = (\<lambda>_. 0), number_str = (\<lambda>_. ''75'')\<rparr>)
      (skill_entries \<lparr>random_bits = (\<lambda>_. 0), number_str = (\<lambda>_. ''75'')\<rparr> (initial_form_data\<lparr>skills := ''Rust''\<rparr>))))) = Some v) \<and>
   (\<exists>lit v. json_parse lit = Some v \<and> has_type (TArr skill_type) v)"
proof -
  have h: "\<forall>q. number_str \<lparr>random_bits = (\<lambda>_. 0), number_str = (\<lambda>_. ''75'')\<rparr> q \<noteq> [] \<and>
        (\<forall>c\<in>set (number_str \<lparr>random_bits = (\<lambda>_. 0), number_str = (\<lambda>_. ''75'')\<rparr> q). is_num_char c)"
    by (simp add: is_num_char_def)
  have "nums_ok (JArr (map (skill_json \<lparr>random_bits = (\<lambda>_. 0), number_str = (\<lambda>_. ''75'')\<rparr>)
      (skill_entries \<lparr>random_bits = (\<lambda>_. 0), number_str = (\<lambda>_. ''75'')\<rparr> (initial_form_data\<lparr>skills := ''Rust''\<rparr>))))"
    using h by (simp add: skill_json_def)
  then show ?thesis
    using skills_data_typed [OF h, of "initial_form_data\<lparr>skills := ''Rust''\<rparr>"] h json_parse_stringify by blast
qed

end
