(* ===== verification/Page.thy ===== *)
theory Page
  imports Clone_Modal Scroll_Progress
begin

text \<open>
  The builder's page as one state machine: \<open>App.jsx\<close> composes the loading gate and the
  clone dialog (\<open>Clone_Modal\<close>) with the widgets that have state of their own:
  \<^item> \<open>Navbar.jsx\<close>: \<open>isScrolled\<close>, set by the window's scroll listener
    (\<open>handleScroll\<close>, lines 9--15), and \<open>isMobileMenuOpen\<close>, toggled by the menu button
    (line 71) and cleared by a link of the mobile menu (line 92); both clone buttons
    (lines 62, 99) call \<open>onClone\<close>, which \<open>App.jsx\<close> binds to opening the dialog
    (line 36);
  \<^item> \<open>CustomCursor.jsx\<close>: the pointer position and \<open>isHovering\<close>, set by
    \<open>mouseover\<close> on a link or button and cleared by any \<open>mouseout\<close> (lines 8--32); the
    ring and the dot it draws (lines 36--52);
  \<^item> \<open>ScrollProgress.jsx\<close>: the progress value (\<open>Scroll_Progress\<close>);
  \<^item> \<open>Contact.jsx\<close>: the visitor's form, whose submission only logs it (lines 13--22,
    94--121).
  The Navbar and the contact form are mounted when loading ends (\<open>App.jsx\<close> lines
  30--46), with their initial state; the cursor and the progress bar are mounted from
  the start. While the dialog is open its overlay (\<open>fixed inset-0 z-50\<close>) covers the
  page, so the navigation bar and the contact form take no clicks.
\<close>

subsection \<open>The navigation bar\<close>

record navbar_state =
  is_scrolled :: bool
  is_mobile_menu_open :: bool

definition init_navbar :: navbar_state where
  "init_navbar = \<lparr>is_scrolled = False, is_mobile_menu_open = False\<rparr>"

definition handleScroll :: "rat \<Rightarrow> navbar_state \<Rightarrow> navbar_state" where
  "handleScroll scrollY n = n\<lparr>is_scrolled := 20 < scrollY\<rparr>"

definition nav_items :: "(string \<times> string) list" where
  "nav_items =
     [(''Home'', ''#home''), (''About'', ''#about''), (''Projects'', ''#projects''),
      (''Skills'', ''#skills''), (''Contact'', ''#contact'')]"

text \<open>The controls of the bar: a desktop link, the desktop clone button, the menu button,
  a link of the mobile menu and its clone button (the last two exist only while the menu
  is open). The result records whether \<open>onClone\<close> was called.\<close>

datatype nav_event = DesktopLink nat | DesktopClone | ToggleMenu | MobileLink nat | MobileClone

fun navbar_click :: "nav_event \<Rightarrow> navbar_state \<Rightarrow> (navbar_state \<times> bool) option" where
  "navbar_click (DesktopLink i) n = (if i < length nav_items then Some (n, False) else None)"
| "navbar_click DesktopClone n = Some (n, True)"
| "navbar_click ToggleMenu n = Some (n\<lparr>is_mobile_menu_open := \<not> is_mobile_menu_open n\<rparr>, False)"
| "navbar_click (MobileLink i) n =
     (if is_mobile_menu_open n \<and> i < length nav_items
      then Some (n\<lparr>is_mobile_menu_open := False\<rparr>, False) else None)"
| "navbar_click MobileClone n = (if is_mobile_menu_open n then Some (n, True) else None)"

text \<open>What the bar renders from its state: the class of the \<open>nav\<close> element (lines
  29--31) and the icon of the menu button (line 74); the mobile panel is rendered while
  \<open>isMobileMenuOpen\<close> holds (line 80).\<close>

definition navbar_class :: "navbar_state \<Rightarrow> string" where
  "navbar_class n =
     ''fixed top-0 left-0 right-0 z-40 transition-all duration-300 '' @
     (if is_scrolled n then ''bg-black/80 backdrop-blur-lg border-b border-white/10'' else [])"

definition menu_icon :: "navbar_state \<Rightarrow> string" where
  "menu_icon n = (if is_mobile_menu_open n then ''X'' else ''Menu'')"

subsection \<open>The custom cursor\<close>

record cursor_state =
  mouse_x :: rat
  mouse_y :: rat
  is_hovering :: bool

definition init_cursor :: cursor_state where
  "init_cursor = \<lparr>mouse_x = 0, mouse_y = 0, is_hovering = False\<rparr>"

text \<open>\<open>MouseOver t\<close> is a \<open>mouseover\<close> whose target has the tag name \<open>t\<close>.\<close>

datatype cursor_event = MouseMove rat rat | MouseOver string | MouseOut

fun cursor_step :: "cursor_event \<Rightarrow> cursor_state \<Rightarrow> cursor_state" where
  "cursor_step (MouseMove x y) c = c\<lparr>mouse_x := x, mouse_y := y\<rparr>"
| "cursor_step (MouseOver t) c =
     (if t = ''A'' \<or> t = ''BUTTON'' then c\<lparr>is_hovering := True\<rparr> else c)"
| "cursor_step MouseOut c = c\<lparr>is_hovering := False\<rparr>"

definition cursor_run :: "cursor_event list \<Rightarrow> cursor_state \<Rightarrow> cursor_state" where
  "cursor_run es c = fold cursor_step es c"

text \<open>The animation targets: the ring (\<open>x - 16\<close>, \<open>y - 16\<close>, scale) and the dot
  (\<open>x - 4\<close>, \<open>y - 4\<close>).\<close>

definition cursor_ring :: "cursor_state \<Rightarrow> rat \<times> rat \<times> rat" where
  "cursor_ring c = (fp_sub (mouse_x c) 16, fp_sub (mouse_y c) 16, if is_hovering c then 3 / 2 else 1)"

definition cursor_dot :: "cursor_state \<Rightarrow> rat \<times> rat" where
  "cursor_dot c = (fp_sub (mouse_x c) 4, fp_sub (mouse_y c) 4)"

text \<open>When the pointer passes from one element into another, the browser fires
  \<open>mouseout\<close> on the element left and then \<open>mouseover\<close> on the element entered (UI
  Events); both bubble to the window, where the cursor listens.\<close>

definition pointer_enters :: "string \<Rightarrow> cursor_event list" where
  "pointer_enters t = [MouseOut, MouseOver t]"

subsection \<open>The contact form of the builder's page\<close>

record contact_form =
  cf_name :: string
  cf_email :: string
  cf_message :: string

record contact_state =
  contact_data :: contact_form
  console_log :: "contact_form list"

definition init_contact :: contact_state where
  "init_contact = \<lparr>contact_data = \<lparr>cf_name = [], cf_email = [], cf_message = []\<rparr>, console_log = []\<rparr>"

datatype contact_field = CName | CEmail | CMessage

fun set_contact_field :: "contact_field \<Rightarrow> string \<Rightarrow> contact_form \<Rightarrow> contact_form" where
  "set_contact_field CName v f = f\<lparr>cf_name := v\<rparr>"
| "set_contact_field CEmail v f = f\<lparr>cf_email := v\<rparr>"
| "set_contact_field CMessage v f = f\<lparr>cf_message := v\<rparr>"

datatype contact_event = ContactEdit contact_field string | ContactSubmit

text \<open>The three inputs are \<open>required\<close>: the browser submits only when each is non-empty
  (the format check of \<open>type="email"\<close> is not modelled). \<open>handleSubmit\<close> prevents the
  default and logs the form; nothing is sent and nothing is reset.\<close>

fun contact_step :: "contact_event \<Rightarrow> contact_state \<Rightarrow> contact_state option" where
  "contact_step (ContactEdit f v) c = Some (c\<lparr>contact_data := set_contact_field f v (contact_data c)\<rparr>)"
| "contact_step ContactSubmit c =
     (let d = contact_data c
      in if cf_name d \<noteq> [] \<and> cf_email d \<noteq> [] \<and> cf_message d \<noteq> []
         then Some (c\<lparr>console_log := console_log c @ [d]\<rparr>) else None)"

text \<open>The fixed lists of the section (lines 24--34), and the markup of a social link
  (lines 72--81): an anchor whose only content is the icon, an \<open>svg\<close> element.\<close>

record social_link =
  sl_href :: string
  sl_label :: string

definition social_links :: "social_link list" where
  "social_links =
     [\<lparr>sl_href = ''https://github.com'', sl_label = ''GitHub''\<rparr>,
      \<lparr>sl_href = ''https://linkedin.com'', sl_label = ''LinkedIn''\<rparr>,
      \<lparr>sl_href = ''https://twitter.com'', sl_label = ''Twitter''\<rparr>]"

definition contact_info :: "string list" where
  "contact_info = [''john.doe@example.com'', ''+1 (555) 123-4567'', ''San Francisco, CA'']"

datatype dom = Elem string "dom list" | Text string

definition social_link_dom :: "social_link \<Rightarrow> dom" where
  "social_link_dom l = Elem ''A'' [Elem ''svg'' []]"

subsection \<open>The page\<close>

record page_state =
  app :: app_state
  nav :: navbar_state
  cursor :: cursor_state
  progress :: "rat option"
  contact :: contact_state

definition init_page :: page_state where
  "init_page = \<lparr>app = init_app, nav = init_navbar, cursor = init_cursor, progress = Some 0,
                contact = init_contact\<rparr>"

text \<open>\<open>OpenModal\<close> of the dialog model is the Navbar's \<open>onClone\<close>; on the page it happens
  through a clone button only.\<close>

datatype page_event =
    AppEv app_event
  | NavEv nav_event
  | CursorEv cursor_event
  | PageScroll scroll_metrics
  | ContactEv contact_event

definition page_covered :: "page_state \<Rightarrow> bool" where
  "page_covered p \<longleftrightarrow> is_loading (app p) \<or> modal_visible (app p)"

fun page_step :: "page_state \<Rightarrow> page_event \<Rightarrow> page_state option" where
  "page_step p (AppEv e) =
     (if e = OpenModal then None
      else case app_step (app p) e of
             None \<Rightarrow> None
           | Some a \<Rightarrow>
               Some (if e = LoadTimer then p\<lparr>app := a, nav := init_navbar, contact := init_contact\<rparr>
                     else p\<lparr>app := a\<rparr>))"
| "page_step p (NavEv e) =
     (if page_covered p then None
      else case navbar_click e (nav p) of
             None \<Rightarrow> None
           | Some (n, clone) \<Rightarrow>
               if clone then map_option (\<lambda>a. p\<lparr>app := a, nav := n\<rparr>) (app_step (app p) OpenModal)
               else Some (p\<lparr>nav := n\<rparr>))"
| "page_step p (CursorEv e) = Some (p\<lparr>cursor := cursor_step e (cursor p)\<rparr>)"
| "page_step p (PageScroll m) =
     Some (p\<lparr>progress := updateScrollProgress m,
             nav := (if is_loading (app p) then nav p else handleScroll (scroll_y m) (nav p))\<rparr>)"
| "page_step p (ContactEv e) =
     (if page_covered p then None
      else map_option (\<lambda>c. p\<lparr>contact := c\<rparr>) (contact_step e (contact p)))"

fun page_run :: "page_state \<Rightarrow> page_event list \<Rightarrow> page_state option" where
  "page_run p [] = Some p"
| "page_run p (e # es) = (case page_step p e of None \<Rightarrow> None | Some q \<Rightarrow> page_run q es)"

inductive page_reachable :: "page_state \<Rightarrow> bool" where
  start: "page_reachable init_page"
| step: "page_reachable p \<Longrightarrow> page_step p e = Some q \<Longrightarrow> page_reachable q"


subsection \<open>The page refines the dialog model\<close>

lemma page_step_app:
  assumes "page_step p e = Some q"
  shows "app q = app p \<or> (\<exists>e'. app_step (app p) e' = Some (app q))"
proof (cases e)
  case (AppEv a)
  then obtain x where "app_step (app p) a = Some x" and "app q = x"
    using assms by (auto split: if_splits option.splits)
  then show ?thesis by blast
next
  case (NavEv n)
  have "app q = app p \<or> app_step (app p) OpenModal = Some (app q)"
    using assms NavEv by (auto split: if_splits option.splits prod.splits)
  then show ?thesis by blast
next
  case (ContactEv c)
  then show ?thesis using assms by (auto split: if_splits)
qed (use assms in auto)

lemma page_step_loading:
  assumes "page_step p e = Some q" and "is_loading (app q)"
    and "is_loading (app p) \<longrightarrow> nav p = init_navbar \<and> contact p = init_contact"
  shows "nav q = init_navbar \<and> contact q = init_contact"
proof (cases e)
  case (AppEv a)
  have "is_loading (app p)"
    using assms(1,2) AppEv by (cases a) (auto split: if_splits option.splits simp: edit_form_def
      modal_visible_def handleSubmit_def submit_button_def gen_resolve_def gen_reject_def close_timer_fires_def)
  then show ?thesis using assms AppEv by (auto split: if_splits option.splits)
next
  case (NavEv n)
  then show ?thesis using assms by (auto split: if_splits option.splits prod.splits simp: page_covered_def)
next
  case (ContactEv c)
  then show ?thesis using assms by (auto split: if_splits simp: page_covered_def)
qed (use assms in auto)

lemma page_run_reachable: "page_reachable p \<Longrightarrow> page_run p es = Some q \<Longrightarrow> page_reachable q"
proof (induction es arbitrary: p)
  case Nil then show ?case by simp
next
  case (Cons e es)
  then obtain r where "page_step p e = Some r" and "page_run r es = Some q"
    by (cases "page_step p e") auto
  then show ?case using Cons page_reachable.step by blast
qed

text \<open>C35: the composed page refines the dialog model: the \<open>App\<close>/\<open>CloneModal\<close> part of
  every state the page reaches is a reachable state of \<open>app_step\<close>, so the claims
  C15--C18 and C30 hold of the whole page; and while the loading screen shows, the
  navigation bar and the contact form, not yet mounted, are in their initial state.\<close>

theorem page_refines_app:
  assumes "page_reachable p"
  shows "reachable (app p) \<and> (is_loading (app p) \<longrightarrow> nav p = init_navbar \<and> contact p = init_contact)"
  using assms
proof (induction rule: page_reachable.induct)
  case start
  show ?case by (simp add: init_page_def reachable.start)
next
  case (step p e q)
  have "reachable (app q)"
    using page_step_app [OF step.hyps(2)] step.IH reachable.step by metis
  moreover have "is_loading (app q) \<longrightarrow> nav q = init_navbar \<and> contact q = init_contact"
    using page_step_loading [OF step.hyps(2)] step.IH by blast
  ultimately show ?case by blast
qed


theorem page_refines_app_witness:
  "\<exists>q. page_run init_page [AppEv LoadTimer, NavEv DesktopClone] = Some q \<and>
       modal_visible (app q) \<and> reachable (app q)"
proof -
  let ?q = "the (page_run init_page [AppEv LoadTimer, NavEv DesktopClone])"
  have r: "page_run init_page [AppEv LoadTimer, NavEv DesktopClone] = Some ?q"
    by (simp add: init_page_def init_app_def page_covered_def modal_visible_def)
  have "page_reachable ?q" using page_run_reachable [OF page_reachable.start r] .
  then have "reachable (app ?q)" using page_refines_app by blast
  moreover have "modal_visible (app ?q)"
    by (simp add: init_page_def init_app_def page_covered_def modal_visible_def)
  ultimately show ?thesis using r by blast
qed

subsection \<open>The mobile menu under the dialog\<close>

text \<open>C36: the clone button of the mobile menu opens the dialog but, unlike the menu's
  links, does not close the menu: the dialog opens over the open menu, and when the
  dialog is closed the menu is still open, its button showing the close icon.\<close>

theorem mobile_clone_keeps_menu:
  assumes "page_step p (NavEv MobileClone) = Some q"
  shows "is_mobile_menu_open (nav q) \<and> modal_visible (app q) \<and>
         (\<exists>r. page_step q (AppEv CloseModal) = Some r \<and>
              is_mobile_menu_open (nav r) \<and> menu_icon (nav r) = ''X'' \<and> \<not> modal_visible (app r))"
  using assms by (auto split: if_splits option.splits simp: page_covered_def modal_visible_def menu_icon_def)

theorem mobile_clone_keeps_menu_witness:
  "\<exists>p q. page_run init_page [AppEv LoadTimer, NavEv ToggleMenu] = Some p \<and>
         page_step p (NavEv MobileClone) = Some q \<and>
         is_mobile_menu_open (nav q) \<and> modal_visible (app q) \<and>
         (\<exists>r. page_step q (AppEv CloseModal) = Some r \<and> is_mobile_menu_open (nav r))"
proof -
  let ?p = "the (page_run init_page [AppEv LoadTimer, NavEv ToggleMenu])"
  have r: "page_run init_page [AppEv LoadTimer, NavEv ToggleMenu] = Some ?p"
    by (simp add: init_page_def init_app_def init_navbar_def page_covered_def modal_visible_def)
  have s: "page_step ?p (NavEv MobileClone) = Some (the (page_step ?p (NavEv MobileClone)))"
    by (simp add: init_page_def init_app_def init_navbar_def page_covered_def modal_visible_def)
  show ?thesis using r s mobile_clone_keeps_menu [OF s] by blast
qed

subsection \<open>The cursor over nested elements\<close>

text \<open>C37: whatever happened before, once the pointer enters an element the cursor's
  hover state is on exactly when that element is itself a link or a button: entering
  an icon inside a link (the \<open>svg\<close> of each social link of \<open>Contact.jsx\<close>, which fills
  the link but for its padding) fires \<open>mouseout\<close> on the link and \<open>mouseover\<close> on the
  icon, so the ring shrinks back although the pointer is still over the link.\<close>

theorem cursor_hover_on_enter:
  "(is_hovering (cursor_run (es @ pointer_enters t) c) \<longleftrightarrow> t = ''A'' \<or> t = ''BUTTON'') \<and>
   map social_link_dom social_links = replicate 3 (Elem ''A'' [Elem ''svg'' []]) \<and>
   \<not> is_hovering (cursor_run (es @ pointer_enters ''A'' @ pointer_enters ''svg'') c)"
  by (simp add: cursor_run_def pointer_enters_def social_links_def social_link_dom_def numeral_3_eq_3)

subsection \<open>The contact form only logs\<close>

lemma contact_step_log:
  assumes "contact_step e c = Some c'"
  shows "set (console_log c') \<subseteq> set (console_log c) \<union>
           {d. cf_name d \<noteq> [] \<and> cf_email d \<noteq> [] \<and> cf_message d \<noteq> []}"
  using assms by (cases e) (auto simp: Let_def split: if_splits)

text \<open>C38: every entry the builder page's contact form has logged had its three fields
  filled (the \<open>required\<close> inputs), and logging is all a submission does: no message
  leaves the page, and the log survives only until the page reloads.\<close>

theorem contact_log_complete:
  assumes "page_reachable p"
  shows "\<forall>d\<in>set (console_log (contact p)). cf_name d \<noteq> [] \<and> cf_email d \<noteq> [] \<and> cf_message d \<noteq> []"
  using assms
proof (induction rule: page_reachable.induct)
  case start
  show ?case by (simp add: init_page_def init_contact_def)
next
  case (step p e q)
  show ?case
  proof (cases e)
    case (ContactEv ce)
    then obtain c' where "contact_step ce (contact p) = Some c'" and "contact q = c'"
      using step.hyps(2) by (auto split: if_splits)
    then show ?thesis using contact_step_log step.IH by blast
  next
    case (AppEv a)
    then have "contact q = contact p \<or> contact q = init_contact"
      using step.hyps(2) by (auto split: if_splits option.splits)
    then show ?thesis using step.IH by (auto simp: init_contact_def)
  next
    case (NavEv n)
    then have "contact q = contact p"
      using step.hyps(2) by (auto split: if_splits option.splits prod.splits)
    then show ?thesis using step.IH by simp
  qed (use step in auto)
qed

theorem contact_log_complete_witness:
  "\<exists>q. page_run init_page [AppEv LoadTimer, ContactEv (ContactEdit CName ''Ann''),
         ContactEv (ContactEdit CEmail ''ann@example.com''), ContactEv (ContactEdit CMessage ''Hi''),
         ContactEv ContactSubmit] = Some q \<and>
       console_log (contact q) = [\<lparr>cf_name = ''Ann'', cf_email = ''ann@example.com'', cf_message = ''Hi''\<rparr>] \<and>
       (\<forall>d\<in>set (console_log (contact q)). cf_name d \<noteq> [] \<and> cf_email d \<noteq> [] \<and> cf_message d \<noteq> [])"
proof -
  let ?es = "[AppEv LoadTimer, ContactEv (ContactEdit CName ''Ann''),
         ContactEv (ContactEdit CEmail ''ann@example.com''), ContactEv (ContactEdit CMessage ''Hi''),
         ContactEv ContactSubmit]"
  let ?q = "the (page_run init_page ?es)"
  have r: "page_run init_page ?es = Some ?q"
    by (simp add: init_page_def init_app_def init_contact_def page_covered_def modal_visible_def Let_def)
  have l: "console_log (contact ?q) = [\<lparr>cf_name = ''Ann'', cf_email = ''ann@example.com'', cf_message = ''Hi''\<rparr>]"
    by (simp add: init_page_def init_app_def init_contact_def page_covered_def modal_visible_def Let_def)
  have "page_reachable ?q" using page_run_reachable [OF page_reachable.start r] .
  then show ?thesis using contact_log_complete r l by blast
qed

end
