(* ===== verification/Mailto.thy ===== *)
theory Mailto
  imports Synthesis
begin

text \<open>
  The contact form of the generated page. Its \<open>handleSubmit\<close>
  (\<open>generatePortfolio.js\<close> lines 509--514) builds a \<open>mailto:\<close> link from the owner's
  e-mail address, bound into the file when it is generated, and the visitor's name and
  message, read at run time, and opens it. \<open>contact_mailto\<close> is the value of that
  template literal. The builtin \<open>encodeURIComponent\<close> is modelled from ECMAScript
  (unreserved characters kept, every other byte of the UTF-8 text written \<open>%XX\<close>);
  \<open>mailto_fields\<close> is how a mail client reads the link (RFC 6068: the URL's fragment
  dropped at the first \<open>#\<close>, the address up to \<open>?\<close>, then header fields separated by
  \<open>&\<close>, each a name and a value split at the first \<open>=\<close> and percent-decoded).
\<close>

definition uri_unreserved :: "char \<Rightarrow> bool" where
  "uri_unreserved c \<longleftrightarrow>
     (let n = (of_char c :: nat)
      in (48 \<le> n \<and> n \<le> 57) \<or> (65 \<le> n \<and> n \<le> 90) \<or> (97 \<le> n \<and> n \<le> 122) \<or>
         c \<in> set ''-_.!~*'()'')"

definition uri_hex :: "nat \<Rightarrow> char" where
  "uri_hex d = ''0123456789ABCDEF'' ! d"

definition uri_hex_val :: "char \<Rightarrow> nat option" where
  "uri_hex_val c =
     (let n = (of_char c :: nat)
      in if 48 \<le> n \<and> n \<le> 57 then Some (n - 48)
         else if 65 \<le> n \<and> n \<le> 70 then Some (n - 55)
         else if 97 \<le> n \<and> n \<le> 102 then Some (n - 87) else None)"

definition pct_encode :: "char \<Rightarrow> string" where
  "pct_encode c = [CHR ''%'', uri_hex (of_char c div 16), uri_hex (of_char c mod 16)]"

definition encodeURIComponent :: "string \<Rightarrow> string" where
  "encodeURIComponent s = concat (map (\<lambda>c. if uri_unreserved c then [c] else pct_encode c) s)"

fun pct_decode :: "string \<Rightarrow> string option" where
  "pct_decode [] = Some []"
| "pct_decode (c # cs) =
     (if c = CHR ''%'' then
        (case cs of
           h1 # h2 # rest \<Rightarrow>
             (case (uri_hex_val h1, uri_hex_val h2) of
                (Some a, Some b) \<Rightarrow> map_option (Cons (char_of (16 * a + b))) (pct_decode rest)
              | _ \<Rightarrow> None)
         | _ \<Rightarrow> None)
      else map_option (Cons c) (pct_decode cs))"

definition hfield :: "string \<Rightarrow> (string \<times> string) option" where
  "hfield f =
     (case (pct_decode (takeWhile (\<lambda>c. c \<noteq> CHR ''='') f),
            pct_decode (drop 1 (dropWhile (\<lambda>c. c \<noteq> CHR ''='') f))) of
        (Some k, Some v) \<Rightarrow> Some (k, v)
      | _ \<Rightarrow> None)"

definition mailto_fields :: "string \<Rightarrow> (string \<times> (string \<times> string) list) option" where
  "mailto_fields u =
     (if take 7 u = ''mailto:'' then
        (let r = takeWhile (\<lambda>c. c \<noteq> CHR ''#'') (drop 7 u);
             addr = takeWhile (\<lambda>c. c \<noteq> CHR ''?'') r;
             q = drop 1 (dropWhile (\<lambda>c. c \<noteq> CHR ''?'') r)
         in if CHR ''?'' \<notin> set r then Some (addr, [])
            else map_option (Pair addr) (those (map hfield (js_split (CHR ''&'') q))))
      else None)"

text \<open>The link the generated \<open>handleSubmit\<close> opens, for the owner's form \<open>fd\<close> and the
  visitor's name and message.\<close>

definition contact_mailto :: "form_data \<Rightarrow> string \<Rightarrow> string \<Rightarrow> string" where
  "contact_mailto fd vname msg =
     ''mailto:'' @ email fd @ ''?subject=Portfolio Contact from '' @ vname @ ''&body=''
     @ encodeURIComponent msg"


subsection \<open>Percent-encoding round trip\<close>

lemma uri_hex_val_hex: "d < 16 \<Longrightarrow> uri_hex_val (uri_hex d) = Some d"
proof -
  assume "d < 16"
  then have "d \<in> set [0..<16]" by simp
  then show ?thesis by (simp add: upt_rec uri_hex_val_def uri_hex_def; elim disjE; simp)
qed

lemma pct_decode_pct_encode: "pct_decode (pct_encode c @ s) = map_option (Cons c) (pct_decode s)"
proof -
  let ?n = "of_char c :: nat"
  have "?n < 256" by (rule nat_of_char_less_256)
  then have hi: "uri_hex_val (uri_hex (?n div 16)) = Some (?n div 16)"
    by (intro uri_hex_val_hex) (simp add: div_less_iff_less_mult)
  have lo: "uri_hex_val (uri_hex (?n mod 16)) = Some (?n mod 16)"
    by (intro uri_hex_val_hex) simp
  have "char_of (16 * (?n div 16) + ?n mod 16) = c" by simp
  then show ?thesis using hi lo by (simp add: pct_encode_def)
qed

lemma percent_reserved: "\<not> uri_unreserved (CHR ''%'')"
  by (simp add: uri_unreserved_def)

lemma pct_decode_encodeURIComponent: "pct_decode (encodeURIComponent m) = Some m"
proof (induction m)
  case Nil then show ?case by (simp add: encodeURIComponent_def)
next
  case (Cons c m)
  show ?case
  proof (cases "uri_unreserved c")
    case True
    then have "c \<noteq> CHR ''%''" using percent_reserved by blast
    then show ?thesis using True Cons by (simp add: encodeURIComponent_def)
  next
    case False
    then show ?thesis using Cons
      by (simp add: encodeURIComponent_def pct_decode_pct_encode del: pct_decode.simps)
  qed
qed

lemma pct_decode_plain: "CHR ''%'' \<notin> set s \<Longrightarrow> pct_decode s = Some s"
  by (induction s) auto

lemma encodeURIComponent_chars:
  "c \<in> set (encodeURIComponent m) \<Longrightarrow> uri_unreserved c \<or> c = CHR ''%'' \<or> c \<in> set ''0123456789ABCDEF''"
proof -
  have hex: "uri_hex d \<in> set ''0123456789ABCDEF''" if "d < 16" for d
    using that by (simp add: uri_hex_def del: set_simps)
  assume "c \<in> set (encodeURIComponent m)"
  then obtain x where "x \<in> set m" and "c \<in> set (if uri_unreserved x then [x] else pct_encode x)"
    by (auto simp: encodeURIComponent_def)
  moreover have "(of_char x :: nat) div 16 < 16"
    using nat_of_char_less_256 [of x] by (simp add: div_less_iff_less_mult)
  ultimately show ?thesis
    using hex [of "of_char x div 16"] hex [of "of_char x mod 16"]
    by (auto simp: pct_encode_def split: if_splits)
qed

lemma encodeURIComponent_delims:
  "CHR ''&'' \<notin> set (encodeURIComponent m) \<and> CHR ''#'' \<notin> set (encodeURIComponent m)"
  using encodeURIComponent_chars [of "CHR ''&''" m] encodeURIComponent_chars [of "CHR ''#''" m]
  by (auto simp: uri_unreserved_def)


subsection \<open>The link the generated form opens\<close>

text \<open>C39: the generated \<open>Contact.jsx\<close> holds the handler's template literal with the
  owner's address bound in, and for a visitor's name without \<open>&\<close>, \<open>#\<close> or \<open>%\<close>
  (and an owner's address without \<open>?\<close> or \<open>#\<close>) the mail client reads the link as
  the owner's address, the subject naming the visitor, and the message as the body,
  exactly, whatever characters it contains.\<close>

theorem contact_mailto_roundtrip:
  assumes n: "CHR ''&'' \<notin> set n" "CHR ''#'' \<notin> set n" "CHR ''%'' \<notin> set n"
    and e: "CHR ''?'' \<notin> set (email fd)" "CHR ''#'' \<notin> set (email fd)"
  shows "sublist (''    const mailtoLink = `mailto:'' @ email fd @
            ''?subject=Portfolio Contact from ${formData.name}&body=${encodeURIComponent(formData.message)}`;'')
           (generateContactContent fd) \<and>
         mailto_fields (contact_mailto fd n m) =
           Some (email fd, [(''subject'', ''Portfolio Contact from '' @ n), (''body'', m)])"
proof
  show "sublist (''    const mailtoLink = `mailto:'' @ email fd @
            ''?subject=Portfolio Contact from ${formData.name}&body=${encodeURIComponent(formData.message)}`;'')
           (generateContactContent fd)"
    unfolding generateContactContent_def by (intro sublist_line_tpl [OF sublist_order.order.refl]) simp
next
  let ?enc = "encodeURIComponent m"
  let ?subj = "''subject=Portfolio Contact from '' @ n"
  let ?rest = "?subj @ CHR ''&'' # ''body='' @ ?enc"
  have d: "CHR ''&'' \<notin> set ?enc" "CHR ''#'' \<notin> set ?enc"
    using encodeURIComponent_delims by blast+
  have u: "contact_mailto fd n m = ''mailto:'' @ email fd @ CHR ''?'' # ?rest"
    by (simp add: contact_mailto_def)
  have r: "takeWhile (\<lambda>c. c \<noteq> CHR ''#'') (email fd @ CHR ''?'' # ?rest) = email fd @ CHR ''?'' # ?rest"
    using n e d by (simp add: takeWhile_eq_all_conv) blast
  have a: "takeWhile (\<lambda>c. c \<noteq> CHR ''?'') (email fd @ CHR ''?'' # ?rest) = email fd"
    by (subst takeWhile_append2) (use e in auto)
  have q: "drop 1 (dropWhile (\<lambda>c. c \<noteq> CHR ''?'') (email fd @ CHR ''?'' # ?rest)) = ?rest"
    by (subst dropWhile_append2) (use e in auto)
  have sp: "js_split (CHR ''&'') ?rest = [?subj, ''body='' @ ?enc]"
    using n d by (simp add: js_split_append_sep js_split_no_sep)
  have hs: "hfield ?subj = Some (''subject'', ''Portfolio Contact from '' @ n)"
    using n by (simp add: hfield_def pct_decode_plain)
  have hb: "hfield (''body='' @ ?enc) = Some (''body'', m)"
    by (simp add: hfield_def pct_decode_encodeURIComponent)
  show "mailto_fields (contact_mailto fd n m) =
          Some (email fd, [(''subject'', ''Portfolio Contact from '' @ n), (''body'', m)])"
  proof -
    have t: "take 7 (contact_mailto fd n m) = ''mailto:''" by (simp add: u)
    have dr: "drop 7 (contact_mailto fd n m) = email fd @ CHR ''?'' # ?rest" by (simp add: u)
    have qm: "(CHR ''?'' \<notin> set (email fd @ CHR ''?'' # ?rest)) = False" by simp
    have "mailto_fields (contact_mailto fd n m) =
            map_option (Pair (email fd)) (those (map hfield [?subj, ''body='' @ ?enc]))"
      by (simp only: mailto_fields_def Let_def t dr r a q sp qm if_True if_False simp_thms)
    then show ?thesis using hs hb by simp
  qed
qed

theorem contact_mailto_roundtrip_witness:
  "mailto_fields (contact_mailto (initial_form_data\<lparr>email := ''ann@site.dev''\<rparr>) ''Bob'' ''Hi & bye #1'') =
     Some (''ann@site.dev'', [(''subject'', ''Portfolio Contact from Bob''), (''body'', ''Hi & bye #1'')])"
proof -
  have "CHR ''&'' \<notin> set ''Bob'' \<and> CHR ''#'' \<notin> set ''Bob'' \<and> CHR ''%'' \<notin> set ''Bob'' \<and>
        CHR ''?'' \<notin> set (email (initial_form_data\<lparr>email := ''ann@site.dev''\<rparr>)) \<and>
        CHR ''#'' \<notin> set (email (initial_form_data\<lparr>email := ''ann@site.dev''\<rparr>))" by simp
  then show ?thesis
    using contact_mailto_roundtrip [of "''Bob''" "initial_form_data\<lparr>email := ''ann@site.dev''\<rparr>" "''Hi & bye #1''"]
    by simp
qed


end
