(* ===== verification/Static_Sections.thy ===== *)
theory Static_Sections
  imports Transform
begin

text \<open>
  The sections of the builder's page that hold fixed data and no state: the introduction
  (\<open>src/src/components/Hero.jsx\<close>), \<open>About.jsx\<close> and \<open>Skills.jsx\<close>. Each is its data
  as the source writes it and the values the markup computes from it: the skill bar's
  width \<open>`${skill.level}%`\<close> and label, and the targets of the introduction's buttons,
  which have neither an \<open>onClick\<close> nor an \<open>href\<close>. Lemmas: the skill data is well formed
  for the markup (levels are percentages, the names used as React keys are distinct),
  unlike the skill meter the generator writes, whose keys are the user's tokens; and
  the introduction's buttons lead nowhere, unlike the generated page's links.
\<close>

subsection \<open>Introduction\<close>

record typewriter_word =
  tw_text :: string
  tw_class :: string

definition hero_words :: "typewriter_word list" where
  "hero_words =
     [\<lparr>tw_text = ''Hi,'', tw_class = ''text-white''\<rparr>,
      \<lparr>tw_text = ''We are'', tw_class = ''text-white''\<rparr>,
      \<lparr>tw_text = ''John'', tw_class = ''text-purple-500''\<rparr>,
      \<lparr>tw_text = ''Doe'', tw_class = ''text-purple-500''\<rparr>]"

text \<open>The two buttons of lines 45--50, each with where a click leads: a \<open>button\<close> with no
  \<open>onClick\<close> outside a form leads nowhere (\<open>None\<close>).\<close>

record hero_button =
  hb_label :: string
  hb_target :: "string option"

definition hero_buttons :: "hero_button list" where
  "hero_buttons =
     [\<lparr>hb_label = ''View Projects'', hb_target = None\<rparr>,
      \<lparr>hb_label = ''Contact Me'', hb_target = None\<rparr>]"

subsection \<open>About\<close>

record about_card =
  ac_title :: string
  ac_description :: string

definition about_cards :: "about_card list" where
  "about_cards =
     [\<lparr>ac_title = ''Clean Code'',
       ac_description = ''Writing maintainable and scalable code with best practices''\<rparr>,
      \<lparr>ac_title = ''Creative Design'',
       ac_description = ''Bringing ideas to life with stunning visual experiences''\<rparr>,
      \<lparr>ac_title = ''Performance'',
       ac_description = ''Optimizing for speed and exceptional user experience''\<rparr>]"

subsection \<open>Skills\<close>

record showcase_skill =
  ss_name :: string
  ss_level :: nat
  ss_category :: string

definition showcase_skills :: "showcase_skill list" where
  "showcase_skills =
     [\<lparr>ss_name = ''React'', ss_level = 95, ss_category = ''Frontend''\<rparr>,
      \<lparr>ss_name = ''Three.js'', ss_level = 85, ss_category = ''3D Graphics''\<rparr>,
      \<lparr>ss_name = ''Node.js'', ss_level = 90, ss_category = ''Backend''\<rparr>,
      \<lparr>ss_name = ''TypeScript'', ss_level = 88, ss_category = ''Language''\<rparr>,
      \<lparr>ss_name = ''MongoDB'', ss_level = 82, ss_category = ''Database''\<rparr>,
      \<lparr>ss_name = ''GraphQL'', ss_level = 78, ss_category = ''API''\<rparr>]"

record category_card =
  cc_title :: string
  cc_description :: string
  cc_link :: string

definition skill_category_cards :: "category_card list" where
  "skill_category_cards =
     [\<lparr>cc_title = ''Frontend Development'', cc_description = ''React, Vue, Angular, Next.js'', cc_link = ''#''\<rparr>,
      \<lparr>cc_title = ''Backend Development'', cc_description = ''Node.js, Express, Python, Django'', cc_link = ''#''\<rparr>,
      \<lparr>cc_title = ''3D & Animation'', cc_description = ''Three.js, Spline, Blender, WebGL'', cc_link = ''#''\<rparr>,
      \<lparr>cc_title = ''Database & Cloud'', cc_description = ''MongoDB, PostgreSQL, AWS, Docker'', cc_link = ''#''\<rparr>,
      \<lparr>cc_title = ''Design Tools'', cc_description = ''Figma, Adobe XD, Photoshop, Illustrator'', cc_link = ''#''\<rparr>,
      \<lparr>cc_title = ''DevOps & Tools'', cc_description = ''Git, CI/CD, Kubernetes, Testing'', cc_link = ''#''\<rparr>]"

text \<open>The bar's animated width and the label under it (lines 96, 101).\<close>

definition skill_bar_width :: "showcase_skill \<Rightarrow> string" where
  "skill_bar_width sk = js_nat_str (ss_level sk) @ ''%''"

text \<open>What the markup needs of a list of skills: each level a percentage and the names,
  the React \<open>key\<close> of each card (line 83), distinct.\<close>

definition skills_wf :: "showcase_skill list \<Rightarrow> bool" where
  "skills_wf sks \<longleftrightarrow> list_all (\<lambda>sk. ss_level sk \<le> 100) sks \<and> distinct (map ss_name sks)"

subsection \<open>Properties of the fixed data\<close>

lemma showcase_skills_wf: "skills_wf showcase_skills"
  by (simp add: skills_wf_def showcase_skills_def)

lemma skill_bar_widths:
  "map skill_bar_width showcase_skills = [''95%'', ''85%'', ''90%'', ''88%'', ''82%'', ''78%'']"
  unfolding skill_bar_width_def showcase_skills_def by code_simp

text \<open>The skill meter the generator writes keys its cards by \<open>skill.name\<close> too
  (\<open>generatePortfolio.js\<close> line 454), but its names are the user's tokens, which may
  repeat: two equal skills give two cards with the same key.\<close>

lemma generated_skill_keys_repeat:
  "map sk_name (skill_entries env (initial_form_data\<lparr>skills := ''React, React''\<rparr>)) = [''React'', ''React'']"
  by (simp add: skill_entries_def skill_tokens_def initial_form_data_def js_defs)

end
