(* ===== verification/Spec2Isabelle.thy ===== *)
theory Spec2Isabelle
  imports Clone_Modal Carousel Scroll_Progress Schema Page Mailto Static_Sections
begin

text \<open>
  \<^bold>\<open>A verification library for buildfolio's portfolio generator.\<close>

  The program: a React front end (\<open>src/src/\<close>). \<open>App.jsx\<close> shows a loading screen, then
  the builder's page, whose navigation bar opens the clone dialog
  (\<open>components/CloneModal.jsx\<close>). The dialog collects a content record \<open>formData\<close> and
  calls \<open>generatePortfolio(formData)\<close> (\<open>utils/generatePortfolio.js\<close>), which derives
  data from the record (skill tokens, project records, a slug), binds it into source
  templates, one per file of a standalone Vite/React project, adds the files to a JSZip
  archive and hands the serialised archive to \<open>saveAs\<close>. The other components of
  \<open>src/src/components\<close> present the builder's own page.

  Theories, bottom-up:
  \<^item> \<open>Prelude\<close>: the collections \<open>js_defs\<close> (definitions of the modelled JavaScript
    builtins) and \<open>gen_defs\<close> (of the generator's derived data), the type
    \<open>js_string\<close>, and shared facts on lists.
  \<^item> \<open>Js_Builtins\<close>: \<open>String.prototype.split/join/trim/toLowerCase\<close>, the
    \<open>replace(/\s+/g, '-')\<close> of the slug, truthiness of a string, \<open>Array.prototype.map\<close>
    with its index, and the decimal text of an array index. A JavaScript string is a
    list of UTF-8 bytes; white space and case are the ASCII ones. Lemmas: the split/join
    round trips, trim idempotent and a sub-list, lower-casing idempotent, the decimal
    text injective.
  \<^item> \<open>Js_Number\<close>: binary64 arithmetic as exact rationals rounded to nearest, ties to
    even (\<open>fp_round\<close>, with \<open>fp_add\<close>, \<open>fp_sub\<close>, \<open>fp_mul\<close>, \<open>fp_div\<close>), \<open>Math.round\<close>,
    the remainder \<open>%\<close>, and \<open>Math.random()\<close> as a 53-bit word \<open>k\<close> read as
    \<open>k / 2\<^sup>5\<^sup>3\<close>; the engine record \<open>js_env\<close> carries the random source and
    \<open>Number::toString\<close>. Lemmas: the exponent bounds of \<open>msb_exp\<close>, rounding is
    monotone (\<open>fp_round_mono\<close>) and exact on the small integers used.
  \<^item> \<open>Form_Data\<close>: the records \<open>form_data\<close> and \<open>project\<close> of \<open>CloneModal.jsx\<close>
    (lines 8--21) and the dialog's initial record.
  \<^item> \<open>Transform\<close>: the derived data (\<open>skill_tokens\<close>, \<open>skill_entries\<close>,
    \<open>kept_projects\<close>, \<open>normalize_projects\<close>, \<open>hero_names\<close>, \<open>slugify\<close>), with the
    claims on their shape (C3--C5, C8), the bounds of a skill level (C25), the
    departures from the spec (C9, C12--C14), and the equivalence of the code with the
    spec's formulation: the slug (C33) and the contiguous project numbering as one pass
    (\<open>norm_ref\<close>, C34).
  \<^item> \<open>Json\<close>: \<open>JSON.stringify(v, null, 2)\<close>, and a reader of its output
    (\<open>json_parse\<close>, recursive descent with fuel); lemmas: the string quoting round trip,
    \<open>json_parse (json_stringify v) = Some v\<close> for every value whose numbers print
    as numerals, and that the reader's fuel never runs out (\<open>parse_fuel\<close>).
  \<^item> \<open>Templates\<close>: the six fixed templates (\<open>getNavbarComponent\<close> \<dots>
    \<open>getMainContent\<close>, lines 698--1043), byte for byte; a template literal is the list
    of its lines joined by a newline (\<open>tpl\<close>).
  \<^item> \<open>Synthesis\<close>: the ten generating functions \<open>generateAppContent\<close> \<dots>
    \<open>generateReadme\<close> (lines 46--695), each the template of the source with its
    \<open>${...}\<close> holes filled by the derived data; claims C6, C7 on the projects section,
    C10, C11 on the generated text, and C28, C29: the data embedded in \<open>Projects.jsx\<close>
    and \<open>Skills.jsx\<close> reads back exactly.
  \<^item> \<open>Archive\<close>: the part of JSZip the generator drives: an insertion-ordered table of
    entries threaded through the state monad, \<open>folder\<close> and \<open>file\<close> with the creation
    of missing parent folders; lemmas that evaluate a call whose folder exists.
  \<^item> \<open>Pipeline\<close>: \<open>generatePortfolio\<close> up to the \<open>generateAsync\<close> call
    (\<open>build_archive\<close>, lines 4--40) and the download name (line 43); claim C1 on the
    archive's entries.
  \<^item> \<open>Clone_Modal\<close>: \<open>App.jsx\<close> and \<open>CloneModal.jsx\<close> as a step function \<open>app_step\<close> on
    the record \<open>app_state\<close> over the events \<open>app_event\<close> (loading timer, opening and
    closing, each input, adding and updating projects, submission, the serialisation
    resolving or rejecting in any order, the closing timer), the reachable states as an
    inductive set, and the project objects on a store with in-place updates. Claims:
    every download is the generator's output for a form with its required fields
    (C15), at most one generation at a time (C16), "generating" always ends (C17), a
    failure keeps the form (C18), the store refines the value model (C19), and the
    closing timer closes a reopened dialog (C20), and the timers and promises alone
    come to rest (C30: each such event uses up the measure \<open>pending\<close>).
  \<^item> \<open>Carousel\<close>: the project carousel of the builder page (\<open>Projects.jsx\<close>) and of the
    generated page: index bounds (C21, C22), previous/next round trip (C23), every
    project reached (C24); the thumbnails' highlight and captions, whose separator is
    stored mis-encoded (\<open>thumbnail_caption_mojibake\<close>).
  \<^item> \<open>Scroll_Progress\<close>: the reading-progress indicator (\<open>ScrollProgress.jsx\<close>) with
    binary64 rounding: bounds for an in-range scroll (C26), no clamping otherwise (C27).
  \<^item> \<open>Schema\<close>: types of JSON values as the generated code reads them (\<open>jtype\<close>,
    \<open>has_type\<close>), and the claims that the embedded project and skill arrays have the
    types the gallery and the skill meter read (C31, C32).
  \<^item> \<open>Page\<close>: the builder's page as one step function \<open>page_step\<close> on \<open>page_state\<close>:
    the dialog model composed with \<open>Navbar.jsx\<close> (\<open>navbar_click\<close>, \<open>handleScroll\<close>),
    \<open>CustomCursor.jsx\<close> (\<open>cursor_step\<close>), \<open>ScrollProgress.jsx\<close> and \<open>Contact.jsx\<close>
    (\<open>contact_step\<close>), with the mounting of Navbar and Contact when loading ends and
    the dialog's overlay covering the page. Claims: the page refines the dialog model
    (C35), the mobile menu stays open under the dialog (C36), the cursor's hover state
    over nested elements such as the icon-only social links (C37), the contact form only
    logs complete entries (C38). The bar's class and menu icon and the contact section's
    fixed lists are the values the markup renders from the state.
  \<^item> \<open>Static_Sections\<close>: the fixed data of \<open>Hero.jsx\<close>, \<open>About.jsx\<close> and
    \<open>Skills.jsx\<close> and what the markup computes from it; the skill data is well formed
    for its React keys, unlike the generated skill meter's (\<open>generated_skill_keys_repeat\<close>),
    and the introduction's buttons lead nowhere.
  \<^item> \<open>Mailto\<close>: the generated contact form's \<open>mailto:\<close> link (\<open>contact_mailto\<close>), with
    \<open>encodeURIComponent\<close> and a mail client's reading of the link; the message
    round-trips (C39) but the unencoded name injects header fields or cuts the link (C40).
  \<^item> this theory: claim C2, which ties the archive name to the package name.

  Bounds and fuel: the number model is exact for the values that arise (non-negative,
  far from overflow and subnormals). The JSON reader's fuel is twice the length of its
  input: every call consumes input, an element at least two characters, so more fuel
  never changes the result (\<open>parse_fuel\<close>, \<open>json_parse_fuel\<close>) and the reader is
  total; the printed value needs less (\<open>jfuel_le_length\<close>). Every other function
  is total; the non-structural ones (\<open>zip_add\<close>, \<open>js_ws_to_hyphen\<close>, \<open>bitlen\<close>) carry a
  measure. Promises and timers of the page are explicit in its state, with no bound on
  their number: the invariant C16 shows that at most one of each exists.

  Not modelled: the serialisation of the archive to bytes (\<open>generateAsync\<close>) and the
  download (\<open>saveAs\<close>), which are library I/O (their outcome is the event
  \<open>GenResolve\<close> or \<open>GenReject\<close>); \<open>Number::toString\<close> (a parameter); the browser's
  format checks of \<open>email\<close>/\<open>url\<close> inputs; \<open>window.open\<close> of the generated contact
  form; layout, animation and the 3D scenes (the spring transitions of the cursor, the
  hash navigation of the links, the Spline scenes of \<open>Hero\<close> and \<open>About\<close>), which
  compute nothing the program reads back; the import lines of each file; non-ASCII white
  space and case mapping.
\<close>

text \<open>C2: the package that \<open>package.json\<close> in the archive declares is named as the
  downloaded archive without its \<open>.zip\<close> extension: both are the slug of the owner's
  name followed by \<open>-portfolio\<close>.\<close>

theorem package_name_matches_archive:
  \<open>\<exists>pj. map_of (portfolio_files env fd) ''package.json'' = Some (ZFile pj) \<and>
        sublist (''  "name": "'' @ take (length (archive_filename fd) - 4) (archive_filename fd) @ ''",'') pj\<close>
proof -
  have "take (length (archive_filename fd) - 4) (archive_filename fd) = slugify (name fd) @ ''-portfolio''"
    by (simp add: archive_filename_def)
  moreover have \<open>sublist (''  "name": "'' @ slugify (name fd) @ ''-portfolio",'')
                   (generatePackageJson (name fd))\<close>
    unfolding generatePackageJson_def by (intro sublist_line_tpl [OF sublist_order.order.refl]) simp
  ultimately show ?thesis by (simp add: portfolio_files_eq)
qed

end
